(* ===== verification/Prelude.thy ===== *)
theory Prelude
  imports Complex_Main
begin

text \<open>
  Shared vocabulary of the development.  The C++ macros \<open>src/gr1.cpp\<close> and
  \<open>src/gr2.cpp\<close> compute with \<open>Double_t\<close> and \<open>Float_t\<close>; both are modelled as
  \<open>real\<close> (the abbreviation \<open>double\<close>), so rounding is not modelled.  A value that
  the C++ code would make non-finite (a logarithm of a non-positive number, a division by
  zero) is \<open>None\<close> of an option, never a HOL default.  The one integer conversion of
  the code, \<open>Int_t n = (x - xo)/h\<close>, truncates towards zero and is undefined outside
  the range of the 32-bit \<open>Int_t\<close>: \<open>double_to_Int_t\<close> returns \<open>None\<close> there.
  The theory also holds the generic lemmas on powers, sums and truncation that the
  component theories share, and the collection \<open>model_defs\<close> of the definitions that
  a concrete evaluation unfolds.
\<close>

type_synonym double = real

named_theorems model_defs "definitions of the model unfolded when it is evaluated on concrete inputs"

subsection \<open>C conversion of a double to \<open>Int_t\<close>\<close>

definition c_trunc :: "real \<Rightarrow> int" where
  "c_trunc q = (if 0 \<le> q then \<lfloor>q\<rfloor> else \<lceil>q\<rceil>)"

definition int_t_min :: int where
  "int_t_min = - (2 ^ 31)"

definition int_t_max :: int where
  "int_t_max = 2 ^ 31 - 1"

definition double_to_Int_t :: "double \<Rightarrow> int option" where
  "double_to_Int_t q =
     (if int_t_min \<le> c_trunc q \<and> c_trunc q \<le> int_t_max then Some (c_trunc q) else None)"

declare c_trunc_def [model_defs] int_t_min_def [model_defs] int_t_max_def [model_defs]
  double_to_Int_t_def [model_defs]

lemma c_trunc_of_nat [simp]: "c_trunc (real n) = int n"
  by (simp add: c_trunc_def)

lemma c_trunc_nonneg: "0 \<le> q \<Longrightarrow> c_trunc q = \<lfloor>q\<rfloor>"
  by (simp add: c_trunc_def)

lemma c_trunc_abs_le: "\<bar>real_of_int (c_trunc q)\<bar> \<le> \<bar>q\<bar>"
  by (auto simp: c_trunc_def)

lemma c_trunc_lt_one_nat: "q < 1 \<Longrightarrow> nat (c_trunc q) = 0"
  by (auto simp: c_trunc_def)

lemma double_to_Int_t_range:
  "\<bar>q\<bar> < 2 ^ 31 \<Longrightarrow> double_to_Int_t q = Some (c_trunc q)"
proof -
  assume q: "\<bar>q\<bar> < 2 ^ 31"
  have "\<bar>real_of_int (c_trunc q)\<bar> < 2 ^ 31"
    using c_trunc_abs_le [of q] q by linarith
  then have "\<bar>c_trunc q\<bar> < 2 ^ 31"
    by (metis of_int_abs of_int_less_numeral_power_cancel_iff)
  then show ?thesis
    by (auto simp: double_to_Int_t_def int_t_min_def int_t_max_def)
qed

lemma double_to_Int_t_Some: "double_to_Int_t q = Some n \<Longrightarrow> n = c_trunc q"
  by (simp add: double_to_Int_t_def split: if_splits)

lemma double_to_Int_t_Some_nonneg:
  "double_to_Int_t q = Some n \<Longrightarrow> 0 \<le> q \<Longrightarrow> n = \<lfloor>q\<rfloor>"
  by (auto simp: double_to_Int_t_def c_trunc_nonneg split: if_splits)

lemma double_to_Int_t_Some_neg:
  "double_to_Int_t q = Some n \<Longrightarrow> q < 1 \<Longrightarrow> nat n = 0"
  using double_to_Int_t_Some c_trunc_lt_one_nat by metis

subsection \<open>Powers of numbers in the unit interval\<close>

lemma pow_diff_le:
  fixes a b :: real
  assumes "0 \<le> a" "a \<le> 1" "0 \<le> b" "b \<le> 1"
  shows "\<bar>a ^ n - b ^ n\<bar> \<le> real n * \<bar>a - b\<bar>"
proof (induction n)
  case 0
  then show ?case by simp
next
  case (Suc n)
  have "a ^ Suc n - b ^ Suc n = a * (a ^ n - b ^ n) + b ^ n * (a - b)"
    by (simp add: algebra_simps)
  then have "\<bar>a ^ Suc n - b ^ Suc n\<bar> \<le> \<bar>a\<bar> * \<bar>a ^ n - b ^ n\<bar> + \<bar>b ^ n\<bar> * \<bar>a - b\<bar>"
    by (metis abs_mult abs_triangle_ineq)
  also have "\<dots> \<le> 1 * (real n * \<bar>a - b\<bar>) + 1 * \<bar>a - b\<bar>"
    using Suc assms by (intro add_mono mult_mono) (auto simp: power_le_one)
  finally show ?case
    by (simp add: algebra_simps)
qed

subsection \<open>Weighted least squares in one parameter\<close>

text \<open>
  A list of triples \<open>(w, a, b)\<close> stands for the terms \<open>w (b - a c)\<^sup>2\<close> of a
  weighted sum of squares in one unknown \<open>c\<close>.  With non-negative weights the sum is
  least at \<open>c = (\<Sum> w a b) / (\<Sum> w a\<^sup>2)\<close>.
\<close>

lemma wsum_expand:
  "(\<Sum>(w, a, b)\<leftarrow>xs. w * (b - a * c)\<^sup>2) =
     (\<Sum>(w, a, b)\<leftarrow>xs. w * b\<^sup>2) - 2 * c * (\<Sum>(w, a, b)\<leftarrow>xs. w * a * b)
       + c\<^sup>2 * (\<Sum>(w, a, b)\<leftarrow>xs. w * a\<^sup>2)"
  for c :: real
  by (induction xs) (auto simp: algebra_simps power2_eq_square)

lemma wsum_sq_zero:
  assumes "\<forall>(w, a, b)\<in>set xs. 0 \<le> (w::real)" "(\<Sum>(w, a, b)\<leftarrow>xs. w * a\<^sup>2) = 0"
  shows "(\<Sum>(w, a, b)\<leftarrow>xs. w * a * b) = 0"
  using assms
proof (induction xs)
  case Nil
  then show ?case by simp
next
  case (Cons x xs)
  obtain w a b where x: "x = (w, a, b)" by (cases x)
  have w: "0 \<le> w" using Cons.prems(1) x by auto
  have rest: "0 \<le> (\<Sum>(w, a, b)\<leftarrow>xs. w * a\<^sup>2)"
    using Cons.prems(1) by (intro sum_list_nonneg) auto
  have "0 \<le> w * a\<^sup>2" using w by simp
  moreover have "(\<Sum>(w, a, b)\<leftarrow>x # xs. w * a\<^sup>2) = w * a\<^sup>2 + (\<Sum>(w, a, b)\<leftarrow>xs. w * a\<^sup>2)"
    using x by simp
  ultimately have wa: "w * a\<^sup>2 = 0" and xs0: "(\<Sum>(w, a, b)\<leftarrow>xs. w * a\<^sup>2) = 0"
    using rest Cons.prems(2) by linarith+
  from wa have "w * a * b = 0" by simp
  moreover have "(\<Sum>(w, a, b)\<leftarrow>xs. w * a * b) = 0"
    using Cons.IH Cons.prems(1) xs0 by simp
  ultimately
  show ?case using x by simp
qed

lemma wlsq_min:
  fixes c :: real
  assumes "\<forall>(w, a, b)\<in>set xs. 0 \<le> w"
  defines "cs \<equiv> (\<Sum>(w, a, b)\<leftarrow>xs. w * a * b) / (\<Sum>(w, a, b)\<leftarrow>xs. w * a\<^sup>2)"
  shows "(\<Sum>(w, a, b)\<leftarrow>xs. w * (b - a * cs)\<^sup>2) \<le> (\<Sum>(w, a, b)\<leftarrow>xs. w * (b - a * c)\<^sup>2)"
proof -
  let ?S = "\<Sum>(w, a, b)\<leftarrow>xs. w * a\<^sup>2" and ?T = "\<Sum>(w, a, b)\<leftarrow>xs. w * a * b"
  have S: "0 \<le> ?S"
    using assms(1) by (intro sum_list_nonneg) auto
  show ?thesis
  proof (cases "?S = 0")
    case True
    with wsum_sq_zero [OF assms(1)] have "?T = 0" by simp
    with True show ?thesis by (simp add: wsum_expand)
  next
    case False
    with S have Sp: "0 < ?S" by simp
    have "0 \<le> (c * ?S - ?T)\<^sup>2 / ?S" using Sp by simp
    then have "cs\<^sup>2 * ?S - 2 * cs * ?T \<le> c\<^sup>2 * ?S - 2 * c * ?T"
      using Sp unfolding cs_def by (simp add: field_simps power2_eq_square)
    then show ?thesis
      by (simp add: wsum_expand)
  qed
qed
lemma wsum_proportional:
  fixes c :: real
  shows "\<forall>(w, a, b)\<in>set xs. b = a * c \<Longrightarrow>
           (\<Sum>(w, a, b)\<leftarrow>xs. w * a * b) = c * (\<Sum>(w, a, b)\<leftarrow>xs. w * a\<^sup>2)"
  by (induction xs) (auto simp: algebra_simps power2_eq_square)

lemma sum_list_map_pos:
  fixes f :: "'a \<Rightarrow> real"
  assumes "\<forall>x\<in>set xs. 0 \<le> f x" "x \<in> set xs" "0 < f x"
  shows "0 < (\<Sum>y\<leftarrow>xs. f y)"
proof -
  have "f x \<le> (\<Sum>y\<leftarrow>xs. f y)"
    using assms(1,2) by (intro member_le_sum_list) auto
  then show ?thesis using assms(3) by linarith
qed

subsection \<open>Lists of options\<close>

lemma those_map_Some:
  "(\<And>x. x \<in> set xs \<Longrightarrow> f x = Some (h x)) \<Longrightarrow> those (map f xs) = Some (map h xs)"
  by (induction xs) auto

lemma zip_map_self: "zip xs (map h xs) = map (\<lambda>x. (x, h x)) xs"
  by (induction xs) auto

end
