(* ===== verification/Cooling.thy ===== *)
theory Cooling
  imports Prelude
begin

text \<open>
  The physical parameters and the two pure functions of the cooling law.
  \<^item> \<open>globals\<close> is the record of the three process-wide variables \<open>Ta\<close>, \<open>To\<close>,
    \<open>k\<close> of \<open>src/gr1.cpp\<close> (lines 12--14) and \<open>src/gr2.cpp\<close> (lines 12--14);
    every function that reads them takes the record explicitly;
  \<^item> \<open>len_dif\<close> is the derivative \<open>dT/dt = -k (T - Ta)\<close>
    (\<open>len_dif\<close>, gr1.cpp 273--275, gr2.cpp 231--233);
  \<^item> \<open>inv_time\<close> is the closed-form inverse \<open>t = -ln((T - Ta)/(To - Ta))/k\<close> that
    \<open>gr1\<close> evaluates inline (gr1.cpp 53 and 55), with \<open>None\<close> where the C++
    expression is not finite;
  \<^item> \<open>newton_solution\<close> is the exact solution of the ODE, the reference the RK4 solver
    is measured against (it is not code).
  The lemmas show that \<open>inv_time\<close> and the exact solution are mutual inverses, and
  exactly when \<open>inv_time\<close> fails.
\<close>

record globals =
  Ta :: double
  To :: double
  k :: double

definition gr1_globals :: globals where
  "gr1_globals = \<lparr>Ta = 20, To = 74, k = 0.000764\<rparr>"

definition gr2_globals :: globals where
  "gr2_globals = \<lparr>Ta = - 8, To = 74, k = 0.000764\<rparr>"

text \<open>The validity condition the spec puts on parameters (the code never checks it).\<close>

definition valid_globals :: "globals \<Rightarrow> bool" where
  "valid_globals g \<longleftrightarrow> 0 < k g \<and> Ta g < To g"

definition len_dif :: "globals \<Rightarrow> double \<Rightarrow> double \<Rightarrow> double" where
  "len_dif g x y = - k g * (y - Ta g)"

text \<open>
  \<open>-TMath::Log((T - Ta)/(To - Ta))/k\<close>: the quotient is not finite when
  \<open>To = Ta\<close>, the logarithm is not finite for a non-positive argument, and the final
  division is not finite when \<open>k = 0\<close>; each of these is \<open>None\<close>.
\<close>

definition inv_time :: "globals \<Rightarrow> double \<Rightarrow> double option" where
  "inv_time g T =
     (let r = (T - Ta g) / (To g - Ta g)
      in if To g = Ta g \<or> r \<le> 0 \<or> k g = 0 then None else Some (- ln r / k g))"

definition newton_solution :: "globals \<Rightarrow> real \<Rightarrow> real \<Rightarrow> real \<Rightarrow> real" where
  "newton_solution g x0 y0 x = Ta g + (y0 - Ta g) * exp (- k g * (x - x0))"

declare gr1_globals_def [model_defs] gr2_globals_def [model_defs] valid_globals_def [model_defs]
  len_dif_def [model_defs] inv_time_def [model_defs]

lemma len_dif_zero_iff: "k g \<noteq> 0 \<Longrightarrow> len_dif g x y = 0 \<longleftrightarrow> y = Ta g"
  by (auto simp: len_dif_def)

lemma inv_time_Some_iff:
  "inv_time g T = Some t \<longleftrightarrow>
     To g \<noteq> Ta g \<and> k g \<noteq> 0 \<and> 0 < (T - Ta g) / (To g - Ta g) \<and>
     t = - ln ((T - Ta g) / (To g - Ta g)) / k g"
  by (auto simp: inv_time_def Let_def)

text \<open>C9: The analytic inverse recovers the time from the exact cooling curve: for k <> 0 and To <> Ta, inv_time applied to the temperature Ta + (To - Ta) exp(-k t) returns t, for every real t.\<close>

theorem inv_time_newton_roundtrip:
  assumes "k g \<noteq> 0" and "To g \<noteq> Ta g"
  shows "inv_time g (newton_solution g 0 (To g) t) = Some t"
proof -
  have r: "(newton_solution g 0 (To g) t - Ta g) / (To g - Ta g) = exp (- k g * t)"
    using assms(2) by (simp add: newton_solution_def)
  show ?thesis
    using assms by (simp add: inv_time_def Let_def r)
qed

text \<open>C10: Conversely, whenever inv_time returns a time t for a temperature T, the exact cooling curve started at To reaches exactly T at time t.\<close>

theorem newton_inv_time_roundtrip:
  assumes "inv_time g T = Some t"
  shows "newton_solution g 0 (To g) t = T"
proof -
  let ?r = "(T - Ta g) / (To g - Ta g)"
  from assms have ne: "To g \<noteq> Ta g" "k g \<noteq> 0" and pos: "0 < ?r"
    and t: "t = - ln ?r / k g"
    by (auto simp: inv_time_Some_iff)
  have "- k g * t = ln ?r"
    using ne t by simp
  then have "exp (- k g * t) = ?r"
    using pos by simp
  then show ?thesis
    using ne by (simp add: newton_solution_def)
qed

text \<open>C11: For k <> 0 and To <> Ta, inv_time fails (the C++ expression is not finite) exactly when T - Ta and To - Ta do not have the same strict sign, i.e. (T - Ta)(To - Ta) <= 0.\<close>

theorem inv_time_None_iff:
  assumes "k g \<noteq> 0" and "To g \<noteq> Ta g"
  shows "inv_time g T = None \<longleftrightarrow> (T - Ta g) * (To g - Ta g) \<le> 0"
proof -
  have "(T - Ta g) / (To g - Ta g) \<le> 0 \<longleftrightarrow> (T - Ta g) * (To g - Ta g) \<le> 0"
    using assms(2) by (simp add: divide_le_0_iff mult_le_0_iff)
  then show ?thesis
    using assms by (simp add: inv_time_def Let_def)
qed

lemma inv_time_strict_antimono:
  assumes "valid_globals g" "Ta g < T1" "T1 < T2"
  shows "\<exists>t1 t2. inv_time g T1 = Some t1 \<and> inv_time g T2 = Some t2 \<and> t2 < t1"
proof -
  have d: "0 < To g - Ta g" "0 < k g" using assms(1) by (auto simp: valid_globals_def)
  have p1: "0 < (T1 - Ta g) / (To g - Ta g)" and p2: "0 < (T2 - Ta g) / (To g - Ta g)"
    using d assms by simp_all
  have lt: "(T1 - Ta g) / (To g - Ta g) < (T2 - Ta g) / (To g - Ta g)"
    using d assms by (simp add: divide_strict_right_mono)
  then have "ln ((T1 - Ta g) / (To g - Ta g)) < ln ((T2 - Ta g) / (To g - Ta g))"
    using p1 by simp
  then have "- ln ((T2 - Ta g) / (To g - Ta g)) / k g < - ln ((T1 - Ta g) / (To g - Ta g)) / k g"
    using d by (simp add: divide_strict_right_mono)
  then show ?thesis
    using d p1 p2 by (simp add: inv_time_def Let_def)
qed

theorem inv_time_newton_roundtrip_witness:
  "k gr1_globals \<noteq> 0 \<and> To gr1_globals \<noteq> Ta gr1_globals \<and>
   inv_time gr1_globals (newton_solution gr1_globals 0 (To gr1_globals) 600) = Some 600"
  using inv_time_newton_roundtrip [of gr1_globals 600] by (simp add: model_defs)

theorem newton_inv_time_roundtrip_witness:
  "inv_time gr1_globals 74 = Some 0 \<and> newton_solution gr1_globals 0 (To gr1_globals) 0 = 74"
proof -
  have h: "inv_time gr1_globals 74 = Some 0" by (simp add: model_defs)
  show ?thesis using newton_inv_time_roundtrip [OF h] h by simp
qed

theorem inv_time_None_iff_witness:
  "k gr1_globals \<noteq> 0 \<and> To gr1_globals \<noteq> Ta gr1_globals \<and>
   (inv_time gr1_globals 15 = None \<longleftrightarrow> (15 - Ta gr1_globals) * (To gr1_globals - Ta gr1_globals) \<le> 0) \<and>
   inv_time gr1_globals 15 = None"
  using inv_time_None_iff [of gr1_globals 15] by (simp add: model_defs)
end
