(* ===== verification/Integrator.thy ===== *)
theory Integrator
  imports Prelude
begin

text \<open>
  The contract of the integrator as the specification states it (RK4Integrator,
  \<open>integrate(f, x0, y0, h, x_target)\<close>): the derivative \<open>f\<close> is a parameter,
  the number of steps is \<open>n = floor((x_target - x0) / h)\<close>, each step is the classical
  four-stage update \<open>rk4_update\<close>, and \<open>integrate\<close> applies it \<open>n\<close> times
  (\<open>rk4_update f h ^^ n\<close>), no step at all when \<open>n \<le> 0\<close>.  This is the abstract
  side of the refinement proved in \<open>RK4\<close>: the code hard-wires the derivative
  \<open>len_dif\<close>, truncates the quotient instead of flooring it, and is undefined where
  the conversion to \<open>Int_t\<close> is.  \<open>src/gr2.cpp\<close> line 17 declares a solver of this
  generic shape but never defines it.
\<close>

type_synonym deriv = "double \<Rightarrow> double \<Rightarrow> double"

definition rk4_update :: "deriv \<Rightarrow> double \<Rightarrow> double \<times> double \<Rightarrow> double \<times> double" where
  "rk4_update f h s =
     (case s of (x, y) \<Rightarrow>
        let k1 = h * f x y;
            k2 = h * f (x + h / 2) (y + k1 / 2);
            k3 = h * f (x + h / 2) (y + k2 / 2);
            k4 = h * f (x + h) (y + k3)
        in (x + h, y + (k1 + 2 * k2 + 2 * k3 + k4) / 6))"

definition integrate :: "deriv \<Rightarrow> double \<Rightarrow> double \<Rightarrow> double \<Rightarrow> double \<Rightarrow> double" where
  "integrate f x0 y0 h x_target = snd ((rk4_update f h ^^ nat \<lfloor>(x_target - x0) / h\<rfloor>) (x0, y0))"

lemma integrate_no_step:
  assumes "(x_target - x0) / h < 1"
  shows "integrate f x0 y0 h x_target = y0"
proof -
  have "nat \<lfloor>(x_target - x0) / h\<rfloor> = 0"
    using assms by linarith
  then show ?thesis
    by (simp add: integrate_def)
qed

lemma integrate_before_start:
  "0 < h \<Longrightarrow> x_target \<le> x0 \<Longrightarrow> integrate f x0 y0 h x_target = y0"
  by (rule integrate_no_step) (simp add: divide_le_0_iff)

lemma nat_c_trunc_floor: "nat (c_trunc q) = nat \<lfloor>q\<rfloor>"
  by (simp add: c_trunc_def)

end
