(* ===== verification/RK4.thy ===== *)
theory RK4
  imports Cooling Integrator
begin

text \<open>
  The fixed-step fourth-order Runge-Kutta solver \<open>rk4_solver\<close> of
  \<open>src/gr1.cpp\<close> (lines 278--290; the same code is \<open>src/gr2.cpp\<close> 236--248).
  \<^item> \<open>rk4_step\<close> is one pass of the loop body (k1..k4, the update of \<open>y\<close>
    and \<open>xo += h\<close>) on the loop state \<open>(xo, y)\<close>;
  \<^item> \<open>rk4_loop\<close> runs the body a given number of times (the \<open>for\<close> loop
    \<open>i = 0 .. n-1\<close>; \<open>i\<close> cannot overflow because \<open>i < n \<le> INT_MAX\<close>);
  \<^item> \<open>rk4_solver\<close> computes \<open>n\<close> by the C conversion
    \<open>Int_t n = (x - xo)/h\<close> (\<open>None\<close> when that conversion is undefined: \<open>h = 0\<close>
    or the truncated quotient outside \<open>Int_t\<close>), runs \<open>max n 0\<close> steps and
    returns \<open>y\<close>.
  The solver calls the global \<open>len_dif\<close>, not a derivative passed to it.
  \<open>rk4_factor\<close> is the stability polynomial \<open>R(z) = 1 - z + z\<^sup>2/2 - z\<^sup>3/6 + z\<^sup>4/24\<close>
  of classical RK4: on the linear cooling law one step multiplies the distance to the
  ambient temperature by \<open>R(k h)\<close> (\<open>rk4_step_eq\<close>).  From it follow the closed
  form of the solver, the order-four global error bound against the exact solution on
  grid targets (via the Maclaurin remainder of \<open>exp\<close>), the first-order error off the
  grid that the truncated step count causes (an upper bound, and a half-step target where
  it is attained), monotone decay without overshoot, and the exact domain on which the
  solver is defined.  \<open>rk4_step_update\<close> and \<open>rk4_loop_funpow\<close> identify the loop with
  the iterated update of the specification's integrator (theory \<open>Integrator\<close>), so that
  \<open>rk4_solver\<close> refines \<open>integrate\<close>.
\<close>

definition rk4_step :: "globals \<Rightarrow> double \<Rightarrow> double \<times> double \<Rightarrow> double \<times> double" where
  "rk4_step g h s =
     (case s of (xo, y) \<Rightarrow>
        let k1 = h * len_dif g xo y;
            k2 = h * len_dif g (xo + 0.5 * h) (y + 0.5 * k1);
            k3 = h * len_dif g (xo + 0.5 * h) (y + 0.5 * k2);
            k4 = h * len_dif g (xo + h) (y + k3)
        in (xo + h, y + (k1 + 2 * k2 + 2 * k3 + k4) / 6))"

primrec rk4_loop :: "globals \<Rightarrow> double \<Rightarrow> nat \<Rightarrow> double \<times> double \<Rightarrow> double \<times> double" where
  "rk4_loop g h 0 s = s"
| "rk4_loop g h (Suc i) s = rk4_loop g h i (rk4_step g h s)"

definition rk4_solver :: "globals \<Rightarrow> double \<Rightarrow> double \<Rightarrow> double \<Rightarrow> double \<Rightarrow> double option" where
  "rk4_solver g xo yo h x =
     (if h = 0 then None
      else case double_to_Int_t ((x - xo) / h) of
             None \<Rightarrow> None
           | Some n \<Rightarrow> Some (snd (rk4_loop g h (nat n) (xo, yo))))"

definition rk4_factor :: "real \<Rightarrow> real" where
  "rk4_factor z = 1 - z + z ^ 2 / 2 - z ^ 3 / 6 + z ^ 4 / 24"

declare rk4_step_def [model_defs] rk4_solver_def [model_defs]

lemma rk4_step_eq:
  "rk4_step g h (x, y) = (x + h, Ta g + rk4_factor (k g * h) * (y - Ta g))"
  by (simp add: rk4_step_def len_dif_def rk4_factor_def Let_def field_simps power2_eq_square power3_eq_cube power4_eq_xxxx)

lemma rk4_loop_eq:
  "rk4_loop g h n (x, y) = (x + real n * h, Ta g + rk4_factor (k g * h) ^ n * (y - Ta g))"
proof (induction n arbitrary: x y)
  case 0
  then show ?case by simp
next
  case (Suc n)
  show ?case by (simp add: rk4_step_eq Suc.IH algebra_simps)
qed


lemma exp_taylor5:
  assumes z: "0 < z"
  shows "\<exists>t. - z < t \<and> t < 0 \<and> exp (- z) = rk4_factor z - exp t * z ^ 5 / 120"
proof -
  have "\<exists>t. - z < t \<and> t < 0 \<and>
          exp (- z) = (\<Sum>m<5. exp 0 / fact m * (- z) ^ m) + exp t / fact 5 * (- z) ^ 5"
    by (rule Maclaurin_minus [where diff = "\<lambda>n. exp"]) (use z in \<open>auto intro: DERIV_exp\<close>)
  then obtain t where t: "- z < t" "t < 0"
    and e: "exp (- z) = (\<Sum>m<5. exp 0 / fact m * (- z) ^ m) + exp t / fact 5 * (- z) ^ 5"
    by blast
  have "(\<Sum>m<5. exp 0 / fact m * (- z) ^ m) = rk4_factor z"
    by (simp add: numeral_eq_Suc rk4_factor_def fact_numeral field_simps)
  moreover have "exp t / fact 5 * (- z) ^ 5 = - (exp t * z ^ 5 / 120)"
    by (simp add: fact_numeral)
  ultimately show ?thesis
    using t e by auto
qed

lemma rk4_factor_exp_bound:
  assumes z: "0 < z"
  shows "exp (- z) \<le> rk4_factor z" and "rk4_factor z - exp (- z) \<le> z ^ 5 / 120"
proof -
  obtain t where t: "- z < t" "t < 0" and e: "exp (- z) = rk4_factor z - exp t * z ^ 5 / 120"
    using exp_taylor5 [OF z] by blast
  have "exp t \<le> 1" "0 < exp t" "0 < z ^ 5"
    using t z by simp_all
  then have "exp t * z ^ 5 \<le> z ^ 5" "0 \<le> exp t * z ^ 5"
    by (auto intro: mult_left_le_one_le)
  then show "exp (- z) \<le> rk4_factor z" "rk4_factor z - exp (- z) \<le> z ^ 5 / 120"
    using e by auto
qed

lemma rk4_factor_pos: "0 < z \<Longrightarrow> 0 < rk4_factor z"
  using rk4_factor_exp_bound(1) [of z] exp_gt_zero [of "- z"] by linarith

lemma rk4_factor_lt_one:
  assumes "0 < z" "z \<le> 1"
  shows "rk4_factor z < 1"
proof -
  have z2: "z ^ 2 \<le> z"
    using power_decreasing [of 1 2 z] assms by simp
  have "z ^ 4 \<le> z ^ 3"
    using power_decreasing [of 3 4 z] assms by simp
  moreover have "0 \<le> z ^ 3"
    using assms by simp
  ultimately show ?thesis
    using assms z2 unfolding rk4_factor_def by linarith
qed

lemma rk4_solver_Some:
  "rk4_solver g xo yo h x = Some y \<Longrightarrow>
     \<exists>n. h \<noteq> 0 \<and> double_to_Int_t ((x - xo) / h) = Some n \<and>
         y = Ta g + rk4_factor (k g * h) ^ nat n * (yo - Ta g)"
  by (auto simp: rk4_solver_def rk4_loop_eq split: if_splits option.splits)

text \<open>C1: Whenever the step count conversion is defined, the solver returns the ambient temperature plus the initial distance to it scaled by the RK4 stability factor R(k h) raised to the truncated step count.\<close>

theorem rk4_solver_closed_form:
  assumes "h \<noteq> 0" and "double_to_Int_t ((x - xo) / h) = Some n"
  shows "rk4_solver g xo yo h x = Some (Ta g + rk4_factor (k g * h) ^ nat n * (yo - Ta g))"
  using assms by (simp add: rk4_solver_def rk4_loop_eq)

lemma rk4_step_update: "rk4_step g h = rk4_update (len_dif g) h"
  by (rule ext) (simp add: rk4_step_def rk4_update_def Let_def split: prod.split)

lemma rk4_loop_funpow: "rk4_loop g h n s = (rk4_update (len_dif g) h ^^ n) s"
proof (induction n arbitrary: s)
  case 0
  then show ?case by simp
next
  case (Suc n)
  then show ?case by (simp add: rk4_step_update funpow_swap1)
qed

text \<open>C5: The solver refines the integrator contract of the specification: for every step and target, rk4_solver fails exactly when h = 0 or the conversion Int_t n = (x - xo)/h is undefined, and otherwise returns integrate(len_dif, xo, yo, h, x), the classical RK4 update applied floor((x - xo)/h) times (no step when that is not positive), although the code truncates the quotient and calls the global len_dif instead of a derivative passed to it.\<close>

theorem rk4_solver_refines_integrate:
  "rk4_solver g xo yo h x =
     (if h = 0 \<or> double_to_Int_t ((x - xo) / h) = None then None
      else Some (integrate (len_dif g) xo yo h x))"
  by (auto simp: rk4_solver_def integrate_def rk4_loop_funpow double_to_Int_t_def nat_c_trunc_floor
           split: option.splits)

lemma rk4_solver_at_start:
  assumes "h \<noteq> 0"
  shows "rk4_solver g xo yo h xo = Some yo"
  using assms by (simp add: rk4_solver_def model_defs)

text \<open>A target less than one step ahead of xo (in particular a target before xo) makes no step and returns the initial value, as the spec requires for x_target < x0.\<close>

theorem rk4_solver_before_first_step:
  assumes "h \<noteq> 0" and "(x - xo) / h < 1" and "\<bar>(x - xo) / h\<bar> < 2 ^ 31"
  shows "rk4_solver g xo yo h x = Some yo"
  using assms by (simp add: rk4_solver_def double_to_Int_t_range c_trunc_lt_one_nat)

text \<open>C7: When (x - xo)/h is at least 2^31 the conversion Int_t n = (x - xo)/h is undefined behaviour and the model returns None.\<close>

theorem rk4_solver_overflow:
  assumes "2 ^ 31 \<le> (x - xo) / h"
  shows "rk4_solver g xo yo h x = None"
proof -
  have "2 ^ 31 \<le> c_trunc ((x - xo) / h)"
    using assms by (auto simp: c_trunc_def le_floor_iff)
  then show ?thesis
    by (simp add: rk4_solver_def double_to_Int_t_def int_t_max_def)
qed

lemma rk4_power_exp_bound:
  assumes "0 < z" "z \<le> 1"
  shows "\<bar>rk4_factor z ^ n - exp (- z) ^ n\<bar> \<le> real n * (z ^ 5 / 120)"
proof -
  have "\<bar>rk4_factor z ^ n - exp (- z) ^ n\<bar> \<le> real n * \<bar>rk4_factor z - exp (- z)\<bar>"
    using assms rk4_factor_pos [of z] rk4_factor_lt_one [of z]
    by (intro pow_diff_le) auto
  also have "\<dots> \<le> real n * (z ^ 5 / 120)"
    using rk4_factor_exp_bound [OF assms(1)] by (intro mult_left_mono) auto
  finally show ?thesis .
qed

lemma rk4_grid_error:
  assumes "0 < k g" "0 < h" "k g * h \<le> 1"
  shows "\<bar>Ta g + rk4_factor (k g * h) ^ n * (yo - Ta g) - newton_solution g xo yo (xo + real n * h)\<bar>
           \<le> \<bar>yo - Ta g\<bar> * (real n * (k g * h) ^ 5 / 120)"
proof -
  have "exp (- k g * (xo + real n * h - xo)) = exp (- (k g * h)) ^ n"
    by (simp add: exp_of_nat_mult [symmetric] algebra_simps)
  then have "Ta g + rk4_factor (k g * h) ^ n * (yo - Ta g) - newton_solution g xo yo (xo + real n * h)
               = (rk4_factor (k g * h) ^ n - exp (- (k g * h)) ^ n) * (yo - Ta g)"
    by (simp add: newton_solution_def algebra_simps)
  then have "\<bar>Ta g + rk4_factor (k g * h) ^ n * (yo - Ta g) - newton_solution g xo yo (xo + real n * h)\<bar>
               = \<bar>yo - Ta g\<bar> * \<bar>rk4_factor (k g * h) ^ n - exp (- (k g * h)) ^ n\<bar>"
    by (simp add: abs_mult)
  also have "\<dots> \<le> \<bar>yo - Ta g\<bar> * (real n * ((k g * h) ^ 5 / 120))"
    using assms by (intro mult_left_mono rk4_power_exp_bound) auto
  finally show ?thesis by simp
qed

lemma one_minus_exp_bounds:
  fixes u :: real
  assumes "0 \<le> u"
  shows "0 \<le> 1 - exp (- u)" "1 - exp (- u) \<le> u" "u / (1 + u) \<le> 1 - exp (- u)"
proof -
  have e: "1 + u \<le> exp u" "1 - u \<le> exp (- u)"
    using exp_ge_add_one_self [of u] exp_ge_add_one_self [of "- u"] by simp_all
  show "0 \<le> 1 - exp (- u)" using assms by simp
  show "1 - exp (- u) \<le> u" using e(2) by simp
  have "exp (- u) \<le> 1 / (1 + u)"
    using e(1) assms by (simp add: exp_minus field_simps)
  then show "u / (1 + u) \<le> 1 - exp (- u)"
    using assms by (simp add: field_simps)
qed

lemma newton_shift_bound:
  assumes "0 \<le> k g" "xo \<le> xn" "xn \<le> x"
  shows "\<bar>newton_solution g xo yo xn - newton_solution g xo yo x\<bar> \<le> \<bar>yo - Ta g\<bar> * (k g * (x - xn))"
proof -
  let ?a = "exp (- k g * (xn - xo))" and ?u = "k g * (x - xn)"
  have "exp (- k g * (x - xo)) = ?a * exp (- ?u)"
    by (simp add: exp_add [symmetric] algebra_simps)
  then have d: "newton_solution g xo yo xn - newton_solution g xo yo x = (yo - Ta g) * ?a * (1 - exp (- ?u))"
    by (simp add: newton_solution_def algebra_simps)
  have u: "0 \<le> ?u" using assms by simp
  have a: "0 < ?a" "?a \<le> 1" using assms by simp_all
  have "\<bar>(yo - Ta g) * ?a * (1 - exp (- ?u))\<bar> = \<bar>yo - Ta g\<bar> * (?a * (1 - exp (- ?u)))"
    using a one_minus_exp_bounds(1) [OF u] by (simp add: abs_mult)
  also have "\<dots> \<le> \<bar>yo - Ta g\<bar> * ?u"
  proof (intro mult_left_mono)
    have "?a * (1 - exp (- ?u)) \<le> 1 - exp (- ?u)"
      using a one_minus_exp_bounds(1) [OF u] by (intro mult_left_le_one_le) auto
    then show "?a * (1 - exp (- ?u)) \<le> ?u"
      using one_minus_exp_bounds(2) [OF u] by linarith
  qed simp
  finally show ?thesis using d by simp
qed

text \<open>C2: On grid targets xo + n h, with 0 < k, 0 < h and k h <= 1, the solver result differs from the exact Newton cooling solution by at most |yo - Ta| * n (k h)^5 / 120, i.e. the global error is of order four in h.\<close>

theorem rk4_solver_global_error:
  assumes "0 < k g" "0 < h" "k g * h \<le> 1"
    and "rk4_solver g xo yo h (xo + real n * h) = Some y"
  shows "\<bar>y - newton_solution g xo yo (xo + real n * h)\<bar>
           \<le> \<bar>yo - Ta g\<bar> * (real n * (k g * h) ^ 5 / 120)"
proof -
  have "(xo + real n * h - xo) / h = real n"
    using assms(2) by simp
  with rk4_solver_Some [OF assms(4)] assms(2)
  have y: "y = Ta g + rk4_factor (k g * h) ^ n * (yo - Ta g)"
    by (auto simp: double_to_Int_t_def split: if_splits)
  show ?thesis
    unfolding y by (rule rk4_grid_error [OF assms(1-3)])
qed

text \<open>C3: Off the grid the solver makes floor((x - xo)/h) full steps and ignores the remainder: for any target x >= xo, with 0 < k, 0 < h and k h <= 1, the error against the exact solution is at most |yo - Ta| ((x - xo) k^5 h^4 / 120 + k h), so the solver converges to the exact solution as h -> 0, but only at first order in h.\<close>

theorem rk4_solver_error_off_grid:
  assumes "0 < k g" "0 < h" "k g * h \<le> 1" "xo \<le> x"
    and "rk4_solver g xo yo h x = Some y"
  shows "\<bar>y - newton_solution g xo yo x\<bar> \<le> \<bar>yo - Ta g\<bar> * ((x - xo) * k g ^ 5 * h ^ 4 / 120 + k g * h)"
proof -
  obtain n where conv: "double_to_Int_t ((x - xo) / h) = Some n"
    and y: "y = Ta g + rk4_factor (k g * h) ^ nat n * (yo - Ta g)"
    using rk4_solver_Some [OF assms(5)] by blast
  have q: "0 \<le> (x - xo) / h" using assms(2,4) by simp
  then have n: "n = \<lfloor>(x - xo) / h\<rfloor>" using double_to_Int_t_Some_nonneg [OF conv] by simp
  let ?m = "nat n"
  have m: "real ?m \<le> (x - xo) / h" "(x - xo) / h < real ?m + 1"
    using n q by linarith+
  let ?xn = "xo + real ?m * h"
  have xn: "xo \<le> ?xn" "?xn \<le> x" "x - ?xn \<le> h"
    using m assms(2) by (simp_all add: field_simps)
  have grid: "\<bar>y - newton_solution g xo yo ?xn\<bar> \<le> \<bar>yo - Ta g\<bar> * (real ?m * (k g * h) ^ 5 / 120)"
    unfolding y by (rule rk4_grid_error [OF assms(1-3)])
  have "real ?m * (k g * h) ^ 5 / 120 = (real ?m * h) * (k g ^ 5 * h ^ 4) / 120"
    by (simp add: power_mult_distrib eval_nat_numeral algebra_simps)
  also have "\<dots> \<le> (x - xo) * (k g ^ 5 * h ^ 4) / 120"
    using xn(2) assms(1,2) by (intro divide_right_mono mult_right_mono) auto
  finally have g5: "real ?m * (k g * h) ^ 5 / 120 \<le> (x - xo) * k g ^ 5 * h ^ 4 / 120"
    by (simp add: mult.assoc)
  have shift: "\<bar>newton_solution g xo yo ?xn - newton_solution g xo yo x\<bar> \<le> \<bar>yo - Ta g\<bar> * (k g * h)"
    using newton_shift_bound [of g xo ?xn x yo] assms(1) xn
      mult_left_mono [of "k g * (x - ?xn)" "k g * h" "\<bar>yo - Ta g\<bar>"]
    by (auto intro: order_trans mult_left_mono)
  have "\<bar>y - newton_solution g xo yo x\<bar>
          \<le> \<bar>y - newton_solution g xo yo ?xn\<bar> + \<bar>newton_solution g xo yo ?xn - newton_solution g xo yo x\<bar>"
    by linarith
  also have "\<dots> \<le> \<bar>yo - Ta g\<bar> * ((x - xo) * k g ^ 5 * h ^ 4 / 120) + \<bar>yo - Ta g\<bar> * (k g * h)"
    using grid shift g5 mult_left_mono [OF g5, of "\<bar>yo - Ta g\<bar>"] by linarith
  finally show ?thesis by (simp add: distrib_left)
qed

text \<open>C4: The first-order term is really there: at the target xo + h/2 the solver takes no step and returns yo, which is at least |yo - Ta| k h / 4 away from the exact solution, so halving h does not divide the error by 16 at every target, contrary to the order-four convergence the spec states for h -> 0.\<close>

theorem rk4_solver_half_step_error:
  assumes "0 < k g" "0 < h" "k g * h \<le> 1"
  shows "\<exists>y. rk4_solver g xo yo h (xo + h / 2) = Some y \<and>
              \<bar>yo - Ta g\<bar> * (k g * h) / 4 \<le> \<bar>y - newton_solution g xo yo (xo + h / 2)\<bar>"
proof -
  have run: "rk4_solver g xo yo h (xo + h / 2) = Some yo"
    using assms(2) by (simp add: rk4_solver_def double_to_Int_t_range c_trunc_def)
  let ?u = "k g * h / 2"
  have u: "0 \<le> ?u" "?u \<le> 1" using assms by simp_all
  have "yo - newton_solution g xo yo (xo + h / 2) = (yo - Ta g) * (1 - exp (- ?u))"
    by (simp add: newton_solution_def algebra_simps)
  then have e: "\<bar>yo - newton_solution g xo yo (xo + h / 2)\<bar> = \<bar>yo - Ta g\<bar> * (1 - exp (- ?u))"
    using one_minus_exp_bounds(1) [OF u(1)] by (simp add: abs_mult)
  have "?u / 2 \<le> ?u / (1 + ?u)"
    using u by (intro divide_left_mono) auto
  then have "?u / 2 \<le> 1 - exp (- ?u)"
    using one_minus_exp_bounds(3) [OF u(1)] by (rule order_trans)
  then have "k g * h / 4 \<le> 1 - exp (- ?u)"
    by linarith
  then have "\<bar>yo - Ta g\<bar> * (k g * h / 4) \<le> \<bar>yo - newton_solution g xo yo (xo + h / 2)\<bar>"
    unfolding e by (intro mult_left_mono) auto
  then show ?thesis using run by simp
qed



text \<open>C6: With 0 < k, 0 < h, k h <= 1 and an initial temperature above ambient, every RK4 step strictly lowers the temperature and never crosses below the ambient temperature.\<close>

theorem rk4_loop_decay:
  assumes "0 < k g" "0 < h" "k g * h \<le> 1" "Ta g < y"
  shows "Ta g < snd (rk4_loop g h (Suc n) (x, y)) \<and>
         snd (rk4_loop g h (Suc n) (x, y)) < snd (rk4_loop g h n (x, y))"
proof -
  let ?r = "rk4_factor (k g * h)"
  have r: "0 < ?r" "?r < 1"
    using assms by (auto intro: rk4_factor_pos rk4_factor_lt_one)
  have e: "0 < y - Ta g" using assms(4) by simp
  have "0 < ?r ^ Suc n * (y - Ta g)"
    using r e by simp
  moreover have "?r ^ Suc n * (y - Ta g) < ?r ^ n * (y - Ta g)"
    using r e by (simp add: mult_strict_right_mono)
  ultimately show ?thesis
    by (simp add: rk4_loop_eq)
qed


theorem rk4_solver_closed_form_witness:
  "(1 / 10 :: real) \<noteq> 0 \<and> double_to_Int_t ((2 / 10 - 0) / (1 / 10)) = Some 2 \<and>
   rk4_solver gr1_globals 0 74 (1 / 10) (2 / 10) =
     Some (Ta gr1_globals + rk4_factor (k gr1_globals * (1 / 10)) ^ nat 2 * (74 - Ta gr1_globals))"
  using rk4_solver_closed_form [of "1 / 10" "2 / 10" 0 2 gr1_globals 74]
  by (simp add: model_defs)

theorem rk4_solver_at_start_witness:
  "(1 / 10 :: real) \<noteq> 0 \<and> rk4_solver gr1_globals 0 74 (1 / 10) 0 = Some 74"
  using rk4_solver_at_start [of "1 / 10" gr1_globals 0 74] by simp

theorem rk4_solver_before_first_step_witness:
  "(1 / 10 :: real) \<noteq> 0 \<and> (- 5 - 0) / (1 / 10) < (1 :: real) \<and>
   \<bar>(- 5 - 0) / (1 / 10)\<bar> < (2 ^ 31 :: real) \<and>
   rk4_solver gr1_globals 0 74 (1 / 10) (- 5) = Some 74"
  using rk4_solver_before_first_step [of "1 / 10" "- 5" 0 gr1_globals 74] by simp

theorem rk4_solver_overflow_witness:
  "(2 ^ 31 :: real) \<le> (300000000 - 0) / (1 / 10) \<and>
   rk4_solver gr1_globals 0 74 (1 / 10) 300000000 = None"
  using rk4_solver_overflow [of 300000000 0 "1 / 10" gr1_globals 74] by simp

theorem rk4_solver_global_error_witness:
  "0 < k gr1_globals \<and> (0 :: real) < 1 / 10 \<and> k gr1_globals * (1 / 10) \<le> 1 \<and>
   rk4_solver gr1_globals 0 74 (1 / 10) (0 + real 1 * (1 / 10)) =
     Some (20 + rk4_factor (k gr1_globals * (1 / 10)) * 54) \<and>
   \<bar>(20 + rk4_factor (k gr1_globals * (1 / 10)) * 54)
      - newton_solution gr1_globals 0 74 (0 + real 1 * (1 / 10))\<bar>
     \<le> \<bar>74 - Ta gr1_globals\<bar> * (real 1 * (k gr1_globals * (1 / 10)) ^ 5 / 120)"
proof -
  have run: "rk4_solver gr1_globals 0 74 (1 / 10) (0 + real 1 * (1 / 10)) =
               Some (20 + rk4_factor (k gr1_globals * (1 / 10)) * 54)"
    by (simp add: rk4_solver_def rk4_loop_eq model_defs)
  have hyps: "0 < k gr1_globals" "(0 :: real) < 1 / 10" "k gr1_globals * (1 / 10) \<le> 1"
    by (simp_all add: model_defs)
  show ?thesis
    using rk4_solver_global_error [OF hyps run] hyps run by simp
qed

theorem rk4_loop_decay_witness:
  "0 < k gr1_globals \<and> (0 :: real) < 1 / 10 \<and> k gr1_globals * (1 / 10) \<le> 1 \<and>
   Ta gr1_globals < 74 \<and>
   Ta gr1_globals < snd (rk4_loop gr1_globals (1 / 10) (Suc 0) (0, 74)) \<and>
   snd (rk4_loop gr1_globals (1 / 10) (Suc 0) (0, 74)) < snd (rk4_loop gr1_globals (1 / 10) 0 (0, 74))"
proof -
  have hyps: "0 < k gr1_globals" "(0 :: real) < 1 / 10" "k gr1_globals * (1 / 10) \<le> 1"
    "Ta gr1_globals < 74"
    by (simp_all add: model_defs)
  show ?thesis
    using rk4_loop_decay [OF hyps, of 0 0] hyps by simp
qed


theorem rk4_solver_error_off_grid_witness:
  "0 < k gr1_globals \<and> (0 :: real) < 1 / 10 \<and> k gr1_globals * (1 / 10) \<le> 1 \<and> (0 :: real) \<le> 1 / 4 \<and>
   rk4_solver gr1_globals 0 74 (1 / 10) (1 / 4) = Some (20 + rk4_factor (k gr1_globals * (1 / 10)) ^ 2 * 54) \<and>
   \<bar>(20 + rk4_factor (k gr1_globals * (1 / 10)) ^ 2 * 54) - newton_solution gr1_globals 0 74 (1 / 4)\<bar>
     \<le> \<bar>74 - Ta gr1_globals\<bar> * ((1 / 4 - 0) * k gr1_globals ^ 5 * (1 / 10) ^ 4 / 120 + k gr1_globals * (1 / 10))"
proof -
  have run: "rk4_solver gr1_globals 0 74 (1 / 10) (1 / 4) = Some (20 + rk4_factor (k gr1_globals * (1 / 10)) ^ 2 * 54)"
    by (simp add: rk4_solver_def rk4_loop_eq model_defs)
  have hyps: "0 < k gr1_globals" "(0 :: real) < 1 / 10" "k gr1_globals * (1 / 10) \<le> 1" "(0 :: real) \<le> 1 / 4"
    by (simp_all add: model_defs)
  show ?thesis
    using rk4_solver_error_off_grid [OF hyps run] hyps run by simp
qed

theorem rk4_solver_half_step_error_witness:
  "0 < k gr1_globals \<and> (0 :: real) < 1 / 10 \<and> k gr1_globals * (1 / 10) \<le> 1 \<and>
   (\<exists>y. rk4_solver gr1_globals 0 74 (1 / 10) (0 + 1 / 10 / 2) = Some y \<and>
        \<bar>74 - Ta gr1_globals\<bar> * (k gr1_globals * (1 / 10)) / 4 \<le> \<bar>y - newton_solution gr1_globals 0 74 (0 + 1 / 10 / 2)\<bar>)"
proof -
  have hyps: "0 < k gr1_globals" "(0 :: real) < 1 / 10" "k gr1_globals * (1 / 10) \<le> 1"
    by (simp_all add: model_defs)
  show ?thesis
    using rk4_solver_half_step_error [OF hyps, of 0 74] hyps by blast
qed
end
