(* ===== verification/FitModel.thy ===== *)
theory FitModel
  imports RK4
begin

text \<open>
  The fit of the cooling model to a dataset.
  \<^item> \<open>point\<close> is one point of a \<open>TGraphErrors\<close> (time, temperature and their errors,
    the arrays passed to the constructor in gr1.cpp 116--127 and gr2.cpp 92--172);
  \<^item> \<open>fitFunc\<close> is the model function handed to \<open>TF1 f1\<close> (gr1.cpp 292--300,
    gr2.cpp 250--258): it reads the parameters \<open>par[0]\<close> and \<open>par[1]\<close> into locals
    \<open>To\<close> and \<open>k\<close> and calls \<open>rk4_solver(0, To, 0.1, t)\<close>.  The solver reaches
    the derivative through \<open>len_dif\<close>, which reads the global \<open>k\<close>, so the local
    \<open>k\<close> (here \<open>k_par\<close>) is never used;
  \<^item> \<open>f1_init\<close> is \<open>f1->SetParameters(To, k)\<close> (gr1.cpp 66--68);
  \<^item> \<open>chi2\<close> is the weighted least-squares objective that \<open>gr->Fit("f1")\<close>
    minimises (ROOT's fitter, modelled from the spec: residuals in temperature divided by
    the temperature error; a point with zero error contributes nothing);
  \<^item> \<open>fit_To\<close> is the exact minimiser in \<open>To\<close>: on the fit domain the model is
    affine in \<open>To\<close> (\<open>fitFunc_eq\<close>), so the objective is a quadratic in \<open>To\<close>
    whose minimum has a closed form; it stands for the value the fitter converges to.
  The lemmas show that the model does not depend on its second parameter (so the fitted
  \<open>k\<close> is not determined by the data), that \<open>fit_To\<close> minimises the objective over
  both parameters, and that noise-free data generated by the model are fitted back to the
  \<open>To\<close> that generated them.
\<close>

record point =
  time :: double
  temperature :: double
  sigma_time :: double
  sigma_temperature :: double

definition fitFunc :: "globals \<Rightarrow> double \<Rightarrow> double \<times> double \<Rightarrow> double option" where
  "fitFunc g t par = (let To_par = fst par; k_par = snd par in rk4_solver g 0 To_par 0.1 t)"

definition f1_init :: "globals \<Rightarrow> double \<times> double" where
  "f1_init g = (To g, k g)"

definition chi2 :: "globals \<Rightarrow> point list \<Rightarrow> double \<times> double \<Rightarrow> double option" where
  "chi2 g pts par =
     map_option (\<lambda>fs. \<Sum>(p, f)\<leftarrow>zip pts fs. ((temperature p - f) / sigma_temperature p)\<^sup>2)
       (those (map (\<lambda>p. fitFunc g (time p) par) pts))"

definition fit_decay :: "globals \<Rightarrow> double \<Rightarrow> real" where
  "fit_decay g t = rk4_factor (k g * 0.1) ^ nat \<lfloor>t / 0.1\<rfloor>"

definition fit_weight :: "point \<Rightarrow> real" where
  "fit_weight p = 1 / (sigma_temperature p)\<^sup>2"

definition fit_terms :: "globals \<Rightarrow> point list \<Rightarrow> (real \<times> real \<times> real) list" where
  "fit_terms g pts = map (\<lambda>p. (fit_weight p, fit_decay g (time p), temperature p - Ta g)) pts"

definition fit_To :: "globals \<Rightarrow> point list \<Rightarrow> double" where
  "fit_To g pts =
     Ta g + (\<Sum>(w, a, b)\<leftarrow>fit_terms g pts. w * a * b) / (\<Sum>(w, a, b)\<leftarrow>fit_terms g pts. w * a\<^sup>2)"

definition in_fit_domain :: "point \<Rightarrow> bool" where
  "in_fit_domain p \<longleftrightarrow> 0 \<le> time p \<and> time p < 2 ^ 31 / 10"

definition synthetic_pts :: "point list" where
  "synthetic_pts =
     [\<lparr>time = 0, temperature = 74, sigma_time = 1, sigma_temperature = 1\<rparr>,
      \<lparr>time = 0.2, temperature = 20 + rk4_factor (k gr1_globals * 0.1) ^ 2 * 54,
       sigma_time = 1, sigma_temperature = 1\<rparr>]"

declare fitFunc_def [model_defs] f1_init_def [model_defs] chi2_def [model_defs]
  in_fit_domain_def [model_defs]

text \<open>C12: The fit model fitFunc does not depend on its second parameter par[1] = k: for any To and any two values of k it returns the same result, because rk4_solver reaches the derivative through len_dif, which reads the global k.\<close>

theorem fitFunc_ignores_k: "fitFunc g t (To1, k1) = fitFunc g t (To1, k2)"
  by (simp add: fitFunc_def)

lemma fitFunc_eq:
  assumes "0 \<le> t" "t < 2 ^ 31 / 10"
  shows "fitFunc g t par = Some (Ta g + fit_decay g t * (fst par - Ta g))"
proof -
  have q: "(t - 0) / 0.1 = 10 * t" by simp
  have "double_to_Int_t ((t - 0) / 0.1) = Some \<lfloor>t / 0.1\<rfloor>"
    using assms by (simp add: q double_to_Int_t_range c_trunc_nonneg)
  then show ?thesis
    by (simp add: fitFunc_def rk4_solver_def rk4_loop_eq fit_decay_def)
qed

lemma chi2_eq:
  assumes "\<forall>p\<in>set pts. in_fit_domain p"
  shows "chi2 g pts par = Some (\<Sum>(w, a, b)\<leftarrow>fit_terms g pts. w * (b - a * (fst par - Ta g))\<^sup>2)"
proof -
  have "those (map (\<lambda>p. fitFunc g (time p) par) pts) =
          Some (map (\<lambda>p. Ta g + fit_decay g (time p) * (fst par - Ta g)) pts)"
    using assms by (intro those_map_Some) (auto simp: in_fit_domain_def fitFunc_eq)
  moreover have "((y - (Ta g + a * c)) / s)\<^sup>2 = 1 / s\<^sup>2 * (y - Ta g - a * c)\<^sup>2"
    for y a c s :: real
    by (simp add: power_divide algebra_simps)
  ultimately show ?thesis
    by (simp add: chi2_def zip_map_self fit_terms_def fit_weight_def comp_def)
qed

lemma fit_To_min_chi2:
  assumes "\<forall>p\<in>set pts. in_fit_domain p"
  shows "\<exists>c1 c2. chi2 g pts (fit_To g pts, k1) = Some c1 \<and> chi2 g pts par = Some c2 \<and> c1 \<le> c2"
proof -
  have w: "\<forall>(w, a, b)\<in>set (fit_terms g pts). 0 \<le> w"
    by (auto simp: fit_terms_def fit_weight_def)
  have "fit_To g pts - Ta g =
          (\<Sum>(w, a, b)\<leftarrow>fit_terms g pts. w * a * b) / (\<Sum>(w, a, b)\<leftarrow>fit_terms g pts. w * a\<^sup>2)"
    by (simp add: fit_To_def)
  then show ?thesis
    using wlsq_min [OF w, of "fst par - Ta g"] by (simp add: chi2_eq [OF assms])
qed

text \<open>C13: For every dataset whose times lie in the model domain (0 <= t < 2^31/10), the chi-square objective at (fit_To, k1) is no larger than at any other parameter pair: fit_To is a global least-squares minimiser, whatever k is reported.\<close>

theorem fit_To_minimises_chi2:
  assumes "list_all in_fit_domain pts"
  shows "\<exists>c1 c2. chi2 g pts (fit_To g pts, k1) = Some c1 \<and> chi2 g pts par = Some c2 \<and> c1 \<le> c2"
proof -
  have "\<forall>p\<in>set pts. in_fit_domain p"
    using assms by (simp add: list_all_iff)
  then show ?thesis
    by (rule fit_To_min_chi2)
qed

text \<open>C14: Self-consistency: when every temperature of a dataset is the value of fitFunc at (To0, k0) and some point has non-zero temperature error (with k > 0), the least-squares estimate fit_To is exactly To0.\<close>

theorem fit_To_recovers_To:
  assumes "0 < k g"
    and data_all: "list_all (\<lambda>p. in_fit_domain p \<and> fitFunc g (time p) (To0, k0) = Some (temperature p)) pts"
    and sig_ex: "list_ex (\<lambda>p. sigma_temperature p \<noteq> 0) pts"
  shows "fit_To g pts = To0"
proof -
  let ?S = "\<Sum>(w, a, b)\<leftarrow>fit_terms g pts. w * a\<^sup>2"
  let ?T = "\<Sum>(w, a, b)\<leftarrow>fit_terms g pts. w * a * b"
  have data: "\<forall>p\<in>set pts. in_fit_domain p \<and> fitFunc g (time p) (To0, k0) = Some (temperature p)"
    using data_all by (simp add: list_all_iff)
  have sig: "\<exists>p\<in>set pts. sigma_temperature p \<noteq> 0"
    using sig_ex by (simp add: list_ex_iff)
  have b: "temperature p - Ta g = fit_decay g (time p) * (To0 - Ta g)" if "p \<in> set pts" for p
    using data that by (auto simp: in_fit_domain_def fitFunc_eq)
  have "\<forall>(w, a, b)\<in>set (fit_terms g pts). b = a * (To0 - Ta g)"
    using b by (auto simp: fit_terms_def)
  then have "?T = (To0 - Ta g) * ?S"
    by (rule wsum_proportional)
  moreover have "0 < ?S"
  proof -
    obtain p where p: "p \<in> set pts" "sigma_temperature p \<noteq> 0" using sig by blast
    have "0 < rk4_factor (k g * 0.1)" using assms(1) by (intro rk4_factor_pos) simp
    then have "0 < fit_weight p * (fit_decay g (time p))\<^sup>2"
      using p(2) by (simp add: fit_weight_def fit_decay_def)
    then show ?thesis
      using p(1) unfolding fit_terms_def
      by (intro sum_list_map_pos [where x = "(fit_weight p, fit_decay g (time p), temperature p - Ta g)"])
         (auto simp: fit_weight_def)
  qed
  ultimately show ?thesis
    by (simp add: fit_To_def)
qed

theorem fitFunc_ignores_k_witness:
  "fitFunc gr1_globals 0 (74, 0.000764) = fitFunc gr1_globals 0 (74, 5) \<and>
   fitFunc gr1_globals 0 (74, 5) = Some 74"
  using fitFunc_ignores_k [of gr1_globals 0 74 "0.000764" 5]
  by (simp add: fitFunc_def model_defs)

theorem fit_To_minimises_chi2_witness:
  "list_all in_fit_domain synthetic_pts \<and>
   (\<exists>c1 c2. chi2 gr1_globals synthetic_pts (fit_To gr1_globals synthetic_pts, 1) = Some c1 \<and>
      chi2 gr1_globals synthetic_pts (70, 0.000764) = Some c2 \<and> c1 \<le> c2)"
proof -
  have h: "list_all in_fit_domain synthetic_pts"
    by (simp add: synthetic_pts_def in_fit_domain_def)
  show ?thesis using fit_To_minimises_chi2 [OF h] h by blast
qed

theorem fit_To_recovers_To_witness:
  "0 < k gr1_globals \<and>
   list_all (\<lambda>p. in_fit_domain p \<and> fitFunc gr1_globals (time p) (74, 1) = Some (temperature p))
     synthetic_pts \<and>
   list_ex (\<lambda>p. sigma_temperature p \<noteq> 0) synthetic_pts \<and>
   fit_To gr1_globals synthetic_pts = 74"
proof -
  have h1: "0 < k gr1_globals" by (simp add: model_defs)
  have h2: "list_all (\<lambda>p. in_fit_domain p \<and> fitFunc gr1_globals (time p) (74, 1) = Some (temperature p))
     synthetic_pts"
    by (simp add: synthetic_pts_def in_fit_domain_def fitFunc_eq fit_decay_def gr1_globals_def)
  have h3: "list_ex (\<lambda>p. sigma_temperature p \<noteq> 0) synthetic_pts"
    by (simp add: synthetic_pts_def)
  show ?thesis using fit_To_recovers_To [OF h1 h2 h3] h1 h2 h3 by blast
qed
end
