(* ===== verification/Histogram.thy ===== *)
theory Histogram
  imports Prelude
begin

text \<open>
  The statistics of ROOT's \<open>TH1D\<close> that \<open>gr1\<close> reads (gr1.cpp 55--62).
  \<open>gr1\<close> books a histogram \<open>new TH1D("h1", " ", nbins, 0, 2 t0)\<close>, fills it with
  the \<open>nerr\<close> candidate times and reads \<open>GetMean()\<close> and \<open>GetRMS()\<close>.  The
  histogram library is not part of the repository; its documented behaviour is modelled:
  \<^item> \<open>th1\<close> keeps the statistics ROOT accumulates at fill time (\<open>fEntries\<close>,
    \<open>fTsumw\<close>, \<open>fTsumwx\<close>, \<open>fTsumwx2\<close>) besides the axis;
  \<^item> \<open>th1_fill\<close> counts every fill as an entry, but adds a value to the statistics only
    when it falls in \<open>[xlow, xup)\<close> (under- and overflow are excluded, as they are by
    default); a non-finite value (\<open>None\<close>, a NaN or infinite time) never does.  A
    histogram booked with \<open>xup \<le> xlow\<close> has automatic binning and keeps every finite
    value (\<open>th1_in_range\<close>);
  \<^item> \<open>th1_mean\<close> and \<open>th1_rms\<close> are \<open>GetMean\<close> and \<open>GetRMS\<close>: zero on an
    empty histogram, otherwise \<open>\<Sum>x/n\<close> and \<open>sqrt(max(\<Sum>x\<^sup>2/n - mean\<^sup>2, 0))\<close>.
  The bin contents are presentation only and are not modelled.  \<open>accepted\<close>,
  \<open>list_mean\<close> and \<open>list_stddev\<close> are the reference two-pass statistics of the
  accepted values; the main lemma is that the one-pass accumulation computes them.
\<close>

record th1 =
  fNbins :: nat
  fXmin :: double
  fXmax :: double
  fEntries :: nat
  fTsumw :: double
  fTsumwx :: double
  fTsumwx2 :: double

definition th1_new :: "nat \<Rightarrow> double \<Rightarrow> double \<Rightarrow> th1" where
  "th1_new nbins xlow xup =
     \<lparr>fNbins = nbins, fXmin = xlow, fXmax = xup, fEntries = 0,
      fTsumw = 0, fTsumwx = 0, fTsumwx2 = 0\<rparr>"

definition th1_in_range :: "double \<Rightarrow> double \<Rightarrow> double \<Rightarrow> bool" where
  "th1_in_range xlow xup x \<longleftrightarrow> xup \<le> xlow \<or> (xlow \<le> x \<and> x < xup)"

definition th1_fill :: "th1 \<Rightarrow> double option \<Rightarrow> th1" where
  "th1_fill h v =
     (case v of
        None \<Rightarrow> h\<lparr>fEntries := Suc (fEntries h)\<rparr>
      | Some x \<Rightarrow>
          if th1_in_range (fXmin h) (fXmax h) x
          then h\<lparr>fEntries := Suc (fEntries h), fTsumw := fTsumw h + 1,
                 fTsumwx := fTsumwx h + x, fTsumwx2 := fTsumwx2 h + x * x\<rparr>
          else h\<lparr>fEntries := Suc (fEntries h)\<rparr>)"

definition th1_fill_all :: "th1 \<Rightarrow> double option list \<Rightarrow> th1" where
  "th1_fill_all h vs = fold (\<lambda>v h. th1_fill h v) vs h"

definition th1_mean :: "th1 \<Rightarrow> double" where
  "th1_mean h = (if fTsumw h = 0 then 0 else fTsumwx h / fTsumw h)"

definition th1_rms :: "th1 \<Rightarrow> double" where
  "th1_rms h =
     (if fTsumw h = 0 then 0
      else sqrt (max (fTsumwx2 h / fTsumw h - th1_mean h * th1_mean h) 0))"

primrec accepted :: "double \<Rightarrow> double \<Rightarrow> double option list \<Rightarrow> double list" where
  "accepted xlow xup [] = []"
| "accepted xlow xup (v # vs) =
     (case v of
        None \<Rightarrow> accepted xlow xup vs
      | Some x \<Rightarrow> if th1_in_range xlow xup x then x # accepted xlow xup vs
                  else accepted xlow xup vs)"

definition list_mean :: "real list \<Rightarrow> real" where
  "list_mean xs = (if xs = [] then 0 else sum_list xs / real (length xs))"

definition list_stddev :: "real list \<Rightarrow> real" where
  "list_stddev xs =
     (if xs = [] then 0
      else sqrt ((\<Sum>x\<leftarrow>xs. (x - list_mean xs)\<^sup>2) / real (length xs)))"

declare th1_new_def [model_defs] th1_in_range_def [model_defs] th1_fill_def [model_defs]
  th1_mean_def [model_defs] th1_rms_def [model_defs]

lemma th1_fill_all_Nil [simp]: "th1_fill_all h [] = h"
  by (simp add: th1_fill_all_def)

lemma th1_fill_all_Cons [simp]: "th1_fill_all h (v # vs) = th1_fill_all (th1_fill h v) vs"
  by (simp add: th1_fill_all_def)

lemma th1_fill_all_stats:
  "fXmin (th1_fill_all h vs) = fXmin h \<and> fXmax (th1_fill_all h vs) = fXmax h \<and>
   fEntries (th1_fill_all h vs) = fEntries h + length vs \<and>
   fTsumw (th1_fill_all h vs) = fTsumw h + real (length (accepted (fXmin h) (fXmax h) vs)) \<and>
   fTsumwx (th1_fill_all h vs) = fTsumwx h + sum_list (accepted (fXmin h) (fXmax h) vs) \<and>
   fTsumwx2 (th1_fill_all h vs) = fTsumwx2 h + (\<Sum>x\<leftarrow>accepted (fXmin h) (fXmax h) vs. x * x)"
proof (induction vs arbitrary: h)
  case Nil
  then show ?case by simp
next
  case (Cons v vs)
  show ?case
    using Cons.IH [of "th1_fill h v"]
    by (cases v) (auto simp: th1_fill_def)
qed

lemma sum_sq_shift:
  fixes xs :: "real list"
  shows "(\<Sum>x\<leftarrow>xs. (x - m)\<^sup>2) = (\<Sum>x\<leftarrow>xs. x * x) - 2 * m * sum_list xs + real (length xs) * m\<^sup>2"
  by (induction xs) (auto simp: algebra_simps power2_eq_square)

lemma sum_sq_centered:
  fixes xs :: "real list"
  assumes "xs \<noteq> []"
  shows "(\<Sum>x\<leftarrow>xs. (x - list_mean xs)\<^sup>2) / real (length xs)
           = (\<Sum>x\<leftarrow>xs. x * x) / real (length xs) - list_mean xs * list_mean xs"
proof -
  let ?n = "real (length xs)" and ?m = "list_mean xs"
  have n: "0 < ?n" using assms by simp
  have "(\<Sum>x\<leftarrow>xs. (x - ?m)\<^sup>2) = (\<Sum>x\<leftarrow>xs. x * x) - 2 * ?m * sum_list xs + ?n * ?m\<^sup>2"
    by (rule sum_sq_shift)
  moreover have "sum_list xs = ?n * ?m"
    using n assms by (simp add: list_mean_def)
  ultimately show ?thesis
    using n by (simp add: field_simps power2_eq_square)
qed

lemma th1_fill_all_sums:
  "fTsumw (th1_fill_all (th1_new nb xlow xup) vs) = real (length (accepted xlow xup vs))"
  "fTsumwx (th1_fill_all (th1_new nb xlow xup) vs) = sum_list (accepted xlow xup vs)"
  "fTsumwx2 (th1_fill_all (th1_new nb xlow xup) vs) = (\<Sum>x\<leftarrow>accepted xlow xup vs. x * x)"
  using th1_fill_all_stats [of "th1_new nb xlow xup" vs] by (simp_all add: th1_new_def)

lemma th1_mean_fill_all:
  "th1_mean (th1_fill_all (th1_new nb xlow xup) vs) = list_mean (accepted xlow xup vs)"
  by (simp add: th1_mean_def list_mean_def th1_fill_all_sums)

lemma th1_rms_fill_all:
  "th1_rms (th1_fill_all (th1_new nb xlow xup) vs) = list_stddev (accepted xlow xup vs)"
proof (cases "accepted xlow xup vs = []")
  case True
  then show ?thesis
    by (simp add: th1_rms_def list_stddev_def th1_fill_all_sums)
next
  case False
  let ?a = "accepted xlow xup vs"
  have v: "0 \<le> (\<Sum>x\<leftarrow>?a. (x - list_mean ?a)\<^sup>2) / real (length ?a)"
    by (intro divide_nonneg_nonneg sum_list_nonneg) auto
  show ?thesis
    using False v sum_sq_centered [OF False]
    by (simp add: th1_rms_def list_stddev_def th1_fill_all_sums th1_mean_fill_all)
qed

lemma accepted_in_range:
  "x \<in> set (accepted xlow xup vs) \<Longrightarrow> xlow < xup \<Longrightarrow> xlow \<le> x \<and> x < xup"
  by (induction vs) (auto simp: th1_in_range_def split: option.splits if_splits)

lemma accepted_replicate:
  "th1_in_range xlow xup t \<Longrightarrow> accepted xlow xup (replicate n (Some t)) = replicate n t"
  by (induction n) auto

lemma list_mean_bounds:
  assumes "xs \<noteq> []" "\<forall>x\<in>set xs. lo \<le> x \<and> x < hi"
  shows "lo \<le> list_mean xs \<and> list_mean xs < hi"
proof -
  have n: "0 < real (length xs)" using assms(1) by simp
  have "real (length xs) * lo \<le> sum_list xs"
    using assms(2) sum_list_mono [of xs "\<lambda>_. lo" id] by (simp add: sum_list_triv)
  moreover have "sum_list xs < real (length xs) * hi"
    using assms sum_list_strict_mono [of xs id "\<lambda>_. hi"] by (simp add: sum_list_triv)
  ultimately show ?thesis
    using n by (simp add: list_mean_def assms(1) field_simps)
qed

lemma list_mean_replicate: "0 < n \<Longrightarrow> list_mean (replicate n t) = t"
  by (simp add: list_mean_def sum_list_replicate)

lemma list_stddev_replicate: "list_stddev (replicate n t) = 0"
  by (cases n) (simp_all add: list_stddev_def list_mean_def sum_list_replicate del: replicate.simps)

lemma list_stddev_outlier:
  "list_stddev ((b + d) # replicate n b) = \<bar>d\<bar> * sqrt (real n) / (real n + 1)"
proof -
  let ?m = "b + d / (real n + 1)"
  have m: "list_mean ((b + d) # replicate n b) = ?m"
    by (simp add: list_mean_def sum_list_replicate field_simps)
  have "(\<Sum>x\<leftarrow>(b + d) # replicate n b. (x - ?m)\<^sup>2) = (d - d / (real n + 1))\<^sup>2 + real n * (d / (real n + 1))\<^sup>2"
    by (simp add: sum_list_replicate power2_eq_square algebra_simps add_divide_distrib)
  also have "\<dots> = d\<^sup>2 * real n / (real n + 1)"
  proof -
    have N: "real n + 1 \<noteq> 0" by simp
    have e: "d - d / (real n + 1) = d * real n / (real n + 1)"
      using N by (simp add: field_simps)
    have "(d * real n / (real n + 1))\<^sup>2 + real n * (d / (real n + 1))\<^sup>2 =
            d\<^sup>2 * real n * (real n + 1) / (real n + 1)\<^sup>2"
      by (simp add: power_divide add_divide_distrib [symmetric] power_mult_distrib algebra_simps power2_eq_square)
    also have "\<dots> = d\<^sup>2 * real n / (real n + 1)"
      using N by (simp add: power2_eq_square)
    finally show ?thesis unfolding e .
  qed
  finally have sumeq: "(\<Sum>x\<leftarrow>(b + d) # replicate n b. (x - ?m)\<^sup>2) = d\<^sup>2 * real n / (real n + 1)" .
  have "list_stddev ((b + d) # replicate n b) = sqrt (d\<^sup>2 * real n / (real n + 1) / (real n + 1))"
    unfolding list_stddev_def m sumeq by simp
  also have "\<dots> = sqrt (d\<^sup>2 * real n / (real n + 1)\<^sup>2)"
    by (simp add: power2_eq_square)
  also have "\<dots> = \<bar>d\<bar> * sqrt (real n) / (real n + 1)"
    by (simp add: real_sqrt_divide real_sqrt_mult)
  finally show ?thesis .
qed

end
