(* ===== verification/MonteCarlo.thy ===== *)
theory MonteCarlo
  imports FitModel Histogram
begin

text \<open>
  The Monte Carlo synthesis of time measurements in \<open>gr1\<close> (gr1.cpp 25--64).
  \<^item> \<open>mc_config\<close> and \<open>gr1_config\<close> are the constants of the experiment
    (\<open>npts\<close>, \<open>nerr\<close>, \<open>nbins\<close>, \<open>sigma_tiempo\<close>, \<open>sigma_temperatura\<close>,
    \<open>Tmin\<close>; gr1.cpp 25--30);
  \<^item> the random generator \<open>TRandom3 T\<close> is an injected stream \<open>zs\<close> of standard
    normal variates: draw number \<open>j\<close> of checkpoint \<open>i\<close> is \<open>zs (i * nerr + j)\<close>,
    the order in which the loop consumes the generator, and \<open>gaus\<close> is
    \<open>T.Gaus(mean, sigma) = mean + sigma * z\<close>;
  \<^item> \<open>t_err_draws\<close> is the inner loop of line 53 (a non-finite time is \<open>None\<close>);
  \<^item> \<open>gr1_checkpoint\<close> is one iteration of the outer loop (lines 52--63): the
    checkpoint temperature \<open>Tmin + 5 i\<close>, the histogram on \<open>[0, 2 t0)\<close> with
    \<open>t0\<close> the noiseless inverse time, the clamp of a negative mean to 0, and the choice
    of the time error: the RMS if it exceeds \<open>sigma_temperatura\<close>, otherwise
    \<open>sigma_tiempo\<close>; \<open>None\<close> when \<open>t0\<close> is not finite (the histogram cannot
    be booked);
  \<^item> \<open>gr1_simulation\<close> is the whole loop over the \<open>npts\<close> checkpoints;
  \<^item> \<open>mc_estimate\<close> is the estimator contract of the specification: mean of the
    inverse times of the draws that have one, clamped at 0, and the RMS or the floor.
  The lemmas give the exact noiseless result, the refinement of the estimate's mean by the
  checkpoint time when every draw lies in the histogram range, the bounds of the estimate, and a
  concrete stream on which the time error falls below the floor \<open>sigma_tiempo\<close> that the
  specification's estimator would apply.
\<close>

record mc_config =
  npts :: nat
  nerr :: nat
  nbins :: nat
  sigma_tiempo :: double
  sigma_temperatura :: double
  Tmin :: double

definition gr1_config :: mc_config where
  "gr1_config = \<lparr>npts = 10, nerr = 1000, nbins = 15, sigma_tiempo = 30, sigma_temperatura = 2,
                 Tmin = 30\<rparr>"

definition gaus :: "double \<Rightarrow> double \<Rightarrow> double \<Rightarrow> double" where
  "gaus mean sigma z = mean + sigma * z"

definition t_err_draws ::
  "globals \<Rightarrow> mc_config \<Rightarrow> double \<Rightarrow> (nat \<Rightarrow> double) \<Rightarrow> nat \<Rightarrow> double option list" where
  "t_err_draws g c temp zs base =
     map (\<lambda>j. inv_time g (gaus temp (sigma_temperatura c) (zs (base + j)))) [0..<nerr c]"

definition gr1_checkpoint :: "globals \<Rightarrow> mc_config \<Rightarrow> (nat \<Rightarrow> double) \<Rightarrow> nat \<Rightarrow> point option" where
  "gr1_checkpoint g c zs i =
     (let temp = Tmin c + 5 * real i;
          t_err = t_err_draws g c temp zs (i * nerr c)
      in case inv_time g temp of
           None \<Rightarrow> None
         | Some t0 \<Rightarrow>
             (let h1 = th1_fill_all (th1_new (nbins c) 0 (2 * t0)) t_err
              in Some \<lparr>time = (if th1_mean h1 < 0 then 0 else th1_mean h1),
                       temperature = temp,
                       sigma_time = (if sigma_temperatura c < th1_rms h1 then th1_rms h1
                                     else sigma_tiempo c),
                       sigma_temperature = sigma_temperatura c\<rparr>))"

definition gr1_simulation :: "globals \<Rightarrow> mc_config \<Rightarrow> (nat \<Rightarrow> double) \<Rightarrow> point list option" where
  "gr1_simulation g c zs = those (map (gr1_checkpoint g c zs) [0..<npts c])"

definition mc_estimate :: "double \<Rightarrow> double option list \<Rightarrow> double \<times> double" where
  "mc_estimate sigma_floor ts =
     (let vs = [t. Some t \<leftarrow> ts]; m = list_mean vs; s = list_stddev vs
      in (if m < 0 then 0 else m, if sigma_floor < s then s else sigma_floor))"

declare gr1_config_def [model_defs] gaus_def [model_defs] t_err_draws_def [model_defs]
  gr1_checkpoint_def [model_defs] gr1_simulation_def [model_defs]

lemma gr1_checkpoint_Some:
  assumes "gr1_checkpoint g c zs i = Some p"
  obtains t0 where "inv_time g (Tmin c + 5 * real i) = Some t0"
    and "p = (let h1 = th1_fill_all (th1_new (nbins c) 0 (2 * t0))
                         (t_err_draws g c (Tmin c + 5 * real i) zs (i * nerr c))
              in \<lparr>time = (if th1_mean h1 < 0 then 0 else th1_mean h1),
                  temperature = Tmin c + 5 * real i,
                  sigma_time = (if sigma_temperatura c < th1_rms h1 then th1_rms h1
                                else sigma_tiempo c),
                  sigma_temperature = sigma_temperatura c\<rparr>)"
  using assms by (auto simp: gr1_checkpoint_def Let_def split: option.splits)

lemma inv_time_pos:
  assumes "valid_globals g" "Ta g < T" "T < To g"
  shows "\<exists>t0. inv_time g T = Some t0 \<and> 0 < t0"
proof -
  have d: "0 < To g - Ta g" "0 < k g" using assms(1) by (auto simp: valid_globals_def)
  have r: "0 < (T - Ta g) / (To g - Ta g)" "(T - Ta g) / (To g - Ta g) < 1"
    using d assms by (simp_all add: divide_less_eq)
  then have "ln ((T - Ta g) / (To g - Ta g)) < 0"
    by simp
  then have "0 < - ln ((T - Ta g) / (To g - Ta g)) / k g"
    using d by (simp add: divide_neg_pos)
  then show ?thesis
    using d r by (simp add: inv_time_def Let_def)
qed

lemma inv_time_neg:
  assumes "valid_globals g" "To g < T"
  shows "\<exists>t0. inv_time g T = Some t0 \<and> t0 < 0"
proof -
  have d: "0 < To g - Ta g" "0 < k g" using assms(1) by (auto simp: valid_globals_def)
  have r: "1 < (T - Ta g) / (To g - Ta g)"
    using d assms(2) by (simp add: less_divide_eq)
  then have "0 < ln ((T - Ta g) / (To g - Ta g))"
    by simp
  then have "- ln ((T - Ta g) / (To g - Ta g)) / k g < 0"
    using d by (simp add: divide_neg_pos)
  moreover have "0 < (T - Ta g) / (To g - Ta g)"
    using r by linarith
  ultimately show ?thesis
    using d by (simp add: inv_time_def Let_def)
qed

lemma accepted_all_in_range:
  "list_all (\<lambda>v. case v of None \<Rightarrow> True | Some t \<Rightarrow> th1_in_range xlow xup t) vs \<Longrightarrow>
     accepted xlow xup vs = [t. Some t \<leftarrow> vs]"
  by (induction vs) (auto split: option.splits)

lemma gr1_one_draw_eval:
  "gr1_checkpoint gr1_globals (gr1_config\<lparr>nerr := 1\<rparr>) (\<lambda>_. 0) 4 =
     Some \<lparr>time = - ln (5 / 9) / (191 / 250000), temperature = 50, sigma_time = 30,
           sigma_temperature = 2\<rparr>"
proof -
  have t0: "inv_time gr1_globals 50 = Some (- ln (5 / 9) / (191 / 250000))"
    by (simp add: model_defs)
  have pos: "0 < - ln (5 / 9 :: real) / (191 / 250000)"
    by simp
  have rng: "th1_in_range 0 (2 * (- ln (5 / 9) / (191 / 250000))) (- ln (5 / 9) / (191 / 250000))"
    using pos unfolding th1_in_range_def by linarith
  have "th1_mean (th1_fill_all (th1_new 15 0 (2 * (- ln (5 / 9) / (191 / 250000))))
                   [Some (- ln (5 / 9) / (191 / 250000))]) = - ln (5 / 9) / (191 / 250000)"
       "th1_rms (th1_fill_all (th1_new 15 0 (2 * (- ln (5 / 9) / (191 / 250000))))
                   [Some (- ln (5 / 9) / (191 / 250000))]) = 0"
    using th1_mean_fill_all [of 15 0 "2 * (- ln (5 / 9) / (191 / 250000))"
        "[Some (- ln (5 / 9) / (191 / 250000))]"]
      th1_rms_fill_all [of 15 0 "2 * (- ln (5 / 9) / (191 / 250000))"
        "[Some (- ln (5 / 9) / (191 / 250000))]"] rng
    by (simp_all add: list_mean_def list_stddev_def)
  then show ?thesis
    using t0 pos
    by (simp add: gr1_checkpoint_def t_err_draws_def gaus_def gr1_config_def Let_def)
qed

text \<open>C15: With zero temperature noise (sigma_temperatura = 0), at least one draw and a checkpoint temperature strictly between Ta and To, the simulated point has exactly the analytic inverse time t0 as its time and falls back to sigma_tiempo as its time error, whatever the random stream.\<close>

theorem gr1_checkpoint_noiseless:
  assumes "valid_globals g" and "sigma_temperatura c = 0" and "0 < nerr c"
    and "Ta g < Tmin c + 5 * real i" and "Tmin c + 5 * real i < To g"
    and t0: "inv_time g (Tmin c + 5 * real i) = Some t0"
  shows "gr1_checkpoint g c zs i =
           Some \<lparr>time = t0, temperature = Tmin c + 5 * real i, sigma_time = sigma_tiempo c,
                 sigma_temperature = 0\<rparr>"
proof -
  let ?T = "Tmin c + 5 * real i"
  obtain t1 where "inv_time g ?T = Some t1" "0 < t1"
    using inv_time_pos [OF assms(1,4,5)] by blast
  with t0 have pos: "0 < t0" by simp
  have draws: "t_err_draws g c ?T zs (i * nerr c) = replicate (nerr c) (Some t0)"
    using assms(2) t0 by (simp add: t_err_draws_def gaus_def map_replicate_const)
  have rng: "th1_in_range 0 (2 * t0) t0"
    using pos by (simp add: th1_in_range_def)
  let ?h = "th1_fill_all (th1_new (nbins c) 0 (2 * t0)) (replicate (nerr c) (Some t0))"
  have "th1_mean ?h = t0" "th1_rms ?h = 0"
    using th1_mean_fill_all [of "nbins c" 0 "2 * t0" "replicate (nerr c) (Some t0)"]
      th1_rms_fill_all [of "nbins c" 0 "2 * t0" "replicate (nerr c) (Some t0)"]
      accepted_replicate [OF rng] assms(3)
    by (simp_all add: list_mean_replicate list_stddev_replicate)
  then show ?thesis
    using pos assms(2) t0 by (simp add: gr1_checkpoint_def draws Let_def)
qed

text \<open>C16: Every simulated checkpoint has a non-negative time: a negative histogram mean is clamped to 0.\<close>

theorem gr1_checkpoint_time_nonneg:
  assumes "gr1_checkpoint g c zs i = Some p"
  shows "0 \<le> time p"
  using assms by (rule gr1_checkpoint_Some) (auto simp: Let_def)

text \<open>C17: When the noiseless time t0 of a checkpoint is positive, the simulated time is below 2 t0: the estimate is the mean of the draws that fall in the histogram range [0, 2 t0), not of all valid draws.\<close>

theorem gr1_checkpoint_time_in_histogram:
  assumes "gr1_checkpoint g c zs i = Some p"
    and "inv_time g (temperature p) = Some t0" and "0 < t0"
  shows "time p < 2 * t0"
proof -
  obtain t1 where t1: "inv_time g (Tmin c + 5 * real i) = Some t1"
    and p: "p = (let h1 = th1_fill_all (th1_new (nbins c) 0 (2 * t1))
                         (t_err_draws g c (Tmin c + 5 * real i) zs (i * nerr c))
              in \<lparr>time = (if th1_mean h1 < 0 then 0 else th1_mean h1),
                  temperature = Tmin c + 5 * real i,
                  sigma_time = (if sigma_temperatura c < th1_rms h1 then th1_rms h1
                                else sigma_tiempo c),
                  sigma_temperature = sigma_temperatura c\<rparr>)"
    using assms(1) by (rule gr1_checkpoint_Some)
  have "t1 = t0" using assms(2) t1 p by (simp add: Let_def)
  let ?a = "accepted 0 (2 * t0) (t_err_draws g c (Tmin c + 5 * real i) zs (i * nerr c))"
  have m: "list_mean ?a < 2 * t0"
  proof (cases "?a = []")
    case True
    then show ?thesis using assms(3) by (simp add: list_mean_def)
  next
    case False
    have "\<forall>x\<in>set ?a. 0 \<le> x \<and> x < 2 * t0"
      using accepted_in_range assms(3) by fastforce
    then show ?thesis using list_mean_bounds [OF False] by blast
  qed
  show ?thesis
    using m assms(3) by (simp add: p \<open>t1 = t0\<close> Let_def th1_mean_fill_all)
qed

lemma gr1_checkpoint_outlier_draws:
  fixes z1 :: real
  defines "t0 \<equiv> - ln (5 / 9) / k gr1_globals"
  assumes z1: "z1 = 15 * (exp (- k gr1_globals * 300) - 1)"
  shows "t_err_draws gr1_globals gr1_config (Tmin gr1_config + 5 * real 4)
           (\<lambda>j. if j = 4000 then z1 else 0) (4 * nerr gr1_config) =
         Some (t0 + 300) # replicate 999 (Some t0)"
proof -
  let ?k = "k gr1_globals"
  have k: "0 < ?k" "Ta gr1_globals = 20" "To gr1_globals = 74" by (simp_all add: gr1_globals_def)
  have e: "(20 + 30 * exp (- ?k * 300) - 20) / (74 - 20) = 5 / 9 * exp (- ?k * 300)"
    by simp
  have t1: "inv_time gr1_globals (gaus 50 2 z1) = Some (t0 + 300)"
  proof -
    have "gaus 50 2 z1 = 20 + 30 * exp (- ?k * 300)"
      using z1 by (simp add: gaus_def algebra_simps)
    moreover have "- ln (5 / 9 * exp (- ?k * 300)) / ?k = t0 + 300"
    proof -
      have l: "ln (5 / 9 * exp (- ?k * 300)) = ln (5 / 9) - ?k * 300"
        using ln_mult [of "5 / 9" "exp (- ?k * 300)"] by simp
      show ?thesis
        unfolding l using k(1) by (simp add: t0_def field_simps)
    qed
    ultimately show ?thesis
      using k e by (simp add: inv_time_def Let_def)
  qed
  have t0: "inv_time gr1_globals (gaus 50 2 0) = Some t0"
    using k by (simp add: inv_time_def gaus_def t0_def)
  have u: "[0..<1000] = 0 # [1..<(1000::nat)]" by (simp add: upt_conv_Cons)
  have "map (\<lambda>j. inv_time gr1_globals (gaus 50 2 (if 4000 + j = 4000 then z1 else 0))) [1..<1000] =
        map (\<lambda>_. Some t0) [1..<(1000::nat)]"
    using t0 by (intro map_cong) auto
  then have "map (\<lambda>j. inv_time gr1_globals (gaus 50 2 (if 4000 + j = 4000 then z1 else 0))) [1..<1000] =
        replicate 999 (Some t0)"
    by (simp add: map_replicate_const)
  then show ?thesis
    using t1 by (simp add: t_err_draws_def gr1_config_def u)
qed

text \<open>C18: The time error is not floored at sigma_tiempo as the specification's estimator requires: with gr1's configuration there is a stream of draws (one outlier 300 s late among the 1000 draws of the 50 degree checkpoint) for which the RMS lies between sigma_temperatura = 2 and sigma_tiempo = 30 and the code reports it as the time error, while the estimator of the specification, on the same draws, reports the floor sigma_tiempo; the code compares the RMS with the temperature error (gr1.cpp 61).\<close>

theorem gr1_checkpoint_sigma_time_below_floor:
  "\<exists>zs p. gr1_checkpoint gr1_globals gr1_config zs 4 = Some p \<and>
      sigma_temperatura gr1_config < sigma_time p \<and> sigma_time p < sigma_tiempo gr1_config \<and>
      snd (mc_estimate (sigma_tiempo gr1_config)
             (t_err_draws gr1_globals gr1_config (Tmin gr1_config + 5 * real 4) zs (4 * nerr gr1_config))) =
        sigma_tiempo gr1_config"
proof -
  define t0 where "t0 = - ln (5 / 9) / k gr1_globals"
  define z1 where "z1 = 15 * (exp (- k gr1_globals * 300) - 1)"
  let ?zs = "\<lambda>j. if j = 4000 then z1 else (0::real)"
  let ?ds = "t_err_draws gr1_globals gr1_config (Tmin gr1_config + 5 * real 4) ?zs (4 * nerr gr1_config)"
  have ds: "?ds = Some (t0 + 300) # replicate 999 (Some t0)"
    unfolding t0_def by (rule gr1_checkpoint_outlier_draws) (simp add: z1_def)
  have kk: "k gr1_globals = 191 / 250000" by (simp add: gr1_globals_def)
  have "ln (5 / 9 :: real) \<le> 5 / 9 - 1"
    by (rule ln_le_minus_one) simp
  then have big: "300 < t0"
    by (simp add: t0_def kk field_simps)
  have inv: "inv_time gr1_globals (Tmin gr1_config + 5 * real 4) = Some t0"
    by (simp add: inv_time_def gr1_globals_def gr1_config_def t0_def)
  have acc: "accepted 0 (2 * t0) ?ds = (t0 + 300) # replicate 999 t0"
  proof -
    have "th1_in_range 0 (2 * t0) (t0 + 300)" "th1_in_range 0 (2 * t0) t0"
      using big by (simp_all add: th1_in_range_def)
    then show ?thesis
      unfolding ds by (simp add: accepted_replicate)
  qed
  have sd: "list_stddev ((t0 + 300) # replicate 999 t0) = 300 * sqrt 999 / 1000"
    using list_stddev_outlier [of t0 300 999] by simp
  have lo: "2 < 300 * sqrt 999 / (1000 :: real)" and hi: "300 * sqrt 999 / 1000 < (30 :: real)"
  proof -
    have "(20 / 3 :: real) < sqrt 999"
      by (rule real_less_rsqrt) (simp add: power_divide)
    moreover have "sqrt 999 < (100 :: real)"
      by (rule real_less_lsqrt) simp_all
    ultimately show "2 < 300 * sqrt 999 / (1000 :: real)" "300 * sqrt 999 / 1000 < (30 :: real)"
      by simp_all
  qed
  obtain p where p: "gr1_checkpoint gr1_globals gr1_config ?zs 4 = Some p"
    and sp: "sigma_time p = 300 * sqrt 999 / 1000"
    using inv acc sd lo by (simp add: gr1_checkpoint_def th1_rms_fill_all Let_def gr1_config_def)
  have "[t. Some t \<leftarrow> ?ds] = (t0 + 300) # replicate 999 t0"
    unfolding ds by (induction "999::nat") simp_all
  then have mc: "snd (mc_estimate (sigma_tiempo gr1_config) ?ds) = sigma_tiempo gr1_config"
    using sd hi by (simp add: mc_estimate_def Let_def gr1_config_def)
  have "sigma_temperatura gr1_config < sigma_time p" "sigma_time p < sigma_tiempo gr1_config"
    using sp lo hi by (simp_all add: gr1_config_def)
  then show ?thesis
    using p mc by blast
qed

text \<open>C19: A checkpoint temperature above To (gr1 uses 30, 35, .., 75 with To = 74) is not rejected: with zero temperature noise the analytic time is negative, the histogram booked on [0, 2 t0) has its upper edge below its lower one and keeps every draw, and the negative mean is clamped, so the point reports time 0 at a temperature the water never had.\<close>

theorem gr1_checkpoint_above_To:
  assumes "valid_globals g" and "sigma_temperatura c = 0" and "0 < nerr c"
    and "To g < Tmin c + 5 * real i"
  shows "gr1_checkpoint g c zs i =
           Some \<lparr>time = 0, temperature = Tmin c + 5 * real i, sigma_time = sigma_tiempo c,
                 sigma_temperature = 0\<rparr>"
proof -
  let ?T = "Tmin c + 5 * real i"
  obtain t0 where t0: "inv_time g ?T = Some t0" and neg: "t0 < 0"
    using inv_time_neg [OF assms(1,4)] by blast
  have draws: "t_err_draws g c ?T zs (i * nerr c) = replicate (nerr c) (Some t0)"
    using assms(2) t0 by (simp add: t_err_draws_def gaus_def map_replicate_const)
  have rng: "th1_in_range 0 (2 * t0) t0"
    using neg by (simp add: th1_in_range_def)
  let ?h = "th1_fill_all (th1_new (nbins c) 0 (2 * t0)) (replicate (nerr c) (Some t0))"
  have "th1_mean ?h = t0" "th1_rms ?h = 0"
    using th1_mean_fill_all [of "nbins c" 0 "2 * t0" "replicate (nerr c) (Some t0)"]
      th1_rms_fill_all [of "nbins c" 0 "2 * t0" "replicate (nerr c) (Some t0)"]
      accepted_replicate [OF rng] assms(3)
    by (simp_all add: list_mean_replicate list_stddev_replicate)
  then show ?thesis
    using neg assms(2) t0 by (simp add: gr1_checkpoint_def draws Let_def)
qed

text \<open>C20: The time of a checkpoint refines the Monte Carlo estimator of the specification (the mean of the inverse times of all draws that give one, a negative mean clamped to 0): whenever every finite draw lies in the histogram range [0, 2 t0), the code's histogram mean and clamp give exactly that mean_time, for every configuration and stream; draws outside the range are where the two differ.\<close>

theorem gr1_checkpoint_refines_estimate:
  assumes "gr1_checkpoint g c zs i = Some p"
    and "inv_time g (Tmin c + 5 * real i) = Some t0"
    and "list_all (\<lambda>v. case v of None \<Rightarrow> True | Some t \<Rightarrow> 0 \<le> t \<and> t < 2 * t0)
           (t_err_draws g c (Tmin c + 5 * real i) zs (i * nerr c))"
  shows "time p = fst (mc_estimate (sigma_tiempo c) (t_err_draws g c (Tmin c + 5 * real i) zs (i * nerr c)))"
proof -
  let ?ds = "t_err_draws g c (Tmin c + 5 * real i) zs (i * nerr c)"
  have "list_all (\<lambda>v. case v of None \<Rightarrow> True | Some t \<Rightarrow> th1_in_range 0 (2 * t0) t) ?ds"
    using assms(3) by (auto simp: list_all_iff th1_in_range_def split: option.splits)
  then have acc: "accepted 0 (2 * t0) ?ds = [t. Some t \<leftarrow> ?ds]"
    by (rule accepted_all_in_range)
  obtain t0' where "inv_time g (Tmin c + 5 * real i) = Some t0'"
    and p: "p = (let h1 = th1_fill_all (th1_new (nbins c) 0 (2 * t0')) ?ds
              in \<lparr>time = (if th1_mean h1 < 0 then 0 else th1_mean h1),
                  temperature = Tmin c + 5 * real i,
                  sigma_time = (if sigma_temperatura c < th1_rms h1 then th1_rms h1
                                else sigma_tiempo c),
                  sigma_temperature = sigma_temperatura c\<rparr>)"
    using gr1_checkpoint_Some [OF assms(1)] by blast
  then have "t0' = t0" using assms(2) by simp
  then show ?thesis
    using p acc by (simp add: Let_def th1_mean_fill_all mc_estimate_def)
qed

theorem gr1_checkpoint_noiseless_witness:
  "valid_globals gr1_globals \<and> sigma_temperatura (gr1_config\<lparr>sigma_temperatura := 0\<rparr>) = 0 \<and>
   0 < nerr (gr1_config\<lparr>sigma_temperatura := 0\<rparr>) \<and>
   Ta gr1_globals < Tmin (gr1_config\<lparr>sigma_temperatura := 0\<rparr>) + 5 * real 4 \<and>
   Tmin (gr1_config\<lparr>sigma_temperatura := 0\<rparr>) + 5 * real 4 < To gr1_globals \<and>
   inv_time gr1_globals (Tmin (gr1_config\<lparr>sigma_temperatura := 0\<rparr>) + 5 * real 4) =
     Some (- ln (5 / 9) / (191 / 250000)) \<and>
   gr1_checkpoint gr1_globals (gr1_config\<lparr>sigma_temperatura := 0\<rparr>) (\<lambda>_. 1) 4 =
     Some \<lparr>time = - ln (5 / 9) / (191 / 250000),
           temperature = Tmin (gr1_config\<lparr>sigma_temperatura := 0\<rparr>) + 5 * real 4,
           sigma_time = sigma_tiempo (gr1_config\<lparr>sigma_temperatura := 0\<rparr>),
           sigma_temperature = 0\<rparr>"
proof -
  have h: "valid_globals gr1_globals" "sigma_temperatura (gr1_config\<lparr>sigma_temperatura := 0\<rparr>) = 0"
    "0 < nerr (gr1_config\<lparr>sigma_temperatura := 0\<rparr>)"
    "Ta gr1_globals < Tmin (gr1_config\<lparr>sigma_temperatura := 0\<rparr>) + 5 * real 4"
    "Tmin (gr1_config\<lparr>sigma_temperatura := 0\<rparr>) + 5 * real 4 < To gr1_globals"
    "inv_time gr1_globals (Tmin (gr1_config\<lparr>sigma_temperatura := 0\<rparr>) + 5 * real 4) =
       Some (- ln (5 / 9) / (191 / 250000))"
    by (simp_all add: model_defs gr1_config_def)
  show ?thesis using gr1_checkpoint_noiseless [OF h, of "\<lambda>_. 1"] h by simp
qed

theorem gr1_checkpoint_time_nonneg_witness:
  "gr1_checkpoint gr1_globals (gr1_config\<lparr>nerr := 1\<rparr>) (\<lambda>_. 0) 4 =
     Some \<lparr>time = - ln (5 / 9) / (191 / 250000), temperature = 50, sigma_time = 30,
           sigma_temperature = 2\<rparr> \<and>
   0 \<le> time \<lparr>time = - ln (5 / 9) / (191 / 250000), temperature = 50, sigma_time = 30,
           sigma_temperature = 2\<rparr>"
  using gr1_checkpoint_time_nonneg [OF gr1_one_draw_eval] gr1_one_draw_eval by simp

theorem gr1_checkpoint_time_in_histogram_witness:
  "gr1_checkpoint gr1_globals (gr1_config\<lparr>nerr := 1\<rparr>) (\<lambda>_. 0) 4 =
     Some \<lparr>time = - ln (5 / 9) / (191 / 250000), temperature = 50, sigma_time = 30,
           sigma_temperature = 2\<rparr> \<and>
   inv_time gr1_globals 50 = Some (- ln (5 / 9) / (191 / 250000)) \<and>
   0 < - ln (5 / 9) / (191 / 250000 :: real) \<and>
   - ln (5 / 9) / (191 / 250000) < 2 * (- ln (5 / 9) / (191 / 250000 :: real))"
proof -
  have h2: "inv_time gr1_globals
              (temperature \<lparr>time = - ln (5 / 9) / (191 / 250000), temperature = 50, sigma_time = 30,
                            sigma_temperature = 2\<rparr>) = Some (- ln (5 / 9) / (191 / 250000))"
    by (simp add: model_defs)
  have h3: "0 < - ln (5 / 9) / (191 / 250000 :: real)" by simp
  show ?thesis
    using gr1_checkpoint_time_in_histogram [OF gr1_one_draw_eval h2 h3] gr1_one_draw_eval h2 h3
    by simp
qed

theorem gr1_checkpoint_above_To_witness:
  "gr1_checkpoint gr1_globals (gr1_config\<lparr>sigma_temperatura := 0\<rparr>) (\<lambda>_. 0) 9 =
     Some \<lparr>time = 0, temperature = 75, sigma_time = 30, sigma_temperature = 0\<rparr>"
proof -
  have h: "valid_globals gr1_globals" "sigma_temperatura (gr1_config\<lparr>sigma_temperatura := 0\<rparr>) = 0"
    "0 < nerr (gr1_config\<lparr>sigma_temperatura := 0\<rparr>)"
    "To gr1_globals < Tmin (gr1_config\<lparr>sigma_temperatura := 0\<rparr>) + 5 * real 9"
    by (simp_all add: model_defs)
  show ?thesis
    using gr1_checkpoint_above_To [OF h, of "\<lambda>_. 0"] by (simp add: gr1_config_def)
qed
theorem gr1_checkpoint_refines_estimate_witness:
  "gr1_checkpoint gr1_globals (gr1_config\<lparr>nerr := 1\<rparr>) (\<lambda>_. 0) 4 =
     Some \<lparr>time = - ln (5 / 9) / (191 / 250000), temperature = 50, sigma_time = 30,
           sigma_temperature = 2\<rparr> \<and>
   inv_time gr1_globals (Tmin (gr1_config\<lparr>nerr := 1\<rparr>) + 5 * real 4) = Some (- ln (5 / 9) / (191 / 250000)) \<and>
   list_all (\<lambda>v. case v of None \<Rightarrow> True | Some t \<Rightarrow> 0 \<le> t \<and> t < 2 * (- ln (5 / 9) / (191 / 250000)))
     (t_err_draws gr1_globals (gr1_config\<lparr>nerr := 1\<rparr>) (Tmin (gr1_config\<lparr>nerr := 1\<rparr>) + 5 * real 4) (\<lambda>_. 0)
        (4 * nerr (gr1_config\<lparr>nerr := 1\<rparr>))) \<and>
   - ln (5 / 9) / (191 / 250000) =
     fst (mc_estimate (sigma_tiempo (gr1_config\<lparr>nerr := 1\<rparr>))
       (t_err_draws gr1_globals (gr1_config\<lparr>nerr := 1\<rparr>) (Tmin (gr1_config\<lparr>nerr := 1\<rparr>) + 5 * real 4) (\<lambda>_. 0)
          (4 * nerr (gr1_config\<lparr>nerr := 1\<rparr>))))"
proof -
  have t0: "inv_time gr1_globals (Tmin (gr1_config\<lparr>nerr := 1\<rparr>) + 5 * real 4) =
              Some (- ln (5 / 9) / (191 / 250000))"
    by (simp add: model_defs)
  have pos: "0 < - ln (5 / 9 :: real) / (191 / 250000)"
    by simp
  have ds: "t_err_draws gr1_globals (gr1_config\<lparr>nerr := 1\<rparr>) (Tmin (gr1_config\<lparr>nerr := 1\<rparr>) + 5 * real 4)
              (\<lambda>_. 0) (4 * nerr (gr1_config\<lparr>nerr := 1\<rparr>)) = [Some (- ln (5 / 9) / (191 / 250000))]"
    using t0 by (simp add: t_err_draws_def gaus_def gr1_config_def)
  have all: "list_all (\<lambda>v. case v of None \<Rightarrow> True | Some t \<Rightarrow> 0 \<le> t \<and> t < 2 * (- ln (5 / 9) / (191 / 250000)))
     (t_err_draws gr1_globals (gr1_config\<lparr>nerr := 1\<rparr>) (Tmin (gr1_config\<lparr>nerr := 1\<rparr>) + 5 * real 4) (\<lambda>_. 0)
        (4 * nerr (gr1_config\<lparr>nerr := 1\<rparr>)))"
    using pos unfolding ds by simp
  have ev: "gr1_checkpoint gr1_globals (gr1_config\<lparr>nerr := 1\<rparr>) (\<lambda>_. 0) 4 =
     Some \<lparr>time = - ln (5 / 9) / (191 / 250000), temperature = 50, sigma_time = 30,
           sigma_temperature = 2\<rparr>"
    by (rule gr1_one_draw_eval)
  show ?thesis
    using gr1_checkpoint_refines_estimate [OF ev t0 all] ev t0 all by simp
qed

end
