(* ===== verification/Experiment.thy ===== *)
theory Experiment
  imports MonteCarlo "HOL-Library.Monad_Syntax"
begin

text \<open>
  The data flow of the two drivers \<open>gr1()\<close> (gr1.cpp 23--269) and \<open>gr2()\<close>
  (gr2.cpp 23--227), without their drawing calls.
  \<^item> The literal arrays of measured times and temperatures (gr1.cpp 39--44,
    gr2.cpp 29--38) are lists; in gr2.cpp line 32 the fifth element of
    \<open>tiempo_porc_nev\<close> is the malformed token \<open>334.0.38\<close>, so that array is a
    function of the unknown value \<open>x4\<close>;
  \<^item> \<open>tgraph_errors\<close> is the constructor \<open>TGraphErrors(n, x, y, ex, ey)\<close>: it
    reads the first \<open>n\<close> entries of each array (\<open>None\<close> if an array is shorter,
    which would be an out-of-bounds read);
  \<^item> \<open>tgraph_fit\<close> is \<open>gr->Fit("f1")\<close>: it moves the parameters of \<open>f1\<close> to
    the least-squares optimum and leaves the graph holding a copy.  The objective does not
    depend on the second parameter (\<open>fitFunc\<close> never reads it), so the fitter
    leaves \<open>par[1]\<close> where it is; this part is modelled from the spec;
  \<^item> \<open>gr1_run\<close> and \<open>gr2_run\<close> thread the one function \<open>f1\<close> through the
    three fits in the order of the code and collect the graphs and the parameters of the
    fitted functions \<open>f2\<close>, \<open>f3\<close>, \<open>f4\<close> that the last panel draws.
  The lemmas show that the simulation of \<open>gr1\<close> completes for every random stream and
  take a completed run apart; the properties of the whole macro are stated on the session
  model of \<open>Scene\<close>.
\<close>

definition tiempo_plas_real :: "double list" where
  "tiempo_plas_real = [0, 61.012, 154.066, 271.057, 426.037, 635.080, 880.026, 1227.030, 1693.073, 2451.036]"

definition tiempo_ceram_real :: "double list" where
  "tiempo_ceram_real = [0, 31.083, 105.037, 193.050, 325.006, 498.057, 734.031, 1040.016, 1478.095, 2105.031]"

definition tiempo_vidrio_real :: "double list" where
  "tiempo_vidrio_real = [0, 55.041, 140.026, 253.067, 399.059, 582.015, 830.067, 1157.082, 1622.086, 2318.051]"

definition temperatura_real :: "double list" where
  "temperatura_real = [74, 70, 65, 60, 55, 50, 45, 40, 35, 30]"

definition tiempo_real_err :: "double list" where
  "tiempo_real_err = replicate 10 1"

definition temperatura_real_err :: "double list" where
  "temperatura_real_err = replicate 10 1"

definition tgraph_errors ::
  "nat \<Rightarrow> double list \<Rightarrow> double list \<Rightarrow> double list \<Rightarrow> double list \<Rightarrow> point list option" where
  "tgraph_errors n x y ex ey =
     (if n \<le> length x \<and> n \<le> length y \<and> n \<le> length ex \<and> n \<le> length ey
      then Some (map (\<lambda>i. \<lparr>time = x ! i, temperature = y ! i, sigma_time = ex ! i,
                            sigma_temperature = ey ! i\<rparr>) [0..<n])
      else None)"

definition tgraph_fit :: "globals \<Rightarrow> double \<times> double \<Rightarrow> point list \<Rightarrow> double \<times> double" where
  "tgraph_fit g par pts = (fit_To g pts, snd par)"

definition gr2_tiempo_plas_hab :: "double list" where
  "gr2_tiempo_plas_hab = [0, 61.012, 154.066, 271.057, 426.037, 635.080, 880.026, 1227.030, 1693.073, 2451.036]"

definition gr2_tiempo_plas_nev :: "double list" where
  "gr2_tiempo_plas_nev = [0, 49.046, 123.021, 214.028, 322.074, 591.064, 762.054, 981.024, 1241.062, 1541.059]"

definition gr2_tiempo_porc_hab :: "double list" where
  "gr2_tiempo_porc_hab = [0, 31.083, 105.037, 193.050, 325.006, 498.057, 734.031, 1040.016, 1478.095, 2105.031]"

definition gr2_tiempo_porc_nev :: "double \<Rightarrow> double list" where
  "gr2_tiempo_porc_nev x4 = [0, 60, 155.051, 268.006, x4, 470.024, 577.038, 768.061, 953.062, 1185.045]"

definition gr2_tiempo_vidr_hab :: "double list" where
  "gr2_tiempo_vidr_hab = [0, 55.041, 140.026, 253.067, 399.059, 582.015, 830.067, 1157.062, 1622.082, 2318.051]"

definition gr2_tiempo_vidr_nev :: "double list" where
  "gr2_tiempo_vidr_nev = [0, 48.069, 116.010, 201.013, 299.082, 415.034, 545.016, 699.061, 896.004, 1145.097]"

definition gr2_temperatura_real :: "double list" where
  "gr2_temperatura_real = [74, 70, 65, 60, 55, 50, 45, 40, 35, 30]"

definition gr2_temperatura_real_p :: "double list" where
  "gr2_temperatura_real_p = [71, 66, 59, 53, 50, 45, 40, 35, 30, 25]"

definition gr2_tiempo_real_err :: "double list" where
  "gr2_tiempo_real_err = replicate 10 1"

definition gr2_temperatura_real_err :: "double list" where
  "gr2_temperatura_real_err = replicate 10 1"

record gr1_out =
  sim_points :: "point list"
  plas_points :: "point list"
  ceram_points :: "point list"
  vidrio_points :: "point list"
  f2_par :: "double \<times> double"
  f3_par :: "double \<times> double"
  f4_par :: "double \<times> double"

definition gr1_run :: "globals \<Rightarrow> mc_config \<Rightarrow> (nat \<Rightarrow> double) \<Rightarrow> gr1_out option" where
  "gr1_run g c zs = do {
     sim \<leftarrow> gr1_simulation g c zs;
     let f1 = f1_init g;
     plas \<leftarrow> tgraph_errors 10 tiempo_plas_real temperatura_real tiempo_real_err temperatura_real_err;
     let f1 = tgraph_fit g f1 plas;
     let f2 = f1;
     ceram \<leftarrow> tgraph_errors 10 tiempo_ceram_real temperatura_real tiempo_real_err temperatura_real_err;
     let f1 = tgraph_fit g f1 ceram;
     let f3 = f1;
     vidrio \<leftarrow> tgraph_errors 10 tiempo_vidrio_real temperatura_real tiempo_real_err temperatura_real_err;
     let f1 = tgraph_fit g f1 vidrio;
     let f4 = f1;
     Some \<lparr>sim_points = sim, plas_points = plas, ceram_points = ceram, vidrio_points = vidrio,
           f2_par = f2, f3_par = f3, f4_par = f4\<rparr>
   }"

record gr2_out =
  plas_hab_points :: "point list"
  plas_nev_points :: "point list"
  porc_hab_points :: "point list"
  porc_nev_points :: "point list"
  vidr_hab_points :: "point list"
  vidr_nev_points :: "point list"
  nev_f2_par :: "double \<times> double"
  nev_f3_par :: "double \<times> double"
  nev_f4_par :: "double \<times> double"

definition gr2_run :: "globals \<Rightarrow> double \<Rightarrow> gr2_out option" where
  "gr2_run g x4 = do {
     let f1 = f1_init g;
     p_hab \<leftarrow> tgraph_errors 10 gr2_tiempo_plas_hab gr2_temperatura_real gr2_tiempo_real_err gr2_temperatura_real_err;
     p_nev \<leftarrow> tgraph_errors 10 gr2_tiempo_plas_nev gr2_temperatura_real gr2_tiempo_real_err gr2_temperatura_real_err;
     let f1 = tgraph_fit g f1 p_nev;
     let f2 = f1;
     c_hab \<leftarrow> tgraph_errors 10 gr2_tiempo_porc_hab gr2_temperatura_real gr2_tiempo_real_err gr2_temperatura_real_err;
     c_nev \<leftarrow> tgraph_errors 10 (gr2_tiempo_porc_nev x4) gr2_temperatura_real_p gr2_tiempo_real_err gr2_temperatura_real_err;
     let f1 = tgraph_fit g f1 c_nev;
     let f3 = f1;
     v_hab \<leftarrow> tgraph_errors 10 gr2_tiempo_vidr_hab gr2_temperatura_real gr2_tiempo_real_err gr2_temperatura_real_err;
     v_nev \<leftarrow> tgraph_errors 10 gr2_tiempo_vidr_nev gr2_temperatura_real gr2_tiempo_real_err gr2_temperatura_real_err;
     let f1 = tgraph_fit g f1 v_nev;
     let f4 = f1;
     Some \<lparr>plas_hab_points = p_hab, plas_nev_points = p_nev, porc_hab_points = c_hab,
           porc_nev_points = c_nev, vidr_hab_points = v_hab, vidr_nev_points = v_nev,
           nev_f2_par = f2, nev_f3_par = f3, nev_f4_par = f4\<rparr>
   }"

declare tgraph_errors_def [model_defs] tgraph_fit_def [model_defs]

lemma gr1_checkpoint_defined:
  assumes "To g \<noteq> Ta g" "k g \<noteq> 0" "0 < (Tmin c + 5 * real i - Ta g) / (To g - Ta g)"
  shows "\<exists>p. gr1_checkpoint g c zs i = Some p"
  using assms by (simp add: gr1_checkpoint_def inv_time_def Let_def)

lemma those_Some_iff: "those xs = Some ys \<longleftrightarrow> xs = map Some ys"
  by (induction xs arbitrary: ys) (auto split: option.splits simp: Cons_eq_map_conv)

lemma those_not_None: "(\<forall>x\<in>set xs. x \<noteq> None) \<Longrightarrow> those xs \<noteq> None"
  by (induction xs) (auto split: option.splits)

lemma gr1_simulation_defined:
  "\<exists>ps. gr1_simulation gr1_globals gr1_config zs = Some ps \<and> length ps = 10"
proof -
  have "\<forall>i\<in>set [0..<npts gr1_config]. gr1_checkpoint gr1_globals gr1_config zs i \<noteq> None"
  proof
    fix i assume "i \<in> set [0..<npts gr1_config]"
    have "0 < (Tmin gr1_config + 5 * real i - Ta gr1_globals) / (To gr1_globals - Ta gr1_globals)"
      by (simp add: gr1_config_def gr1_globals_def)
    then show "gr1_checkpoint gr1_globals gr1_config zs i \<noteq> None"
      using gr1_checkpoint_defined [of gr1_globals gr1_config i zs]
      by (auto simp: gr1_globals_def)
  qed
  then obtain ps where "those (map (gr1_checkpoint gr1_globals gr1_config zs) [0..<npts gr1_config]) = Some ps"
    using those_not_None [of "map (gr1_checkpoint gr1_globals gr1_config zs) [0..<npts gr1_config]"]
    by auto
  moreover from this have "length ps = 10"
    by (simp add: those_Some_iff gr1_config_def) (metis length_map length_upt minus_nat.diff_0)
  ultimately show ?thesis
    by (simp add: gr1_simulation_def)
qed

lemma gr1_datasets:
  "tgraph_errors 10 tiempo_plas_real temperatura_real tiempo_real_err temperatura_real_err \<noteq> None"
  "tgraph_errors 10 tiempo_ceram_real temperatura_real tiempo_real_err temperatura_real_err \<noteq> None"
  "tgraph_errors 10 tiempo_vidrio_real temperatura_real tiempo_real_err temperatura_real_err \<noteq> None"
  by (simp_all add: tgraph_errors_def tiempo_plas_real_def tiempo_ceram_real_def tiempo_vidrio_real_def
      temperatura_real_def tiempo_real_err_def temperatura_real_err_def)

lemma gr1_run_Some:
  assumes "gr1_simulation g c zs = Some ps"
  shows "\<exists>out. gr1_run g c zs = Some out \<and> sim_points out = ps"
  using assms gr1_datasets by (auto simp: gr1_run_def Let_def)

lemma gr1_run_Some_parts:
  assumes "gr1_run g c zs = Some out"
  shows "gr1_simulation g c zs = Some (sim_points out)"
    "tgraph_errors 10 tiempo_plas_real temperatura_real tiempo_real_err temperatura_real_err =
       Some (plas_points out)"
    "tgraph_errors 10 tiempo_ceram_real temperatura_real tiempo_real_err temperatura_real_err =
       Some (ceram_points out)"
    "tgraph_errors 10 tiempo_vidrio_real temperatura_real tiempo_real_err temperatura_real_err =
       Some (vidrio_points out)"
    "f2_par out = (fit_To g (plas_points out), k g)"
    "f3_par out = (fit_To g (ceram_points out), k g)"
    "f4_par out = (fit_To g (vidrio_points out), k g)"
  using assms
  by (auto simp: gr1_run_def Let_def tgraph_fit_def f1_init_def bind_eq_Some_conv)

end
