(* ===== verification/Canvas.thy ===== *)
theory Canvas
  imports Prelude
begin

text \<open>
  The pad layout of both macros: \<open>CanvasPartition\<close> (gr1.cpp 304--380, identical in
  gr2.cpp 262--338) splits the canvas into \<open>Nx \<times> Ny\<close> pads named
  \<open>pad_i_j\<close>, and the drivers (gr1.cpp 91--104) look them up again by name.
  \<^item> \<open>pad\<close> is a \<open>TPad\<close> as far as the layout sets it: its name, its corners
    \<open>(xlow, ylow, xup, yup)\<close> in canvas coordinates and its four margins;
  \<^item> \<open>dec_string\<close> and \<open>pad_name_str\<close> are \<open>sprintf("pad_%i_%i", i, j)\<close>, and
    \<open>sprintf_pad_name\<close> writes into the buffer \<open>char name[16]\<close>: a name that does not
    fit with its terminating zero is undefined behaviour, \<open>None\<close> here;
  \<^item> the object store \<open>gROOT\<close> is a list of pads: \<open>find_object\<close> is
    \<open>FindObject\<close> (the first pad of that name) and \<open>delete_object\<close> is
    \<open>if (pad) delete pad\<close> (removes that pad); a new \<open>TPad\<close> is appended;
  \<^item> \<open>cp_col\<close>/\<open>cp_row\<close> are the two three-way branches of the loops, over the
    variables \<open>hposr\<close>/\<open>vposu\<close> that carry from one iteration to the next;
    \<open>cp_pad\<close> is one inner iteration, \<open>cp_column_step\<close> one outer iteration, over
    the state \<open>cp_state\<close> (the carried variables and the store).
  \<open>canvas_layout\<close> is the closed form of the layout: column \<open>i\<close> spans
  \<open>col_box\<close> of \<open>i\<close>, row \<open>j\<close> spans \<open>col_box\<close> of \<open>j\<close>.  The lemmas show
  that the loops compute it whenever the names fit, that they fail exactly when one does
  not, that the store keeps one pad per name so that the drivers' lookups find the new
  pads, and the geometry: equal frames, a span of the whole canvas, and the lost right
  margin of a single column.
\<close>

record pad =
  pad_name :: string
  pad_xlow :: double
  pad_ylow :: double
  pad_xup :: double
  pad_yup :: double
  pad_left :: double
  pad_right :: double
  pad_bottom :: double
  pad_top :: double

fun dec_string :: "nat \<Rightarrow> string" where
  "dec_string n =
     (if n < 10 then [char_of (48 + n)] else dec_string (n div 10) @ [char_of (48 + n mod 10)])"

definition pad_name_str :: "nat \<Rightarrow> nat \<Rightarrow> string" where
  "pad_name_str i j = ''pad_'' @ dec_string i @ ''_'' @ dec_string j"

definition sprintf_pad_name :: "nat \<Rightarrow> nat \<Rightarrow> string option" where
  "sprintf_pad_name i j =
     (let s = pad_name_str i j in if length s + 1 \<le> 16 then Some s else None)"

definition find_object :: "string \<Rightarrow> pad list \<Rightarrow> pad option" where
  "find_object name objs = find (\<lambda>p. pad_name p = name) objs"

fun delete_object :: "string \<Rightarrow> pad list \<Rightarrow> pad list" where
  "delete_object name [] = []"
| "delete_object name (p # ps) = (if pad_name p = name then ps else p # delete_object name ps)"

definition cp_col ::
  "int \<Rightarrow> double \<Rightarrow> double \<Rightarrow> double \<Rightarrow> double \<Rightarrow> nat \<Rightarrow> double \<Rightarrow> double \<times> double \<times> double \<times> double" where
  "cp_col Nx lMargin rMargin hStep hSpacing i hposr =
     (if i = 0 then
        (let hposl = 0; hposr = lMargin + hStep; hfactor = hposr - hposl
         in (hposl, hposr, lMargin / hfactor, 0))
      else if int i = Nx - 1 then
        (let hposl = hposr + hSpacing; hposr = hposl + hStep + rMargin; hfactor = hposr - hposl
         in (hposl, hposr, 0, rMargin / hfactor))
      else
        (let hposl = hposr + hSpacing; hposr = hposl + hStep
         in (hposl, hposr, 0, 0)))"

definition cp_row ::
  "int \<Rightarrow> double \<Rightarrow> double \<Rightarrow> double \<Rightarrow> double \<Rightarrow> nat \<Rightarrow> double \<Rightarrow> double \<times> double \<times> double \<times> double" where
  "cp_row Ny bMargin tMargin vStep vSpacing j vposu =
     (if j = 0 then
        (let vposd = 0; vposu = bMargin + vStep; vfactor = vposu - vposd
         in (vposd, vposu, bMargin / vfactor, 0))
      else if int j = Ny - 1 then
        (let vposd = vposu + vSpacing; vposu = vposd + vStep + tMargin; vfactor = vposu - vposd
         in (vposd, vposu, 0, tMargin / vfactor))
      else
        (let vposd = vposu + vSpacing; vposu = vposd + vStep
         in (vposd, vposu, 0, 0)))"

record cp_state =
  cp_hposr :: double
  cp_vposu :: double
  cp_pads :: "pad list"

definition pad_at :: "string \<Rightarrow> double \<times> double \<times> double \<times> double \<Rightarrow> double \<times> double \<times> double \<times> double \<Rightarrow> pad" where
  "pad_at name hc vc =
     (case hc of
        (hposl, hposr, hmarl, hmarr) \<Rightarrow>
          (case vc of
             (vposd, vposu, vmard, vmaru) \<Rightarrow>
               \<lparr>pad_name = name, pad_xlow = hposl, pad_ylow = vposd, pad_xup = hposr, pad_yup = vposu,
                pad_left = hmarl, pad_right = hmarr, pad_bottom = vmard, pad_top = vmaru\<rparr>))"

definition cp_pad ::
  "int \<Rightarrow> double \<Rightarrow> double \<Rightarrow> double \<Rightarrow> double \<Rightarrow> nat \<Rightarrow> double \<times> double \<times> double \<times> double \<Rightarrow> nat \<Rightarrow>
   cp_state option \<Rightarrow> cp_state option" where
  "cp_pad Ny bMargin tMargin vStep vSpacing i hc j st =
     (case st of
        None \<Rightarrow> None
      | Some s \<Rightarrow>
          (let vc = cp_row Ny bMargin tMargin vStep vSpacing j (cp_vposu s)
           in case sprintf_pad_name i j of
                None \<Rightarrow> None
              | Some name \<Rightarrow>
                  Some (s\<lparr>cp_vposu := fst (snd vc),
                          cp_pads := delete_object name (cp_pads s) @ [pad_at name hc vc]\<rparr>)))"

definition cp_column_step ::
  "int \<Rightarrow> int \<Rightarrow> double \<Rightarrow> double \<Rightarrow> double \<Rightarrow> double \<Rightarrow> double \<Rightarrow> double \<Rightarrow> double \<Rightarrow> double \<Rightarrow>
   nat \<Rightarrow> cp_state option \<Rightarrow> cp_state option" where
  "cp_column_step Nx Ny lMargin rMargin bMargin tMargin hStep hSpacing vStep vSpacing i st =
     (case st of
        None \<Rightarrow> None
      | Some s \<Rightarrow>
          (let hc = cp_col Nx lMargin rMargin hStep hSpacing i (cp_hposr s)
           in map_option (\<lambda>s'. s'\<lparr>cp_hposr := fst (snd hc)\<rparr>)
                (fold (cp_pad Ny bMargin tMargin vStep vSpacing i hc) [0..<nat Ny] (Some s))))"

definition cp_step :: "int \<Rightarrow> double \<Rightarrow> double \<Rightarrow> double" where
  "cp_step N margin1 margin2 = (1 - margin1 - margin2 - (real_of_int N - 1) * 0.03) / real_of_int N"

text \<open>
  \<open>CanvasPartition C Nx Ny lMargin rMargin bMargin tMargin\<close> on the store \<open>objs\<close>
  that \<open>gROOT\<close> holds on entry; \<open>canvas = False\<close> is the null canvas of the
  early return.  The carried variables start at 0: the code leaves them uninitialised,
  and the first iteration of each loop sets them before reading them.
\<close>

definition CanvasPartition ::
  "bool \<Rightarrow> int \<Rightarrow> int \<Rightarrow> double \<Rightarrow> double \<Rightarrow> double \<Rightarrow> double \<Rightarrow> pad list \<Rightarrow> pad list option" where
  "CanvasPartition canvas Nx Ny lMargin rMargin bMargin tMargin objs =
     (if \<not> canvas then Some objs
      else
        (let vSpacing = 0.03;
             vStep = cp_step Ny bMargin tMargin;
             hSpacing = 0.03;
             hStep = cp_step Nx lMargin rMargin
         in map_option cp_pads
              (fold (cp_column_step Nx Ny lMargin rMargin bMargin tMargin hStep hSpacing vStep vSpacing)
                 [0..<nat Nx] (Some \<lparr>cp_hposr = 0, cp_vposu = 0, cp_pads = objs\<rparr>))))"

text \<open>
  The drivers' loop that fetches the pads again (gr1.cpp 91--104, gr2.cpp 67--80): for
  every \<open>i < Nx\<close>, \<open>j < Ny\<close> it prints \<open>pad_i_j\<close> into \<open>char pname[16]\<close>
  and stores \<open>gROOT->FindObject(pname)\<close> in \<open>pad[i][j]\<close>.  A null result is
  dereferenced at once by \<open>pad[i][j]->Draw()\<close>; it is \<open>None\<close> here, as is an
  overflowing name.
\<close>

definition lookup_pads :: "int \<Rightarrow> int \<Rightarrow> pad list \<Rightarrow> pad list list option" where
  "lookup_pads Nx Ny objs =
     those (map (\<lambda>i. those (map (\<lambda>j. case sprintf_pad_name i j of
                                          None \<Rightarrow> None
                                        | Some pname \<Rightarrow> find_object pname objs) [0..<nat Ny])) [0..<nat Nx])"

subsection \<open>The closed-form layout\<close>

definition col_l :: "double \<Rightarrow> double \<Rightarrow> double \<Rightarrow> nat \<Rightarrow> double" where
  "col_l lMargin hStep hSpacing i = (if i = 0 then 0 else lMargin + real i * (hStep + hSpacing))"

definition col_r :: "int \<Rightarrow> double \<Rightarrow> double \<Rightarrow> double \<Rightarrow> double \<Rightarrow> nat \<Rightarrow> double" where
  "col_r Nx lMargin rMargin hStep hSpacing i =
     (if i = 0 then lMargin + hStep
      else lMargin + real (Suc i) * hStep + real i * hSpacing + (if int i = Nx - 1 then rMargin else 0))"

definition col_box :: "int \<Rightarrow> double \<Rightarrow> double \<Rightarrow> double \<Rightarrow> double \<Rightarrow> nat \<Rightarrow> double \<times> double \<times> double \<times> double" where
  "col_box Nx lMargin rMargin hStep hSpacing i =
     (col_l lMargin hStep hSpacing i, col_r Nx lMargin rMargin hStep hSpacing i,
      (if i = 0 then lMargin / (lMargin + hStep) else 0),
      (if i \<noteq> 0 \<and> int i = Nx - 1 then rMargin / (hStep + rMargin) else 0))"

definition layout_pad :: "int \<Rightarrow> int \<Rightarrow> double \<Rightarrow> double \<Rightarrow> double \<Rightarrow> double \<Rightarrow> nat \<Rightarrow> nat \<Rightarrow> pad" where
  "layout_pad Nx Ny lMargin rMargin bMargin tMargin i j =
     pad_at (pad_name_str i j)
       (col_box Nx lMargin rMargin (cp_step Nx lMargin rMargin) 0.03 i)
       (col_box Ny bMargin tMargin (cp_step Ny bMargin tMargin) 0.03 j)"

definition canvas_layout :: "int \<Rightarrow> int \<Rightarrow> double \<Rightarrow> double \<Rightarrow> double \<Rightarrow> double \<Rightarrow> pad list" where
  "canvas_layout Nx Ny lMargin rMargin bMargin tMargin =
     concat (map (\<lambda>i. map (layout_pad Nx Ny lMargin rMargin bMargin tMargin i) [0..<nat Ny]) [0..<nat Nx])"

definition layout_names :: "int \<Rightarrow> int \<Rightarrow> string list" where
  "layout_names Nx Ny = concat (map (\<lambda>i. map (pad_name_str i) [0..<nat Ny]) [0..<nat Nx])"

text \<open>Reading a decimal numeral back, the inverse of \<open>%i\<close> on naturals.\<close>

definition dec_value :: "string \<Rightarrow> nat" where
  "dec_value s = foldl (\<lambda>acc c. 10 * acc + (of_char c - 48)) 0 s"

definition parse_pad_name :: "string \<Rightarrow> (nat \<times> nat) option" where
  "parse_pad_name s =
     (if take 4 s = ''pad_'' then
        (let r = drop 4 s; a = takeWhile (\<lambda>c. c \<noteq> CHR ''_'') r
         in if length a < length r then Some (dec_value a, dec_value (drop (Suc (length a)) r)) else None)
      else None)"

declare pad_name_str_def [model_defs] sprintf_pad_name_def [model_defs] find_object_def [model_defs]
  cp_col_def [model_defs] cp_row_def [model_defs] pad_at_def [model_defs] cp_pad_def [model_defs]
  cp_column_step_def [model_defs] cp_step_def [model_defs] CanvasPartition_def [model_defs] lookup_pads_def [model_defs]

subsection \<open>Pad names\<close>

declare dec_string.simps [simp del]

lemma dec_value_snoc: "dec_value (s @ [c]) = 10 * dec_value s + (of_char c - 48)"
  by (simp add: dec_value_def)

lemma of_char_digit: "d < 10 \<Longrightarrow> (of_char (char_of (48 + d) :: char) :: nat) = 48 + d"
  by (simp add: of_char_of)

lemma dec_value_dec_string_aux: "dec_value (dec_string n) = n"
proof (induction n rule: dec_string.induct)
  case (1 n)
  show ?case
  proof (cases "n < 10")
    case True
    then show ?thesis by (simp add: dec_string.simps dec_value_def of_char_digit)
  next
    case False
    then have "dec_value (dec_string n) = 10 * (n div 10) + n mod 10"
      using "1.IH" by (simp add: dec_string.simps [of n] dec_value_snoc of_char_digit)
    then show ?thesis by simp
  qed
qed

lemma dec_string_inj: "dec_string m = dec_string n \<Longrightarrow> m = n"
  by (metis dec_value_dec_string_aux)

lemma dec_string_no_underscore: "CHR ''_'' \<notin> set (dec_string n)"
proof (induction n rule: dec_string.induct)
  case (1 n)
  have d: "char_of (48 + d) \<noteq> CHR ''_''" if "d < 10" for d :: nat
  proof
    assume "char_of (48 + d) = CHR ''_''"
    then have "of_char (char_of (48 + d) :: char) = (of_char (CHR ''_'') :: nat)" by simp
    then show False using that by (simp add: of_char_digit)
  qed
  show ?case
    using "1.IH" d [of n] d [of "n mod 10"] by (auto simp: dec_string.simps [of n])
qed

lemma dec_string_length: "n < 10 ^ k \<Longrightarrow> 0 < k \<Longrightarrow> length (dec_string n) \<le> k"
proof (induction n arbitrary: k rule: dec_string.induct)
  case (1 n)
  show ?case
  proof (cases "n < 10")
    case True
    then show ?thesis using "1.prems"(2) by (simp add: dec_string.simps)
  next
    case False
    obtain k' where k': "k = Suc k'" using "1.prems"(2) by (cases k) auto
    have "n div 10 < 10 ^ k'"
      using "1.prems"(1) k' by (simp add: div_less_iff_less_mult mult.commute)
    moreover have "0 < k'"
      using False "1.prems"(1) k' by (cases k') auto
    ultimately have "length (dec_string (n div 10)) \<le> k'"
      using "1.IH" False by blast
    then show ?thesis
      using False k' by (simp add: dec_string.simps [of n])
  qed
qed

lemma sprintf_pad_name_fits:
  assumes "i < 100000" "j < 100000"
  shows "sprintf_pad_name i j = Some (pad_name_str i j)"
proof -
  have "length (dec_string i) \<le> 5" "length (dec_string j) \<le> 5"
    using assms by (auto intro: dec_string_length)
  then show ?thesis
    by (simp add: sprintf_pad_name_def pad_name_str_def)
qed

lemma sprintf_pad_name_Some:
  "sprintf_pad_name i j \<noteq> None \<Longrightarrow> sprintf_pad_name i j = Some (pad_name_str i j)"
  by (simp add: sprintf_pad_name_def Let_def split: if_splits)

lemma split_underscore:
  "CHR ''_'' \<notin> set a \<Longrightarrow> CHR ''_'' \<notin> set a' \<Longrightarrow> a @ CHR ''_'' # b = a' @ CHR ''_'' # b' \<Longrightarrow>
     a = a' \<and> b = b'"
proof (induction a arbitrary: a')
  case Nil
  then show ?case by (cases a') auto
next
  case (Cons x a)
  then show ?case by (cases a') auto
qed

lemma pad_name_str_inj: "pad_name_str i j = pad_name_str i' j' \<longleftrightarrow> i = i' \<and> j = j'"
  using split_underscore [OF dec_string_no_underscore dec_string_no_underscore, of i "dec_string j" i' "dec_string j'"]
  by (auto simp: pad_name_str_def dest: dec_string_inj)

lemma pad_name_pad_at [simp]: "pad_name (pad_at name hc vc) = name"
  by (simp add: pad_at_def split: prod.splits)

subsection \<open>The object store\<close>

lemma delete_object_notin [simp]: "name \<notin> pad_name ` set B \<Longrightarrow> delete_object name B = B"
  by (induction B) auto

lemma delete_object_append:
  "name \<notin> pad_name ` set B \<Longrightarrow> delete_object name (A @ B) = delete_object name A @ B"
  by (induction A) auto

lemma delete_object_append_notin:
  "name \<notin> pad_name ` set A \<Longrightarrow> delete_object name (A @ B) = A @ delete_object name B"
  by (induction A) auto

lemma delete_object_names:
  "distinct (map pad_name ps) \<Longrightarrow>
     distinct (map pad_name (delete_object name ps)) \<and>
     pad_name ` set (delete_object name ps) = pad_name ` set ps - {name}"
  by (induction ps) (auto simp: image_iff)

lemma fold_delete_object_names:
  "distinct (map pad_name ps) \<Longrightarrow>
     distinct (map pad_name (fold delete_object ns ps)) \<and>
     pad_name ` set (fold delete_object ns ps) = pad_name ` set ps - set ns"
proof (induction ns arbitrary: ps)
  case Nil
  then show ?case by simp
next
  case (Cons n ns)
  from delete_object_names [OF Cons.prems, of n] Cons.IH [of "delete_object n ps"]
  show ?case by auto
qed

lemma find_object_distinct:
  "distinct (map pad_name ps) \<Longrightarrow> p \<in> set ps \<Longrightarrow> find_object (pad_name p) ps = Some p"
  by (induction ps) (auto simp: find_object_def)

lemma find_object_append_notin:
  "name \<notin> pad_name ` set A \<Longrightarrow> find_object name (A @ B) = find_object name B"
  by (induction A) (auto simp: find_object_def)

subsection \<open>The loops compute the closed-form layout\<close>

lemma cp_col_box:
  assumes "0 < i \<Longrightarrow> int i < Nx \<and> hposr = col_r Nx lMargin rMargin hStep hSpacing (i - 1)"
  shows "cp_col Nx lMargin rMargin hStep hSpacing i hposr = col_box Nx lMargin rMargin hStep hSpacing i"
proof (cases i)
  case 0
  then show ?thesis by (simp add: cp_col_def col_box_def col_l_def col_r_def Let_def)
next
  case (Suc m)
  with assms have h: "hposr = col_r Nx lMargin rMargin hStep hSpacing m" "int (Suc m) < Nx" by auto
  then have "int m \<noteq> Nx - 1" by simp
  then have "hposr = lMargin + real (Suc m) * hStep + real m * hSpacing"
    using h(1) by (cases m) (simp_all add: col_r_def)
  then show ?thesis
    using Suc h(2) by (simp add: cp_col_def col_box_def col_l_def col_r_def Let_def algebra_simps)
qed

lemma cp_row_eq_cp_col: "cp_row = cp_col"
  by (simp add: fun_eq_iff cp_row_def cp_col_def)

lemma cp_inner_fold:
  assumes "\<forall>j<m. sprintf_pad_name i j \<noteq> None" "m \<le> nat Ny"
    "\<forall>j<m. pad_name_str i j \<notin> pad_name ` set B" "cp_pads s = A @ B"
  shows "\<exists>s'. fold (cp_pad Ny bMargin tMargin vStep vSpacing i hc) [0..<m] (Some s) = Some s' \<and>
           cp_hposr s' = cp_hposr s \<and>
           (0 < m \<longrightarrow> cp_vposu s' = col_r Ny bMargin tMargin vStep vSpacing (m - 1)) \<and>
           cp_pads s' = fold delete_object (map (pad_name_str i) [0..<m]) A @ B @
             map (\<lambda>j. pad_at (pad_name_str i j) hc (col_box Ny bMargin tMargin vStep vSpacing j)) [0..<m]"
  using assms
proof (induction m)
  case 0
  then show ?case by simp
next
  case (Suc m)
  let ?N = "map (\<lambda>j. pad_at (pad_name_str i j) hc (col_box Ny bMargin tMargin vStep vSpacing j)) [0..<m]"
  from Suc obtain s' where s': "fold (cp_pad Ny bMargin tMargin vStep vSpacing i hc) [0..<m] (Some s) = Some s'"
    "cp_hposr s' = cp_hposr s"
    "0 < m \<longrightarrow> cp_vposu s' = col_r Ny bMargin tMargin vStep vSpacing (m - 1)"
    "cp_pads s' = fold delete_object (map (pad_name_str i) [0..<m]) A @ B @ ?N"
    by auto
  have name: "sprintf_pad_name i m = Some (pad_name_str i m)"
    using Suc.prems(1) sprintf_pad_name_Some by simp
  have row: "cp_row Ny bMargin tMargin vStep vSpacing m (cp_vposu s') = col_box Ny bMargin tMargin vStep vSpacing m"
    unfolding cp_row_eq_cp_col using s'(3) Suc.prems(2) by (intro cp_col_box) auto
  have notin: "pad_name_str i m \<notin> pad_name ` set (B @ ?N)"
    using Suc.prems(3) by (auto simp: pad_name_str_inj)
  have "fold (cp_pad Ny bMargin tMargin vStep vSpacing i hc) [0..<Suc m] (Some s) =
          cp_pad Ny bMargin tMargin vStep vSpacing i hc m (Some s')"
    using s'(1) by simp
  also have "\<dots> = Some (s'\<lparr>cp_vposu := col_r Ny bMargin tMargin vStep vSpacing m,
                  cp_pads := delete_object (pad_name_str i m) (cp_pads s') @
                    [pad_at (pad_name_str i m) hc (col_box Ny bMargin tMargin vStep vSpacing m)]\<rparr>)"
    using name row by (simp add: cp_pad_def Let_def col_box_def)
  finally show ?case
    using s'(2,4) notin by (simp add: delete_object_append)
qed

lemma cp_outer_fold:
  assumes "\<forall>i<n. \<forall>j<nat Ny. sprintf_pad_name i j \<noteq> None" "n \<le> nat Nx"
  shows "\<exists>s'. fold (cp_column_step Nx Ny lMargin rMargin bMargin tMargin hStep hSpacing vStep vSpacing)
                 [0..<n] (Some s) = Some s' \<and>
           (0 < n \<longrightarrow> cp_hposr s' = col_r Nx lMargin rMargin hStep hSpacing (n - 1)) \<and>
           cp_pads s' =
             fold delete_object (concat (map (\<lambda>i. map (pad_name_str i) [0..<nat Ny]) [0..<n])) (cp_pads s) @
             concat (map (\<lambda>i. map (\<lambda>j. pad_at (pad_name_str i j)
                                         (col_box Nx lMargin rMargin hStep hSpacing i)
                                         (col_box Ny bMargin tMargin vStep vSpacing j)) [0..<nat Ny]) [0..<n])"
  using assms
proof (induction n)
  case 0
  then show ?case by simp
next
  case (Suc n)
  let ?A = "fold delete_object (concat (map (\<lambda>i. map (pad_name_str i) [0..<nat Ny]) [0..<n])) (cp_pads s)"
  let ?B = "concat (map (\<lambda>i. map (\<lambda>j. pad_at (pad_name_str i j)
                                   (col_box Nx lMargin rMargin hStep hSpacing i)
                                   (col_box Ny bMargin tMargin vStep vSpacing j)) [0..<nat Ny]) [0..<n])"
  from Suc obtain s' where s': "fold (cp_column_step Nx Ny lMargin rMargin bMargin tMargin hStep hSpacing vStep vSpacing)
                 [0..<n] (Some s) = Some s'"
    "0 < n \<longrightarrow> cp_hposr s' = col_r Nx lMargin rMargin hStep hSpacing (n - 1)"
    "cp_pads s' = ?A @ ?B"
    by auto
  let ?hc = "col_box Nx lMargin rMargin hStep hSpacing n"
  have hc: "cp_col Nx lMargin rMargin hStep hSpacing n (cp_hposr s') = ?hc"
    using s'(2) Suc.prems(2) by (intro cp_col_box) auto
  have names: "\<forall>j<nat Ny. sprintf_pad_name n j \<noteq> None"
    using Suc.prems(1) by simp
  have fresh: "\<forall>j<nat Ny. pad_name_str n j \<notin> pad_name ` set ?B"
    by (auto simp: pad_name_str_inj)
  obtain s'' where s'': "fold (cp_pad Ny bMargin tMargin vStep vSpacing n ?hc) [0..<nat Ny] (Some s') = Some s''"
    "cp_pads s'' = fold delete_object (map (pad_name_str n) [0..<nat Ny]) ?A @ ?B @
       map (\<lambda>j. pad_at (pad_name_str n j) ?hc (col_box Ny bMargin tMargin vStep vSpacing j)) [0..<nat Ny]"
    using cp_inner_fold [OF names order.refl fresh s'(3), of bMargin tMargin vStep vSpacing ?hc] by blast
  have "fold (cp_column_step Nx Ny lMargin rMargin bMargin tMargin hStep hSpacing vStep vSpacing)
          [0..<Suc n] (Some s) = Some (s''\<lparr>cp_hposr := col_r Nx lMargin rMargin hStep hSpacing n\<rparr>)"
    using s'(1) s''(1) hc by (simp add: cp_column_step_def Let_def col_box_def)
  then show ?case
    using s''(2) by simp
qed

lemma names_fit:
  assumes "Nx \<le> 100000" "Ny \<le> 100000"
  shows "\<forall>i<nat Nx. \<forall>j<nat Ny. sprintf_pad_name i j \<noteq> None"
proof -
  have "nat Nx \<le> 100000" "nat Ny \<le> 100000" using assms by simp_all
  then show ?thesis using sprintf_pad_name_fits by auto
qed

lemma layout_pad_fun:
  "layout_pad Nx Ny lMargin rMargin bMargin tMargin i =
     (\<lambda>j. pad_at (pad_name_str i j)
            (col_box Nx lMargin rMargin (cp_step Nx lMargin rMargin) 0.03 i)
            (col_box Ny bMargin tMargin (cp_step Ny bMargin tMargin) 0.03 j))"
  by (simp add: fun_eq_iff layout_pad_def)

lemma CanvasPartition_Some:
  assumes "\<forall>i<nat Nx. \<forall>j<nat Ny. sprintf_pad_name i j \<noteq> None"
  shows "CanvasPartition True Nx Ny lMargin rMargin bMargin tMargin objs =
           Some (fold delete_object (layout_names Nx Ny) objs @ canvas_layout Nx Ny lMargin rMargin bMargin tMargin)"
  using cp_outer_fold [OF assms order.refl, of lMargin rMargin bMargin tMargin
      "cp_step Nx lMargin rMargin" "0.03" "cp_step Ny bMargin tMargin" "0.03"
      "\<lparr>cp_hposr = 0, cp_vposu = 0, cp_pads = objs\<rparr>"]
  by (auto simp: CanvasPartition_def canvas_layout_def layout_names_def layout_pad_fun Let_def)

lemma cp_pad_fold_None [simp]: "fold (cp_pad Ny bMargin tMargin vStep vSpacing i hc) js None = None"
  by (induction js) (simp_all add: cp_pad_def)

lemma cp_column_fold_None [simp]:
  "fold (cp_column_step Nx Ny lMargin rMargin bMargin tMargin hStep hSpacing vStep vSpacing) is None = None"
  by (induction "is") (simp_all add: cp_column_step_def)

lemma upt_split_at: "j < n \<Longrightarrow> [0..<n] = [0..<j] @ j # [Suc j..<n]"
  using upt_add_eq_append [of 0 j "n - j"] upt_conv_Cons [of j n] by simp

lemma cp_inner_fold_fail:
  assumes "j < n" "sprintf_pad_name i j = None"
  shows "fold (cp_pad Ny bMargin tMargin vStep vSpacing i hc) [0..<n] st = None"
proof -
  have "cp_pad Ny bMargin tMargin vStep vSpacing i hc j st' = None" for st'
    using assms(2) by (cases st') (simp_all add: cp_pad_def Let_def)
  then show ?thesis by (simp add: upt_split_at [OF assms(1)])
qed

lemma cp_outer_fold_fail:
  assumes "i < nat Nx" "j < nat Ny" "sprintf_pad_name i j = None"
  shows "fold (cp_column_step Nx Ny lMargin rMargin bMargin tMargin hStep hSpacing vStep vSpacing)
           [0..<nat Nx] st = None"
proof -
  have "cp_column_step Nx Ny lMargin rMargin bMargin tMargin hStep hSpacing vStep vSpacing i st' = None" for st'
    using cp_inner_fold_fail [OF assms(2,3)] by (cases st') (simp_all add: cp_column_step_def Let_def)
  then show ?thesis by (simp add: upt_split_at [OF assms(1)])
qed

subsection \<open>Geometry of the layout\<close>

lemma dec_string_small: "n < 10 \<Longrightarrow> dec_string n = [char_of (48 + n)]"
  by (simp add: dec_string.simps)

lemma dec_string_big: "10 \<le> n \<Longrightarrow> dec_string n = dec_string (n div 10) @ [char_of (48 + n mod 10)]"
  by (simp add: dec_string.simps [of n])

lemma fold_delete_object_Nil [simp]: "fold delete_object ns [] = []"
  by (induction ns) auto

lemma map_pad_name_layout: "map pad_name (canvas_layout Nx Ny lMargin rMargin bMargin tMargin) = layout_names Nx Ny"
  by (simp add: canvas_layout_def layout_names_def map_concat o_def layout_pad_def)

lemma layout_names_product:
  "layout_names Nx Ny = map (\<lambda>(i, j). pad_name_str i j) (List.product [0..<nat Nx] [0..<nat Ny])"
  by (simp add: layout_names_def product_concat_map map_concat o_def)

lemma distinct_layout_names: "distinct (layout_names Nx Ny)"
  unfolding layout_names_product
  by (auto simp: distinct_map distinct_product inj_on_def pad_name_str_inj)

lemma pad_name_layout_pad [simp]: "pad_name (layout_pad Nx Ny lMargin rMargin bMargin tMargin i j) = pad_name_str i j"
  by (simp add: layout_pad_def)

lemma set_canvas_layout:
  "set (canvas_layout Nx Ny lMargin rMargin bMargin tMargin) =
     {layout_pad Nx Ny lMargin rMargin bMargin tMargin i j | i j. i < nat Nx \<and> j < nat Ny}"
  by (auto simp: canvas_layout_def; blast)

lemma layout_pad_in_layout:
  "i < nat Nx \<Longrightarrow> j < nat Ny \<Longrightarrow>
     layout_pad Nx Ny lMargin rMargin bMargin tMargin i j \<in> set (canvas_layout Nx Ny lMargin rMargin bMargin tMargin)"
  by (auto simp: set_canvas_layout)

lemma cp_step_mult:
  "0 < N \<Longrightarrow> real_of_int N * cp_step N m1 m2 = 1 - m1 - m2 - (real_of_int N - 1) * 0.03"
  by (simp add: cp_step_def)

lemma mult_one_minus_frac: "a \<noteq> 0 \<Longrightarrow> a * (1 - x / a) = a - (x::real)"
  by (simp add: field_simps)

lemma col_box_frame:
  assumes "0 \<le> lMargin" "0 \<le> rMargin" "0 < hStep"
  shows "(col_r N lMargin rMargin hStep hSpacing i - col_l lMargin hStep hSpacing i) *
           (1 - (if i = 0 then lMargin / (lMargin + hStep) else 0)
              - (if i \<noteq> 0 \<and> int i = N - 1 then rMargin / (hStep + rMargin) else 0)) = hStep"
proof -
  have w: "col_r N lMargin rMargin hStep hSpacing i - col_l lMargin hStep hSpacing i =
             (if i = 0 then lMargin + hStep else if int i = N - 1 then hStep + rMargin else hStep)"
    by (simp add: col_l_def col_r_def algebra_simps)
  have "lMargin + hStep \<noteq> 0" "hStep + rMargin \<noteq> 0" using assms by linarith+
  then show ?thesis
    unfolding w by (simp add: mult_one_minus_frac)
qed

lemma col_l_nonneg: "0 \<le> lMargin \<Longrightarrow> 0 \<le> hStep \<Longrightarrow> 0 \<le> hSpacing \<Longrightarrow> 0 \<le> col_l lMargin hStep hSpacing i"
  by (simp add: col_l_def)

lemma col_r_le_one:
  assumes "0 \<le> lMargin" "0 \<le> rMargin" "0 \<le> cp_step N lMargin rMargin" "int i < N" "hSpacing = 0.03"
  shows "col_r N lMargin rMargin (cp_step N lMargin rMargin) hSpacing i \<le> 1"
proof -
  let ?h = "cp_step N lMargin rMargin"
  have eq: "lMargin + real_of_int N * ?h + (real_of_int N - 1) * 0.03 + rMargin = 1"
    using cp_step_mult [of N lMargin rMargin] assms(4) by simp
  have "real (Suc i) \<le> real_of_int N" "real i \<le> real_of_int N - 1"
    using assms(4) by linarith+
  then have "real (Suc i) * ?h \<le> real_of_int N * ?h" "real i * 0.03 \<le> (real_of_int N - 1) * 0.03"
    using assms(3) by (simp_all add: mult_right_mono)
  moreover have "col_r N lMargin rMargin ?h 0.03 i \<le> lMargin + real (Suc i) * ?h + real i * 0.03 + rMargin"
    using assms(2) by (simp add: col_r_def)
  ultimately show ?thesis
    unfolding assms(5) using eq by linarith
qed

lemma col_r_last:
  assumes "2 \<le> N"
  shows "col_r N lMargin rMargin (cp_step N lMargin rMargin) 0.03 (nat N - 1) = 1"
proof -
  have "nat N - 1 \<noteq> 0" "int (nat N - 1) = N - 1" "real (Suc (nat N - 1)) = real_of_int N"
    "real (nat N - 1) = real_of_int N - 1"
    using assms by auto
  then show ?thesis
    using cp_step_mult [of N lMargin rMargin] assms by (simp add: col_r_def algebra_simps)
qed

lemma layout_pad_fields:
  "pad_xlow (layout_pad Nx Ny lMargin rMargin bMargin tMargin i j) = col_l lMargin (cp_step Nx lMargin rMargin) 0.03 i"
  "pad_xup (layout_pad Nx Ny lMargin rMargin bMargin tMargin i j) = col_r Nx lMargin rMargin (cp_step Nx lMargin rMargin) 0.03 i"
  "pad_ylow (layout_pad Nx Ny lMargin rMargin bMargin tMargin i j) = col_l bMargin (cp_step Ny bMargin tMargin) 0.03 j"
  "pad_yup (layout_pad Nx Ny lMargin rMargin bMargin tMargin i j) = col_r Ny bMargin tMargin (cp_step Ny bMargin tMargin) 0.03 j"
  "pad_left (layout_pad Nx Ny lMargin rMargin bMargin tMargin i j) =
     (if i = 0 then lMargin / (lMargin + cp_step Nx lMargin rMargin) else 0)"
  "pad_right (layout_pad Nx Ny lMargin rMargin bMargin tMargin i j) =
     (if i \<noteq> 0 \<and> int i = Nx - 1 then rMargin / (cp_step Nx lMargin rMargin + rMargin) else 0)"
  "pad_bottom (layout_pad Nx Ny lMargin rMargin bMargin tMargin i j) =
     (if j = 0 then bMargin / (bMargin + cp_step Ny bMargin tMargin) else 0)"
  "pad_top (layout_pad Nx Ny lMargin rMargin bMargin tMargin i j) =
     (if j \<noteq> 0 \<and> int j = Ny - 1 then tMargin / (cp_step Ny bMargin tMargin + tMargin) else 0)"
  by (simp_all add: layout_pad_def pad_at_def col_box_def)

lemma takeWhile_upto_sep: "c \<notin> set xs \<Longrightarrow> takeWhile (\<lambda>x. x \<noteq> c) (xs @ c # ys) = xs"
  by (induction xs) auto

lemma partition_store:
  assumes "distinct (map pad_name objs)"
  shows "distinct (map pad_name (fold delete_object (layout_names Nx Ny) objs @
                                  canvas_layout Nx Ny lMargin rMargin bMargin tMargin)) \<and>
         (\<forall>i<nat Nx. \<forall>j<nat Ny.
            find_object (pad_name_str i j)
              (fold delete_object (layout_names Nx Ny) objs @ canvas_layout Nx Ny lMargin rMargin bMargin tMargin) =
            Some (layout_pad Nx Ny lMargin rMargin bMargin tMargin i j))"
proof -
  let ?F = "fold delete_object (layout_names Nx Ny) objs"
    and ?L = "canvas_layout Nx Ny lMargin rMargin bMargin tMargin"
  from fold_delete_object_names [OF assms, of "layout_names Nx Ny"]
  have F: "distinct (map pad_name ?F)" "pad_name ` set ?F = pad_name ` set objs - set (layout_names Nx Ny)"
    by auto
  have L: "pad_name ` set ?L = set (layout_names Nx Ny)" "distinct (map pad_name ?L)"
    using map_pad_name_layout [of Nx Ny] distinct_layout_names [of Nx Ny] by (metis list.set_map)+
  have "find_object (pad_name_str i j) (?F @ ?L) = Some (layout_pad Nx Ny lMargin rMargin bMargin tMargin i j)"
    if ij: "i < nat Nx" "j < nat Ny" for i j
  proof -
    have inL: "layout_pad Nx Ny lMargin rMargin bMargin tMargin i j \<in> set ?L"
      using layout_pad_in_layout ij .
    then have "pad_name_str i j \<in> set (layout_names Nx Ny)"
      using L(1) by (metis image_eqI pad_name_layout_pad)
    then have "find_object (pad_name_str i j) (?F @ ?L) = find_object (pad_name_str i j) ?L"
      using F(2) by (intro find_object_append_notin) auto
    also have "\<dots> = Some (layout_pad Nx Ny lMargin rMargin bMargin tMargin i j)"
      using find_object_distinct [OF L(2) inL] by simp
    finally show ?thesis .
  qed
  moreover have "distinct (map pad_name (?F @ ?L))"
    using F L by auto
  ultimately show ?thesis by blast
qed

lemma lookup_pads_partition:
  assumes "Nx \<le> 100000" "Ny \<le> 100000" "distinct (map pad_name objs)"
  shows "lookup_pads Nx Ny (fold delete_object (layout_names Nx Ny) objs @ canvas_layout Nx Ny lMargin rMargin bMargin tMargin) =
           Some (map (\<lambda>i. map (layout_pad Nx Ny lMargin rMargin bMargin tMargin i) [0..<nat Ny]) [0..<nat Nx])"
proof -
  let ?ps = "fold delete_object (layout_names Nx Ny) objs @ canvas_layout Nx Ny lMargin rMargin bMargin tMargin"
  have found: "\<forall>i<nat Nx. \<forall>j<nat Ny. find_object (pad_name_str i j) ?ps =
                  Some (layout_pad Nx Ny lMargin rMargin bMargin tMargin i j)"
    using partition_store [OF assms(3)] by blast
  show ?thesis
    unfolding lookup_pads_def
    using found sprintf_pad_name_fits names_fit [OF assms(1,2)]
    by (auto intro!: those_map_Some simp: sprintf_pad_name_Some)
qed

subsection \<open>Properties of CanvasPartition\<close>

text \<open>C21: CanvasPartition computes the closed-form layout: whenever Nx, Ny <= 100000 (so that every name pad_i_j fits the 16-byte buffer), the loops delete from the store the old pad of every name pad_i_j and append the Nx*Ny pads of canvas_layout, column by column.\<close>

theorem CanvasPartition_layout:
  assumes "Nx \<le> 100000" and "Ny \<le> 100000"
  shows "CanvasPartition True Nx Ny lMargin rMargin bMargin tMargin objs =
           Some (fold delete_object (layout_names Nx Ny) objs @ canvas_layout Nx Ny lMargin rMargin bMargin tMargin)"
  using CanvasPartition_Some [OF names_fit [OF assms]] .

text \<open>C22: After CanvasPartition on a store with one object per name, the store again has one object per name, and the lookup gROOT->FindObject("pad_i_j") that the drivers perform finds, for every i < Nx and j < Ny, the pad that CanvasPartition has just created for column i and row j, even when an older pad of that name was in the store.\<close>

theorem CanvasPartition_lookup:
  assumes "Nx \<le> 100000" "Ny \<le> 100000" "distinct (map pad_name objs)" "i < nat Nx" "j < nat Ny"
  shows "\<exists>ps. CanvasPartition True Nx Ny lMargin rMargin bMargin tMargin objs = Some ps \<and>
              distinct (map pad_name ps) \<and>
              find_object (pad_name_str i j) ps = Some (layout_pad Nx Ny lMargin rMargin bMargin tMargin i j)"
  using CanvasPartition_Some [OF names_fit [OF assms(1,2)]] partition_store [OF assms(3)] assms(4,5) by blast

text \<open>C23: After CanvasPartition on a store with one object per name, the drivers' loop that fetches pad[i][j] by name succeeds for every cell and returns exactly the pads CanvasPartition created, pad[i][j] being the pad of column i and row j.\<close>

theorem lookup_pads_after_partition:
  assumes "Nx \<le> 100000" "Ny \<le> 100000" "distinct (map pad_name objs)"
  shows "\<exists>ps. CanvasPartition True Nx Ny lMargin rMargin bMargin tMargin objs = Some ps \<and>
              lookup_pads Nx Ny ps =
                Some (map (\<lambda>i. map (layout_pad Nx Ny lMargin rMargin bMargin tMargin i) [0..<nat Ny]) [0..<nat Nx])"
  using CanvasPartition_Some [OF names_fit [OF assms(1,2)]] lookup_pads_partition [OF assms] by blast

text \<open>C24: CanvasPartition fails (the sprintf into char name[16] overflows, undefined behaviour) exactly when some pair i < Nx, j < Ny has a name pad_i_j longer than 15 characters; otherwise it returns a store.\<close>

theorem CanvasPartition_None_iff:
  "CanvasPartition True Nx Ny lMargin rMargin bMargin tMargin objs = None \<longleftrightarrow>
     (\<exists>i<nat Nx. \<exists>j<nat Ny. sprintf_pad_name i j = None)"
proof (cases "\<forall>i<nat Nx. \<forall>j<nat Ny. sprintf_pad_name i j \<noteq> None")
  case True
  then show ?thesis
    using CanvasPartition_Some [OF True] by auto
next
  case False
  then obtain i j where ij: "i < nat Nx" "j < nat Ny" "sprintf_pad_name i j = None"
    by auto
  then show ?thesis
    by (auto simp: CanvasPartition_def Let_def cp_outer_fold_fail [OF ij])
qed

text \<open>C25: With non-negative margins and positive steps, every pad that CanvasPartition creates has a frame (the pad minus its margins) of exactly hStep by vStep: the outer pads are wider by their margin, and the margin fractions compensate exactly.\<close>

theorem CanvasPartition_equal_frames:
  assumes "Nx \<le> 100000" "Ny \<le> 100000" "0 \<le> lMargin" "0 \<le> rMargin" "0 \<le> bMargin" "0 \<le> tMargin"
    "0 < cp_step Nx lMargin rMargin" "0 < cp_step Ny bMargin tMargin"
  shows "\<exists>ps. CanvasPartition True Nx Ny lMargin rMargin bMargin tMargin [] = Some ps \<and>
           list_all (\<lambda>p. (pad_xup p - pad_xlow p) * (1 - pad_left p - pad_right p) = cp_step Nx lMargin rMargin \<and>
                         (pad_yup p - pad_ylow p) * (1 - pad_bottom p - pad_top p) = cp_step Ny bMargin tMargin) ps"
proof -
  have "CanvasPartition True Nx Ny lMargin rMargin bMargin tMargin [] =
          Some (canvas_layout Nx Ny lMargin rMargin bMargin tMargin)"
    using CanvasPartition_Some [OF names_fit [OF assms(1,2)], of lMargin rMargin bMargin tMargin "[]"] by simp
  moreover have "list_all (\<lambda>p. (pad_xup p - pad_xlow p) * (1 - pad_left p - pad_right p) = cp_step Nx lMargin rMargin \<and>
                         (pad_yup p - pad_ylow p) * (1 - pad_bottom p - pad_top p) = cp_step Ny bMargin tMargin)
                   (canvas_layout Nx Ny lMargin rMargin bMargin tMargin)"
    unfolding list_all_iff set_canvas_layout
    using col_box_frame [OF assms(3,4,7)] col_box_frame [OF assms(5,6,8)]
    by (auto simp only: layout_pad_fields)
  ultimately show ?thesis by blast
qed

text \<open>C26: For at least two columns and two rows, non-negative margins and positive steps, the pads of CanvasPartition lie inside the unit canvas and span it: one pad has its lower-left corner at (0, 0) and one its upper-right corner at (1, 1).\<close>

theorem CanvasPartition_spans_canvas:
  assumes "2 \<le> Nx" "Nx \<le> 100000" "2 \<le> Ny" "Ny \<le> 100000"
    "0 \<le> lMargin" "0 \<le> rMargin" "0 \<le> bMargin" "0 \<le> tMargin"
    "0 < cp_step Nx lMargin rMargin" "0 < cp_step Ny bMargin tMargin"
  shows "\<exists>ps. CanvasPartition True Nx Ny lMargin rMargin bMargin tMargin [] = Some ps \<and>
           list_ex (\<lambda>p. pad_xlow p = 0 \<and> pad_ylow p = 0) ps \<and>
           list_ex (\<lambda>p. pad_xup p = 1 \<and> pad_yup p = 1) ps \<and>
           list_all (\<lambda>p. 0 \<le> pad_xlow p \<and> pad_xup p \<le> 1 \<and> 0 \<le> pad_ylow p \<and> pad_yup p \<le> 1) ps"
proof -
  let ?L = "canvas_layout Nx Ny lMargin rMargin bMargin tMargin"
    and ?p = "layout_pad Nx Ny lMargin rMargin bMargin tMargin"
  have cp: "CanvasPartition True Nx Ny lMargin rMargin bMargin tMargin [] = Some ?L"
    using CanvasPartition_Some [OF names_fit [OF assms(2,4)], of lMargin rMargin bMargin tMargin "[]"] by simp
  have "?p 0 0 \<in> set ?L" "?p (nat Nx - 1) (nat Ny - 1) \<in> set ?L"
    using assms(1,3) by (auto intro: layout_pad_in_layout)
  moreover have "pad_xlow (?p 0 0) = 0 \<and> pad_ylow (?p 0 0) = 0"
    by (simp add: layout_pad_fields col_l_def)
  moreover have "pad_xup (?p (nat Nx - 1) (nat Ny - 1)) = 1 \<and> pad_yup (?p (nat Nx - 1) (nat Ny - 1)) = 1"
    using col_r_last [OF assms(1)] col_r_last [OF assms(3)] by (simp add: layout_pad_fields)
  moreover have "list_all (\<lambda>p. 0 \<le> pad_xlow p \<and> pad_xup p \<le> 1 \<and> 0 \<le> pad_ylow p \<and> pad_yup p \<le> 1) ?L"
    unfolding list_all_iff set_canvas_layout
    using assms(5-10) by (auto simp: layout_pad_fields intro!: col_l_nonneg col_r_le_one)
  ultimately show ?thesis
    using cp by (auto simp: list_ex_iff)
qed

text \<open>C27: With a single column (Nx = 1) the only column takes the first branch (i == 0) and never the last one, so every pad spans x in [0, 1 - rMargin] with right margin 0: the right margin rMargin is left outside every pad.\<close>

theorem CanvasPartition_single_column:
  assumes "Ny \<le> 100000"
  shows "\<exists>ps. CanvasPartition True 1 Ny lMargin rMargin bMargin tMargin [] = Some ps \<and>
           list_all (\<lambda>p. pad_xlow p = 0 \<and> pad_xup p = 1 - rMargin \<and> pad_right p = 0) ps"
proof -
  have "CanvasPartition True 1 Ny lMargin rMargin bMargin tMargin [] =
          Some (canvas_layout 1 Ny lMargin rMargin bMargin tMargin)"
    using CanvasPartition_Some [OF names_fit [OF _ assms], of 1 lMargin rMargin bMargin tMargin "[]"] by simp
  moreover have "list_all (\<lambda>p. pad_xlow p = 0 \<and> pad_xup p = 1 - rMargin \<and> pad_right p = 0)
                   (canvas_layout 1 Ny lMargin rMargin bMargin tMargin)"
    unfolding list_all_iff set_canvas_layout
    by (auto simp: layout_pad_fields col_l_def col_r_def cp_step_def)
  ultimately show ?thesis by blast
qed

text \<open>C28: The pad names that CanvasPartition writes and the drivers look up encode their indices: reading pad_i_j back gives (i, j), so two different cells never share a name.\<close>

theorem pad_name_roundtrip: "parse_pad_name (pad_name_str i j) = Some (i, j)"
proof -
  have r: "drop 4 (pad_name_str i j) = dec_string i @ CHR ''_'' # dec_string j"
    by (simp add: pad_name_str_def)
  have t: "takeWhile (\<lambda>c. c \<noteq> CHR ''_'') (drop 4 (pad_name_str i j)) = dec_string i"
    unfolding r using dec_string_no_underscore by (rule takeWhile_upto_sep)
  have tk: "take 4 (pad_name_str i j) = ''pad_''"
    by (simp add: pad_name_str_def)
  show ?thesis
    unfolding parse_pad_name_def Let_def tk t by (simp add: r dec_value_dec_string_aux)
qed

subsection \<open>Witnesses\<close>

theorem CanvasPartition_layout_witness:
  "(2::int) \<le> 100000 \<and>
   CanvasPartition True 2 2 0.1409 0.1209 0.08 0.05 [] =
     Some (fold delete_object (layout_names 2 2) [] @ canvas_layout 2 2 0.1409 0.1209 0.08 0.05)"
  using CanvasPartition_layout [of 2 2 "0.1409" "0.1209" "0.08" "0.05" "[]"] by simp

theorem CanvasPartition_lookup_witness:
  "\<exists>ps. CanvasPartition True 2 2 0.1409 0.1209 0.08 0.05
          [\<lparr>pad_name = ''pad_0_1'', pad_xlow = 0, pad_ylow = 0, pad_xup = 1, pad_yup = 1,
            pad_left = 0, pad_right = 0, pad_bottom = 0, pad_top = 0\<rparr>] = Some ps \<and>
        distinct (map pad_name ps) \<and>
        find_object ''pad_0_1'' ps = Some (layout_pad 2 2 0.1409 0.1209 0.08 0.05 0 1)"
proof -
  have n: "pad_name_str 0 (Suc 0) = ''pad_0_1''"
    by (simp add: pad_name_str_def dec_string_small char_of_def bit_simps)
  show ?thesis
    using CanvasPartition_lookup [of 2 2 "[\<lparr>pad_name = ''pad_0_1'', pad_xlow = 0, pad_ylow = 0, pad_xup = 1, pad_yup = 1,
            pad_left = 0, pad_right = 0, pad_bottom = 0, pad_top = 0\<rparr>]" 0 1 "0.1409" "0.1209" "0.08" "0.05"]
    by (simp add: n)
qed

theorem lookup_pads_after_partition_witness:
  "\<exists>ps. CanvasPartition True 2 2 0.1409 0.1209 0.08 0.05 [] = Some ps \<and>
        lookup_pads 2 2 ps = Some (map (\<lambda>i. map (layout_pad 2 2 0.1409 0.1209 0.08 0.05 i) [0..<2]) [0..<2])"
  using lookup_pads_after_partition [of 2 2 "[]" "0.1409" "0.1209" "0.08" "0.05"] by simp

theorem CanvasPartition_None_iff_witness:
  "CanvasPartition True 100001 10001 0.1 0.1 0.1 0.1 [] = None"
proof -
  have "sprintf_pad_name 100000 10000 = None"
    by (simp add: sprintf_pad_name_def pad_name_str_def dec_string_big dec_string_small)
  moreover have "(100000::nat) < nat 100001" "(10000::nat) < nat 10001"
    by simp_all
  ultimately have "\<exists>i<nat 100001. \<exists>j<nat 10001. sprintf_pad_name i j = None"
    by blast
  then show ?thesis
    using CanvasPartition_None_iff [of 100001 10001 "0.1" "0.1" "0.1" "0.1" "[]"] by simp
qed

theorem CanvasPartition_equal_frames_witness:
  "\<exists>ps. CanvasPartition True 2 2 0.1409 0.1209 0.08 0.05 [] = Some ps \<and>
     list_all (\<lambda>p. (pad_xup p - pad_xlow p) * (1 - pad_left p - pad_right p) = cp_step 2 0.1409 0.1209 \<and>
                   (pad_yup p - pad_ylow p) * (1 - pad_bottom p - pad_top p) = cp_step 2 0.08 0.05) ps"
  using CanvasPartition_equal_frames [of 2 2 "0.1409" "0.1209" "0.08" "0.05"] by (simp add: cp_step_def)

theorem CanvasPartition_spans_canvas_witness:
  "\<exists>ps. CanvasPartition True 2 2 0.1409 0.1209 0.08 0.05 [] = Some ps \<and>
     list_ex (\<lambda>p. pad_xlow p = 0 \<and> pad_ylow p = 0) ps \<and>
     list_ex (\<lambda>p. pad_xup p = 1 \<and> pad_yup p = 1) ps \<and>
     list_all (\<lambda>p. 0 \<le> pad_xlow p \<and> pad_xup p \<le> 1 \<and> 0 \<le> pad_ylow p \<and> pad_yup p \<le> 1) ps"
  using CanvasPartition_spans_canvas [of 2 2 "0.1409" "0.1209" "0.08" "0.05"] by (simp add: cp_step_def)

theorem CanvasPartition_single_column_witness:
  "\<exists>ps. CanvasPartition True 1 2 0.1409 0.1209 0.08 0.05 [] = Some ps \<and>
     list_all (\<lambda>p. pad_xlow p = 0 \<and> pad_xup p = 1 - 0.1209 \<and> pad_right p = 0) ps"
  using CanvasPartition_single_column [of 2 "0.1409" "0.1209" "0.08" "0.05"] by simp

end
