(* ===== verification/Session.thy ===== *)
theory Session
  imports Experiment Canvas "HOL-Library.Sublist"
begin

text \<open>
  The part of ROOT that the drawing half of \<open>gr1\<close> and \<open>gr2\<close> drives, as an
  interpreter of the statements the drivers execute (gr1.cpp 107--268, gr2.cpp 83--227).
  The ROOT library is not part of the repository: what it does with each call is modelled
  from its documentation, as far as the drivers depend on it.
  \<^item> \<open>session\<close> holds the pad array \<open>pad[i][j]\<close>, the current pad (\<open>None\<close>
    for the canvas), \<open>xFactor\<close>/\<open>yFactor\<close>, the global \<open>TF1 f1\<close>, the graph
    variables \<open>gr1\<close>..\<open>gr6\<close>, the function pointers \<open>f2\<close>..\<open>f4\<close>, the legends,
    the list of primitives drawn into each pad, and the two canvas flags;
  \<^item> \<open>op\<close> has one constructor per kind of statement, \<open>scene_step\<close> executes one
    and \<open>scene_run\<close> a list; \<open>None\<close> is a statement that dereferences a null or
    dangling pointer, reads \<open>pad[i][j]\<close> out of range, or divides by a zero pad size;
  \<^item> \<open>Fit("f1")\<close> minimises as \<open>tgraph_fit\<close>, writes the result into \<open>f1\<close> and stores
    a copy of \<open>f1\<close> in the graph; \<open>GetFunction("f1")\<close> returns a pointer to that
    copy, so \<open>f2\<close>..\<open>f4\<close> are references to graph-owned functions (the map
    \<open>s_funcs\<close> from pointer to owning graph) and \<open>SetLineColor\<close> or the axis calls
    through them change the copy, not \<open>f1\<close>;
  \<^item> primitives are drawn by reference: the list \<open>s_drawn\<close> records which object was
    drawn into which pad with which option, and the picture painted at \<open>Update\<close> shows
    the objects as they are then.
  Attributes the drivers never set are \<open>None\<close> (ROOT's default).  \<open>wf_picture\<close> is the
  well-formedness of a picture: every drawn primitive and every legend entry refers to an
  existing object drawn in the same pad, and in every pad the first primitive creates the
  frame (a graph drawn with option \<open>a\<close>, a function drawn without \<open>same\<close>), later ones
  only overlay it and carry no axis settings of their own.
\<close>

subsection \<open>ROOT colours and the objects the drivers create\<close>

definition kRed :: int where "kRed = 632"
definition kGreen :: int where "kGreen = 416"
definition kBlue :: int where "kBlue = 600"
definition kCyan :: int where "kCyan = 432"
definition kOrange :: int where "kOrange = 800"
definition kGray :: int where "kGray = 920"

datatype axis = X_axis | Y_axis

record axis_cfg =
  ax_range :: "(double \<times> double) option"
  ax_tick :: "double option"
  ax_xtitle :: "string option"
  ax_ytitle :: "string option"
  ax_xcenter :: bool
  ax_ycenter :: bool

definition axis_default :: axis_cfg where
  "axis_default = \<lparr>ax_range = None, ax_tick = None, ax_xtitle = None, ax_ytitle = None,
                   ax_xcenter = False, ax_ycenter = False\<rparr>"

record tf1 =
  fn_par :: "double \<times> double"
  fn_line_color :: "int option"
  fn_axis :: axis_cfg

record graph =
  gr_points :: "point list"
  gr_marker_color :: "int option"
  gr_marker_style :: "int option"
  gr_marker_size :: "double option"
  gr_axis :: axis_cfg
  gr_func :: "tf1 option"

datatype obj = Graph nat | Func nat

record legend =
  leg_box :: "double \<times> double \<times> double \<times> double"
  leg_border :: "int option"
  leg_header :: "string option"
  leg_entries :: "(obj \<times> string \<times> string) list"

record latex =
  lx_font :: int
  lx_size :: double
  lx_x :: double
  lx_y :: double
  lx_text :: string
  lx_angle :: double

datatype item = Item_graph nat string | Item_func nat string | Item_legend nat | Item_latex latex

record session =
  s_pads :: "pad list list"
  s_cur :: "(nat \<times> nat) option"
  s_xfactor :: double
  s_yfactor :: double
  s_f1 :: tf1
  s_graphs :: "nat \<rightharpoonup> graph"
  s_funcs :: "nat \<rightharpoonup> nat"
  s_legends :: "nat \<rightharpoonup> legend"
  s_drawn :: "((nat \<times> nat) option \<times> item) list"
  s_updated :: bool
  s_modified :: bool

datatype op =
    Cd_canvas
  | Cd_pad nat nat
  | Set_factors nat nat
  | New_graph nat "point list option"
  | Marker_color nat int
  | Marker_style nat int
  | Marker_size nat double
  | Draw_graph nat string
  | Fit_graph nat
  | Range_user obj double double
  | Tick_length obj double
  | Set_title obj axis string
  | Center_title obj axis
  | Get_function nat nat
  | Line_color nat int
  | Draw_func nat string
  | New_legend nat "double \<times> double \<times> double \<times> double"
  | Legend_border nat int
  | Legend_header nat string
  | Legend_entry nat obj string string
  | Draw_legend nat
  | Draw_latex latex
  | Update
  | Modified

subsection \<open>One statement of the script\<close>

definition pad_ix :: "pad list list \<Rightarrow> nat \<Rightarrow> nat \<Rightarrow> pad option" where
  "pad_ix pads i j = (if i < length pads \<and> j < length (pads ! i) then Some (pads ! i ! j) else None)"

definition abs_w :: "pad \<Rightarrow> double" where
  "abs_w p = pad_xup p - pad_xlow p"

definition abs_h :: "pad \<Rightarrow> double" where
  "abs_h p = pad_yup p - pad_ylow p"

definition axis_set :: "axis_cfg \<Rightarrow> op \<Rightarrow> axis_cfg" where
  "axis_set a cmd =
     (case cmd of
        Range_user _ lo hi \<Rightarrow> a\<lparr>ax_range := Some (lo, hi)\<rparr>
      | Tick_length _ t \<Rightarrow> a\<lparr>ax_tick := Some t\<rparr>
      | Set_title _ X_axis t \<Rightarrow> a\<lparr>ax_xtitle := Some t\<rparr>
      | Set_title _ Y_axis t \<Rightarrow> a\<lparr>ax_ytitle := Some t\<rparr>
      | Center_title _ X_axis \<Rightarrow> a\<lparr>ax_xcenter := True\<rparr>
      | Center_title _ Y_axis \<Rightarrow> a\<lparr>ax_ycenter := True\<rparr>
      | _ \<Rightarrow> a)"

definition upd_graph :: "session \<Rightarrow> nat \<Rightarrow> (graph \<Rightarrow> graph option) \<Rightarrow> session option" where
  "upd_graph s n f =
     (case s_graphs s n of
        None \<Rightarrow> None
      | Some gr \<Rightarrow> map_option (\<lambda>gr'. s\<lparr>s_graphs := (s_graphs s)(n \<mapsto> gr')\<rparr>) (f gr))"

definition upd_func :: "session \<Rightarrow> nat \<Rightarrow> (tf1 \<Rightarrow> tf1) \<Rightarrow> session option" where
  "upd_func s fk f =
     (case s_funcs s fk of
        None \<Rightarrow> None
      | Some n \<Rightarrow> upd_graph s n (\<lambda>gr. map_option (\<lambda>fn. gr\<lparr>gr_func := Some (f fn)\<rparr>) (gr_func gr)))"

definition upd_legend :: "session \<Rightarrow> nat \<Rightarrow> (legend \<Rightarrow> legend) \<Rightarrow> session option" where
  "upd_legend s l f =
     (case s_legends s l of
        None \<Rightarrow> None
      | Some lg \<Rightarrow> Some (s\<lparr>s_legends := (s_legends s)(l \<mapsto> f lg)\<rparr>))"

definition draw :: "session \<Rightarrow> item \<Rightarrow> session" where
  "draw s it = s\<lparr>s_drawn := s_drawn s @ [(s_cur s, it)]\<rparr>"

definition upd_axis :: "session \<Rightarrow> op \<Rightarrow> obj \<Rightarrow> session option" where
  "upd_axis s cmd t =
     (case t of
        Graph n \<Rightarrow> upd_graph s n (\<lambda>gr. Some (gr\<lparr>gr_axis := axis_set (gr_axis gr) cmd\<rparr>))
      | Func fk \<Rightarrow> upd_func s fk (\<lambda>fn. fn\<lparr>fn_axis := axis_set (fn_axis fn) cmd\<rparr>))"

fun scene_step :: "globals \<Rightarrow> session \<Rightarrow> op \<Rightarrow> session option" where
  "scene_step g s Cd_canvas = Some (s\<lparr>s_cur := None\<rparr>)"
| "scene_step g s (Cd_pad i j) =
     (case pad_ix (s_pads s) i j of None \<Rightarrow> None | Some _ \<Rightarrow> Some (s\<lparr>s_cur := Some (i, j)\<rparr>))"
| "scene_step g s (Set_factors i j) =
     (case (pad_ix (s_pads s) 0 0, pad_ix (s_pads s) i j) of
        (Some p0, Some p) \<Rightarrow>
          if abs_w p = 0 \<or> abs_h p = 0 then None
          else Some (s\<lparr>s_xfactor := abs_w p0 / abs_w p, s_yfactor := abs_h p0 / abs_h p\<rparr>)
      | _ \<Rightarrow> None)"
| "scene_step g s (New_graph n pts) =
     map_option (\<lambda>ps. s\<lparr>s_graphs := (s_graphs s)(n \<mapsto>
        \<lparr>gr_points = ps, gr_marker_color = None, gr_marker_style = None, gr_marker_size = None,
         gr_axis = axis_default, gr_func = None\<rparr>)\<rparr>) pts"
| "scene_step g s (Marker_color n c) = upd_graph s n (\<lambda>gr. Some (gr\<lparr>gr_marker_color := Some c\<rparr>))"
| "scene_step g s (Marker_style n c) = upd_graph s n (\<lambda>gr. Some (gr\<lparr>gr_marker_style := Some c\<rparr>))"
| "scene_step g s (Marker_size n x) = upd_graph s n (\<lambda>gr. Some (gr\<lparr>gr_marker_size := Some x\<rparr>))"
| "scene_step g s (Draw_graph n opt) =
     (case s_graphs s n of None \<Rightarrow> None | Some _ \<Rightarrow> Some (draw s (Item_graph n opt)))"
| "scene_step g s (Fit_graph n) =
     (case s_graphs s n of
        None \<Rightarrow> None
      | Some gr \<Rightarrow>
          (let f1 = (s_f1 s)\<lparr>fn_par := tgraph_fit g (fn_par (s_f1 s)) (gr_points gr)\<rparr>
           in Some (s\<lparr>s_f1 := f1, s_graphs := (s_graphs s)(n \<mapsto> gr\<lparr>gr_func := Some f1\<rparr>)\<rparr>)))"
| "scene_step g s (Range_user t lo hi) = upd_axis s (Range_user t lo hi) t"
| "scene_step g s (Tick_length t x) = upd_axis s (Tick_length t x) t"
| "scene_step g s (Set_title t a x) = upd_axis s (Set_title t a x) t"
| "scene_step g s (Center_title t a) = upd_axis s (Center_title t a) t"
| "scene_step g s (Get_function fk n) =
     (case s_graphs s n of
        None \<Rightarrow> None
      | Some gr \<Rightarrow> (case gr_func gr of None \<Rightarrow> None | Some _ \<Rightarrow> Some (s\<lparr>s_funcs := (s_funcs s)(fk \<mapsto> n)\<rparr>)))"
| "scene_step g s (Line_color fk c) = upd_func s fk (\<lambda>fn. fn\<lparr>fn_line_color := Some c\<rparr>)"
| "scene_step g s (Draw_func fk opt) =
     (case s_funcs s fk of None \<Rightarrow> None | Some _ \<Rightarrow> Some (draw s (Item_func fk opt)))"
| "scene_step g s (New_legend l box) =
     Some (s\<lparr>s_legends := (s_legends s)(l \<mapsto>
        \<lparr>leg_box = box, leg_border = None, leg_header = None, leg_entries = []\<rparr>)\<rparr>)"
| "scene_step g s (Legend_border l b) = upd_legend s l (\<lambda>lg. lg\<lparr>leg_border := Some b\<rparr>)"
| "scene_step g s (Legend_header l h) = upd_legend s l (\<lambda>lg. lg\<lparr>leg_header := Some h\<rparr>)"
| "scene_step g s (Legend_entry l ob lbl opt) =
     upd_legend s l (\<lambda>lg. lg\<lparr>leg_entries := leg_entries lg @ [(ob, lbl, opt)]\<rparr>)"
| "scene_step g s (Draw_legend l) =
     (case s_legends s l of None \<Rightarrow> None | Some _ \<Rightarrow> Some (draw s (Item_legend l)))"
| "scene_step g s (Draw_latex t) = Some (draw s (Item_latex t))"
| "scene_step g s Update = Some (s\<lparr>s_updated := True\<rparr>)"
| "scene_step g s Modified = Some (s\<lparr>s_modified := True\<rparr>)"

fun scene_run :: "globals \<Rightarrow> session \<Rightarrow> op list \<Rightarrow> session option" where
  "scene_run g s [] = Some s"
| "scene_run g s (cmd # cmds) = (case scene_step g s cmd of None \<Rightarrow> None | Some s' \<Rightarrow> scene_run g s' cmds)"

definition scene_init :: "globals \<Rightarrow> pad list list \<Rightarrow> session" where
  "scene_init g pads =
     \<lparr>s_pads = pads, s_cur = None, s_xfactor = 0, s_yfactor = 0,
      s_f1 = \<lparr>fn_par = f1_init g, fn_line_color = None, fn_axis = axis_default\<rparr>,
      s_graphs = Map.empty, s_funcs = Map.empty, s_legends = Map.empty, s_drawn = [],
      s_updated = False, s_modified = False\<rparr>"

subsection \<open>Well-formed pictures\<close>

definition lower_char :: "char \<Rightarrow> char" where
  "lower_char c = (let n = (of_char c :: nat) in if 65 \<le> n \<and> n \<le> 90 then char_of (n + 32) else c)"

definition creates_frame :: "item \<Rightarrow> bool" where
  "creates_frame it =
     (case it of
        Item_graph _ opt \<Rightarrow> CHR ''a'' \<in> set (map lower_char opt)
      | Item_func _ opt \<Rightarrow> \<not> sublist ''same'' (map lower_char opt)
      | _ \<Rightarrow> False)"

definition obj_exists :: "session \<Rightarrow> obj \<Rightarrow> bool" where
  "obj_exists s ob =
     (case ob of
        Graph n \<Rightarrow> s_graphs s n \<noteq> None
      | Func fk \<Rightarrow>
          (case s_funcs s fk of
             None \<Rightarrow> False
           | Some n \<Rightarrow> (case s_graphs s n of None \<Rightarrow> False | Some gr \<Rightarrow> gr_func gr \<noteq> None)))"

definition item_obj :: "item \<Rightarrow> obj option" where
  "item_obj it = (case it of Item_graph n _ \<Rightarrow> Some (Graph n) | Item_func fk _ \<Rightarrow> Some (Func fk) | _ \<Rightarrow> None)"

definition drawn_in :: "session \<Rightarrow> (nat \<times> nat) option \<Rightarrow> obj \<Rightarrow> bool" where
  "drawn_in s pd ob = list_ex (\<lambda>(pd', it). pd' = pd \<and> item_obj it = Some ob) (s_drawn s)"

definition item_ok :: "session \<Rightarrow> (nat \<times> nat) option \<times> item \<Rightarrow> bool" where
  "item_ok s d =
     (case d of
        (pd, Item_legend l) \<Rightarrow>
          (case s_legends s l of
             None \<Rightarrow> False
           | Some lg \<Rightarrow> list_all (\<lambda>(ob, _, _). drawn_in s pd ob) (leg_entries lg))
      | (pd, Item_latex _) \<Rightarrow> True
      | (pd, it) \<Rightarrow> (case item_obj it of None \<Rightarrow> False | Some ob \<Rightarrow> obj_exists s ob))"

definition items_in :: "session \<Rightarrow> (nat \<times> nat) option \<Rightarrow> item list" where
  "items_in s pd = map snd (filter (\<lambda>d. fst d = pd) (s_drawn s))"

definition axis_custom :: "session \<Rightarrow> item \<Rightarrow> bool" where
  "axis_custom s it =
     (case it of
        Item_graph n _ \<Rightarrow> (case s_graphs s n of None \<Rightarrow> False | Some gr \<Rightarrow> gr_axis gr \<noteq> axis_default)
      | Item_func fk _ \<Rightarrow>
          (case s_funcs s fk of
             None \<Rightarrow> False
           | Some n \<Rightarrow> (case s_graphs s n of
                         None \<Rightarrow> False
                       | Some gr \<Rightarrow> (case gr_func gr of None \<Rightarrow> False | Some fn \<Rightarrow> fn_axis fn \<noteq> axis_default)))
      | _ \<Rightarrow> False)"

definition pad_ok :: "session \<Rightarrow> (nat \<times> nat) option \<Rightarrow> bool" where
  "pad_ok s pd =
     (case items_in s pd of
        [] \<Rightarrow> True
      | it # its \<Rightarrow> creates_frame it \<and> list_all (\<lambda>it'. \<not> creates_frame it' \<and> \<not> axis_custom s it') its)"

definition func_par :: "session \<Rightarrow> nat \<Rightarrow> (double \<times> double) option" where
  "func_par s fk =
     (case s_funcs s fk of
        None \<Rightarrow> None
      | Some n \<Rightarrow> (case s_graphs s n of None \<Rightarrow> None | Some gr \<Rightarrow> map_option fn_par (gr_func gr)))"

definition wf_picture :: "session \<Rightarrow> bool" where
  "wf_picture s = (list_all (item_ok s) (s_drawn s) \<and> list_all (pad_ok s) (remdups (map fst (s_drawn s))))"

subsection \<open>Properties of the interpreter\<close>

lemma scene_run_append:
  "scene_run g s (xs @ ys) = (case scene_run g s xs of None \<Rightarrow> None | Some s' \<Rightarrow> scene_run g s' ys)"
  by (induction xs arbitrary: s) (auto split: option.splits)

end
