(* ===== verification/Scene.thy ===== *)
theory Scene
  imports Session
begin

text \<open>
  The drawing and fitting half of the two drivers as statement lists of the interpreter
  \<open>Session\<close>, one definition per panel in the order of the code, and the whole
  programs \<open>gr1_program\<close> and \<open>gr2_program\<close> that compose the Monte Carlo
  simulation, \<open>CanvasPartition\<close>, the pad lookups and the scripts.  The lemmas are
  about \<open>gr1\<close>: it runs to completion, the functions it draws are the fits of the
  data flow model \<open>gr1_run\<close>, and its picture is well formed.  \<open>gr2.cpp\<close> does
  not compile (the literal at line 32, the second \<open>leg2\<close> at line 181), so
  \<open>gr2_program\<close> models the evident intent of its statements and no property is
  stated of it.
\<close>

definition gr_pad_matrix :: "pad list list" where
  "gr_pad_matrix = map (\<lambda>i. map (layout_pad 2 2 0.1409 0.1209 0.08 0.05 i) [0..<2]) [0..<2]"

subsection \<open>The drawing and fitting script of gr1\<close>

definition gr1_sim_graph :: "nat \<Rightarrow> point list \<Rightarrow> point list option" where
  "gr1_sim_graph n sim =
     tgraph_errors n (map time sim) (map temperature sim) (map sigma_time sim) (map sigma_temperature sim)"

definition gr1_axis_titles :: "obj \<Rightarrow> op list" where
  "gr1_axis_titles t =
     [Set_title t X_axis ''Tiempo [s]'', Set_title t Y_axis ''Temperatura [ ^{o}C ]'',
      Center_title t X_axis, Center_title t Y_axis]"

definition gr1_panel_plas :: "nat \<Rightarrow> point list \<Rightarrow> op list" where
  "gr1_panel_plas n sim =
     [Cd_pad 0 1, Set_factors 0 1,
      New_graph 1 (gr1_sim_graph n sim),
      Marker_color 1 kBlue, Marker_style 1 8, Marker_size 1 1, Draw_graph 1 ''ap'',
      New_graph 2 (tgraph_errors 10 tiempo_plas_real temperatura_real tiempo_real_err temperatura_real_err),
      Marker_color 2 kRed, Marker_style 2 8, Marker_size 2 1, Fit_graph 2, Draw_graph 2 ''p'',
      Range_user (Graph 1) 0 3000, Tick_length (Graph 1) 0.06] @
     gr1_axis_titles (Graph 1) @
     [New_legend 1 (0.5, 0.6, 0.85, 0.8), Legend_border 1 0, Legend_header 1 ''Agua-Plastico'',
      Legend_entry 1 (Graph 1) ''Datos simulados '' ''pe'',
      Legend_entry 1 (Graph 2) ''Datos experimentales'' ''pe'', Draw_legend 1,
      Draw_latex \<lparr>lx_font = 43, lx_size = 20, lx_x = 300, lx_y = 35,
                  lx_text = ''C_{v} #approx 0.55 #frac{J}{kg.K}'', lx_angle = 0\<rparr>]"

definition gr1_panel_ceram :: "nat \<Rightarrow> point list \<Rightarrow> op list" where
  "gr1_panel_ceram n sim =
     [Cd_pad 1 1, Set_factors 1 1,
      New_graph 3 (gr1_sim_graph n sim),
      Marker_color 3 kBlue, Marker_style 3 8, Marker_size 3 1, Draw_graph 3 ''ap'',
      New_graph 4 (tgraph_errors 10 tiempo_ceram_real temperatura_real tiempo_real_err temperatura_real_err),
      Marker_color 4 kRed, Marker_style 4 8, Marker_size 4 1, Fit_graph 4, Draw_graph 4 ''p'',
      Range_user (Graph 3) (- 20) 2600, Tick_length (Graph 3) 0.06] @
     gr1_axis_titles (Graph 3) @
     [New_legend 2 (0.5, 0.6, 0.85, 0.8), Legend_border 2 0, Legend_header 2 ''Agua-Porcelana'',
      Legend_entry 2 (Graph 3) ''Datos simulados '' ''pe'',
      Legend_entry 2 (Graph 4) ''Datos experimentales'' ''pe'', Draw_legend 2,
      Draw_latex \<lparr>lx_font = 43, lx_size = 20, lx_x = 300, lx_y = 35,
                  lx_text = ''C_{v} #approx 1.05 #frac{J}{kg.K}'', lx_angle = 0\<rparr>]"

definition gr1_panel_vidrio :: "nat \<Rightarrow> point list \<Rightarrow> op list" where
  "gr1_panel_vidrio n sim =
     [Cd_pad 0 0, Set_factors 0 0,
      New_graph 5 (gr1_sim_graph n sim),
      Marker_color 5 kBlue, Marker_style 5 8, Marker_size 5 1, Draw_graph 5 ''ap'',
      New_graph 6 (tgraph_errors 10 tiempo_vidrio_real temperatura_real tiempo_real_err temperatura_real_err),
      Marker_color 6 kRed, Marker_style 6 8, Marker_size 6 1, Fit_graph 6, Draw_graph 6 ''p'',
      Range_user (Graph 5) 0 3000, Tick_length (Graph 5) 0.06] @
     gr1_axis_titles (Graph 5) @
     [New_legend 3 (0.5, 0.6, 0.85, 0.8), Legend_border 3 0, Legend_header 3 ''Agua-Vidrio'',
      Legend_entry 3 (Graph 5) ''Datos simulados '' ''pe'',
      Legend_entry 3 (Graph 6) ''Datos experimentales'' ''pe'', Draw_legend 3,
      Draw_latex \<lparr>lx_font = 43, lx_size = 20, lx_x = 300, lx_y = 35,
                  lx_text = ''C_{v} #approx 0.84 #frac{J}{kg.K}'', lx_angle = 0\<rparr>]"

definition gr1_panel_fits :: "op list" where
  "gr1_panel_fits =
     [Cd_pad 1 0, Set_factors 1 0,
      Get_function 2 2, Line_color 2 (kCyan - 3), Draw_func 2 [],
      Get_function 3 4, Line_color 3 (kOrange - 2), Draw_func 3 ''same'',
      Get_function 4 6, Line_color 4 (kGray + 2), Draw_func 4 ''same'',
      Range_user (Func 2) (- 20) 2600, Tick_length (Func 2) 0.06] @
     gr1_axis_titles (Func 2) @
     [New_legend 4 (0.5, 0.6, 0.85, 0.8), Legend_border 4 0, Legend_header 4 ''Mejores Ajustes'',
      Legend_entry 4 (Func 2) ''Agua-Plastico'' ''l'', Legend_entry 4 (Func 3) ''Agua-Porcelana'' ''l'',
      Legend_entry 4 (Func 4) ''Agua-Vidrio'' ''l'', Draw_legend 4]"

definition canvas_finish :: "op list" where
  "canvas_finish = [Cd_canvas, Update, Modified]"

definition gr1_scene :: "nat \<Rightarrow> point list \<Rightarrow> op list" where
  "gr1_scene n sim =
     gr1_panel_plas n sim @ gr1_panel_ceram n sim @ gr1_panel_vidrio n sim @ gr1_panel_fits @ canvas_finish"

definition gr1_program :: "globals \<Rightarrow> mc_config \<Rightarrow> (nat \<Rightarrow> double) \<Rightarrow> session option" where
  "gr1_program g c zs = do {
     sim \<leftarrow> gr1_simulation g c zs;
     ps \<leftarrow> CanvasPartition True 2 2 0.1409 0.1209 0.08 0.05 [];
     pad \<leftarrow> lookup_pads 2 2 ps;
     scene_run g (scene_init g pad) (gr1_scene (npts c) sim)
   }"

subsection \<open>The drawing and fitting script of gr2\<close>

definition gr2_axis_titles :: "obj \<Rightarrow> op list" where
  "gr2_axis_titles t =
     [Set_title t X_axis ''Tiempo [s]'', Set_title t Y_axis ''Temperatura [^{o}C]'',
      Center_title t X_axis, Center_title t Y_axis]"

definition gr2_panel_plas :: "op list" where
  "gr2_panel_plas =
     [Cd_pad 0 1, Set_factors 0 1,
      New_graph 1 (tgraph_errors 10 gr2_tiempo_plas_hab gr2_temperatura_real gr2_tiempo_real_err gr2_temperatura_real_err),
      Marker_color 1 kBlue, Marker_style 1 8, Marker_size 1 1, Draw_graph 1 ''ap'',
      New_graph 2 (tgraph_errors 10 gr2_tiempo_plas_nev gr2_temperatura_real gr2_tiempo_real_err gr2_temperatura_real_err),
      Marker_color 2 (kGreen + 3), Marker_style 2 8, Marker_size 2 1, Fit_graph 2, Draw_graph 2 ''p'',
      Range_user (Graph 1) 0 3000] @
     gr2_axis_titles (Graph 1) @
     [New_legend 1 (0.5, 0.6, 0.85, 0.8), Legend_border 1 0, Legend_header 1 ''   Agua-Plastico'',
      Legend_entry 1 (Graph 1) ''Datos Habitacion '' ''pe'',
      Legend_entry 1 (Graph 2) ''Datos Nevera'' ''pe'', Draw_legend 1]"

definition gr2_panel_porc :: "double \<Rightarrow> op list" where
  "gr2_panel_porc x4 =
     [Cd_pad 1 1, Set_factors 1 1,
      New_graph 3 (tgraph_errors 10 gr2_tiempo_porc_hab gr2_temperatura_real gr2_tiempo_real_err gr2_temperatura_real_err),
      Marker_color 3 kBlue, Marker_style 3 8, Marker_size 3 1, Draw_graph 3 ''ap'',
      New_graph 4 (tgraph_errors 10 (gr2_tiempo_porc_nev x4) gr2_temperatura_real_p gr2_tiempo_real_err gr2_temperatura_real_err),
      Marker_color 4 (kGreen + 3), Marker_style 4 8, Marker_size 4 1, Draw_graph 4 ''p'', Fit_graph 4,
      Range_user (Graph 3) 0 3000] @
     gr2_axis_titles (Graph 3) @
     [New_legend 2 (0.5, 0.6, 0.85, 0.8), Legend_border 2 0, Legend_header 2 ''Agua-Porcelana'',
      Legend_entry 2 (Graph 3) ''Datos Habitacion'' ''pe'',
      Legend_entry 2 (Graph 4) ''Datos Nevera'' ''pe'', Draw_legend 2]"

text \<open>
  The third panel declares \<open>TLegend* leg2\<close> a second time (gr2.cpp 181), which does not
  compile; the evident intent, a new legend, is modelled as legend 3.
\<close>

definition gr2_panel_vidr :: "op list" where
  "gr2_panel_vidr =
     [Cd_pad 0 0, Set_factors 0 0,
      New_graph 5 (tgraph_errors 10 gr2_tiempo_vidr_hab gr2_temperatura_real gr2_tiempo_real_err gr2_temperatura_real_err),
      Marker_color 5 kBlue, Marker_style 5 8, Marker_size 5 1, Draw_graph 5 ''ap'',
      New_graph 6 (tgraph_errors 10 gr2_tiempo_vidr_nev gr2_temperatura_real gr2_tiempo_real_err gr2_temperatura_real_err),
      Marker_color 6 (kGreen + 3), Marker_style 6 8, Marker_size 6 1, Draw_graph 6 ''p'', Fit_graph 6,
      Range_user (Graph 5) 0 3000] @
     gr2_axis_titles (Graph 5) @
     [New_legend 3 (0.5, 0.6, 0.85, 0.8), Legend_border 3 0, Legend_header 3 ''Agua-Vidrio'',
      Legend_entry 3 (Graph 5) ''Datos Habitacion'' ''pe'',
      Legend_entry 3 (Graph 6) ''Datos Nevera'' ''pe'', Draw_legend 3]"

definition gr2_panel_fits :: "op list" where
  "gr2_panel_fits =
     [Cd_pad 1 0, Set_factors 1 0,
      Get_function 2 2, Line_color 2 (kCyan - 3), Draw_func 2 [],
      Get_function 3 4, Line_color 3 (kOrange - 2), Draw_func 3 ''same'',
      Get_function 4 6, Line_color 4 (kGray + 2), Draw_func 4 ''same'',
      Range_user (Func 2) (- 20) 1250, Tick_length (Func 2) 0.06] @
     gr1_axis_titles (Func 2) @
     [New_legend 4 (0.5, 0.6, 0.85, 0.8), Legend_border 4 0, Legend_header 4 ''Mejores Ajustes'',
      Legend_entry 4 (Func 2) ''Agua-Plastico Nevera'' ''l'',
      Legend_entry 4 (Func 3) ''Agua-Porcelana Nevera'' ''l'',
      Legend_entry 4 (Func 4) ''Agua-Vidrio Nevera'' ''l'', Draw_legend 4]"

definition gr2_scene :: "double \<Rightarrow> op list" where
  "gr2_scene x4 = gr2_panel_plas @ gr2_panel_porc x4 @ gr2_panel_vidr @ gr2_panel_fits @ canvas_finish"

definition gr2_program :: "globals \<Rightarrow> double \<Rightarrow> session option" where
  "gr2_program g x4 = do {
     ps \<leftarrow> CanvasPartition True 2 2 0.1409 0.1209 0.08 0.05 [];
     pad \<leftarrow> lookup_pads 2 2 ps;
     scene_run g (scene_init g pad) (gr2_scene x4)
   }"

subsection \<open>Running the scripts\<close>

lemmas scene_defs = scene_init_def pad_ix_def Let_def upd_graph_def upd_func_def upd_legend_def
  upd_axis_def draw_def abs_w_def abs_h_def layout_pad_fields col_l_def col_r_def cp_step_def
  func_par_def wf_picture_def item_ok_def pad_ok_def items_in_def creates_frame_def obj_exists_def
  item_obj_def drawn_in_def axis_custom_def axis_set_def axis_default_def lower_char_def
  canvas_finish_def gr_pad_matrix_def

lemma gr1_sim_graph_Some: "length sim = n \<Longrightarrow> gr1_sim_graph n sim = Some sim"
  by (auto simp: gr1_sim_graph_def tgraph_errors_def intro: nth_equalityI)

lemma gr_pad_matrix_lookup:
  "CanvasPartition True 2 2 0.1409 0.1209 0.08 0.05 [] = Some (canvas_layout 2 2 0.1409 0.1209 0.08 0.05)"
  "lookup_pads 2 2 (canvas_layout 2 2 0.1409 0.1209 0.08 0.05) = Some gr_pad_matrix"
  using CanvasPartition_Some [OF names_fit, of 2 2 "0.1409" "0.1209" "0.08" "0.05" "[]"]
    lookup_pads_partition [of 2 2 "[]" "0.1409" "0.1209" "0.08" "0.05"]
  by (simp_all add: gr_pad_matrix_def)

lemma gr1_program_eq:
  "gr1_program g c zs =
     (case gr1_simulation g c zs of
        None \<Rightarrow> None
      | Some sim \<Rightarrow> scene_run g (scene_init g gr_pad_matrix) (gr1_scene (npts c) sim))"
  using gr_pad_matrix_lookup by (simp add: gr1_program_def split: option.splits)

lemma gr1_scene_final:
  assumes "gr1_sim_graph n sim = Some sp"
    "tgraph_errors 10 tiempo_plas_real temperatura_real tiempo_real_err temperatura_real_err = Some P"
    "tgraph_errors 10 tiempo_ceram_real temperatura_real tiempo_real_err temperatura_real_err = Some Q"
    "tgraph_errors 10 tiempo_vidrio_real temperatura_real tiempo_real_err temperatura_real_err = Some V"
  shows "\<exists>s. scene_run g (scene_init g gr_pad_matrix) (gr1_scene n sim) = Some s \<and> s_updated s \<and>
    func_par s 2 = Some (tgraph_fit g (f1_init g) P) \<and>
    func_par s 3 = Some (tgraph_fit g (tgraph_fit g (f1_init g) P) Q) \<and>
    func_par s 4 = Some (tgraph_fit g (tgraph_fit g (tgraph_fit g (f1_init g) P) Q) V) \<and>
    remdups (map fst (s_drawn s)) = [Some (0, 1), Some (1, 1), Some (0, 0), Some (1, 0)] \<and>
    wf_picture s"
  using assms
  by (simp add: gr1_scene_def gr1_panel_plas_def gr1_panel_ceram_def gr1_panel_vidrio_def gr1_panel_fits_def
      gr1_axis_titles_def scene_defs)

lemma gr1_simulation_length: "gr1_simulation g c zs = Some sim \<Longrightarrow> length sim = npts c"
  by (simp add: gr1_simulation_def those_Some_iff) (metis length_map length_upt minus_nat.diff_0)

lemma gr1_program_Some:
  assumes "gr1_simulation g c zs = Some sim"
  shows "\<exists>s out. gr1_program g c zs = Some s \<and> gr1_run g c zs = Some out \<and> s_updated s \<and>
           func_par s 2 = Some (f2_par out) \<and> func_par s 3 = Some (f3_par out) \<and>
           func_par s 4 = Some (f4_par out) \<and>
           remdups (map fst (s_drawn s)) = [Some (0, 1), Some (1, 1), Some (0, 0), Some (1, 0)] \<and>
           wf_picture s"
proof -
  obtain out where out: "gr1_run g c zs = Some out" "sim_points out = sim"
    using gr1_run_Some [OF assms] by blast
  note parts = gr1_run_Some_parts [OF out(1)]
  have "gr1_sim_graph (npts c) sim = Some sim"
    using gr1_simulation_length [OF assms] by (rule gr1_sim_graph_Some)
  from gr1_scene_final [OF this parts(2-4), of g]
  obtain s where s: "scene_run g (scene_init g gr_pad_matrix) (gr1_scene (npts c) sim) = Some s" "s_updated s"
    "func_par s 2 = Some (tgraph_fit g (f1_init g) (plas_points out))"
    "func_par s 3 = Some (tgraph_fit g (tgraph_fit g (f1_init g) (plas_points out)) (ceram_points out))"
    "func_par s 4 = Some (tgraph_fit g (tgraph_fit g (tgraph_fit g (f1_init g) (plas_points out))
                            (ceram_points out)) (vidrio_points out))"
    "remdups (map fst (s_drawn s)) = [Some (0, 1), Some (1, 1), Some (0, 0), Some (1, 0)]" "wf_picture s"
    by blast
  have "gr1_program g c zs = Some s"
    using s(1) assms by (simp add: gr1_program_eq)
  then show ?thesis
    using s out parts(5-7) by (auto simp: tgraph_fit_def f1_init_def)
qed

subsection \<open>Properties of the whole programs\<close>

text \<open>C29: For every random stream, the whole gr1 macro runs to completion: the simulation, CanvasPartition, the pad lookups and every statement of the drawing and fitting script execute without a null or out-of-range dereference or a division by a zero pad size, and the final C->Update() is reached.\<close>

theorem gr1_program_completes: "\<exists>s. gr1_program gr1_globals gr1_config zs = Some s \<and> s_updated s"
  using gr1_simulation_defined [of zs] gr1_program_Some by blast

text \<open>C30: The session model refines the data-flow model: whenever gr1 completes, the functions f2, f3, f4 that its last panel draws (the copies of f1 that GetFunction("f1") returns from the fitted graphs) hold exactly the fitted parameters f2_par, f3_par, f4_par of gr1_run, for any globals, configuration and stream.\<close>

theorem gr1_program_refines_run:
  assumes "gr1_program g c zs = Some s"
  shows "\<exists>out. gr1_run g c zs = Some out \<and> func_par s 2 = Some (f2_par out) \<and>
           func_par s 3 = Some (f3_par out) \<and> func_par s 4 = Some (f4_par out)"
proof -
  obtain sim where sim: "gr1_simulation g c zs = Some sim"
    using assms by (cases "gr1_simulation g c zs") (simp_all add: gr1_program_eq)
  from gr1_program_Some [OF sim] assms show ?thesis
    by auto
qed

text \<open>C31: The picture gr1 draws is well formed: its four panels go to the four distinct pads pad_0_1, pad_1_1, pad_0_0, pad_1_0 in that order, every drawn primitive and legend entry refers to an existing object drawn in the same pad, and in each pad the first primitive creates the frame and carries the axis settings while the others only overlay it.\<close>

theorem scene_pictures_wf:
  assumes "gr1_program g c zs = Some s"
  shows "wf_picture s \<and> remdups (map fst (s_drawn s)) = [Some (0, 1), Some (1, 1), Some (0, 0), Some (1, 0)]"
proof -
  obtain sim where sim: "gr1_simulation g c zs = Some sim"
    using assms by (cases "gr1_simulation g c zs") (simp_all add: gr1_program_eq)
  from gr1_program_Some [OF sim] assms show ?thesis
    by auto
qed

theorem gr1_program_refines_run_witness:
  "\<exists>s. gr1_program gr1_globals gr1_config (\<lambda>_. 0) = Some s \<and>
     (\<exists>out. gr1_run gr1_globals gr1_config (\<lambda>_. 0) = Some out \<and> func_par s 2 = Some (f2_par out) \<and>
            func_par s 3 = Some (f3_par out) \<and> func_par s 4 = Some (f4_par out))"
proof -
  obtain sim where "gr1_simulation gr1_globals gr1_config (\<lambda>_. 0) = Some sim"
    using gr1_simulation_defined by blast
  then obtain s where s: "gr1_program gr1_globals gr1_config (\<lambda>_. 0) = Some s"
    using gr1_program_Some by blast
  show ?thesis
    using gr1_program_refines_run [OF s] s by blast
qed

theorem scene_pictures_wf_witness:
  "\<exists>s. gr1_program gr1_globals gr1_config (\<lambda>_. 0) = Some s \<and> wf_picture s \<and>
     remdups (map fst (s_drawn s)) = [Some (0, 1), Some (1, 1), Some (0, 0), Some (1, 0)]"
proof -
  obtain sim where "gr1_simulation gr1_globals gr1_config (\<lambda>_. 0) = Some sim"
    using gr1_simulation_defined by blast
  then obtain s where s: "gr1_program gr1_globals gr1_config (\<lambda>_. 0) = Some s"
    using gr1_program_Some by blast
  show ?thesis
    using scene_pictures_wf [OF s] s by blast
qed

end
