(* ===== verification/Directory.thy ===== *)
theory Directory
  imports Experiment
begin

text \<open>
  The objects the Monte Carlo loop of \<open>gr1\<close> allocates (gr1.cpp 51--56).  Each pass
  of the outer loop executes \<open>new TH1D("h1", ...)\<close>; the pointer \<open>h1\<close> is local to
  the pass and nothing deletes the histogram.  The constructor of a ROOT histogram
  registers it in the current directory with \<open>TDirectory::Append(obj, replace = true)\<close>,
  which removes an object of the same name from the directory (warning "Replacing
  existing TH1: h1 (Potential memory leak)") and adds the new one.
  \<^item> \<open>rootdir\<close> is that state: the histograms allocated so far, addressed by their
    allocation number (\<open>rd_heap\<close>, as the heap of \<open>Imperative_HOL\<close> hands out
    addresses in order), and the directory's list of (name, address) entries
    (\<open>rd_dir\<close>);
  \<^item> \<open>dir_append\<close> is \<open>Append\<close> with replacement, \<open>th1_new_dir\<close> the operator
    \<open>new\<close> followed by the registration, \<open>heap_fill_all\<close> the fill loop of line 56
    through the pointer;
  \<^item> \<open>gr1_hist_step\<close> is one pass of the outer loop as seen by the heap, and
    \<open>gr1_hist_loop\<close> the whole loop; \<open>None\<close> where \<open>gr1_checkpoint\<close> is
    \<open>None\<close> (the histogram bounds are not finite).
  \<open>wf_dir\<close> is the invariant of the directory (distinct names, distinct addresses,
  all allocated); \<open>leaked\<close> counts the allocated histograms no directory entry
  reaches.
\<close>

record rootdir =
  rd_heap :: "th1 list"
  rd_dir :: "(string \<times> nat) list"

definition dir_append :: "string \<Rightarrow> nat \<Rightarrow> (string \<times> nat) list \<Rightarrow> (string \<times> nat) list" where
  "dir_append name a ds = filter (\<lambda>e. fst e \<noteq> name) ds @ [(name, a)]"

definition th1_new_dir :: "string \<Rightarrow> th1 \<Rightarrow> rootdir \<Rightarrow> nat \<times> rootdir" where
  "th1_new_dir name h d =
     (let a = length (rd_heap d)
      in (a, \<lparr>rd_heap = rd_heap d @ [h], rd_dir = dir_append name a (rd_dir d)\<rparr>))"

definition heap_fill_all :: "nat \<Rightarrow> double option list \<Rightarrow> rootdir \<Rightarrow> rootdir" where
  "heap_fill_all a vs d = d\<lparr>rd_heap := (rd_heap d)[a := th1_fill_all (rd_heap d ! a) vs]\<rparr>"

definition gr1_hist_step ::
  "globals \<Rightarrow> mc_config \<Rightarrow> (nat \<Rightarrow> double) \<Rightarrow> rootdir \<Rightarrow> nat \<Rightarrow> rootdir option" where
  "gr1_hist_step g c zs d i =
     (let temp = Tmin c + 5 * real i;
          t_err = t_err_draws g c temp zs (i * nerr c)
      in case inv_time g temp of
           None \<Rightarrow> None
         | Some t0 \<Rightarrow>
             (case th1_new_dir ''h1'' (th1_new (nbins c) 0 (2 * t0)) d of
                (a, d') \<Rightarrow> Some (heap_fill_all a t_err d')))"

definition gr1_hist_loop ::
  "globals \<Rightarrow> mc_config \<Rightarrow> (nat \<Rightarrow> double) \<Rightarrow> rootdir \<Rightarrow> rootdir option" where
  "gr1_hist_loop g c zs d =
     fold (\<lambda>i od. Option.bind od (\<lambda>d. gr1_hist_step g c zs d i)) [0..<npts c] (Some d)"

definition wf_dir :: "rootdir \<Rightarrow> bool" where
  "wf_dir d \<longleftrightarrow> distinct (map fst (rd_dir d)) \<and> distinct (map snd (rd_dir d)) \<and>
                list_all (\<lambda>e. snd e < length (rd_heap d)) (rd_dir d)"

definition leaked :: "rootdir \<Rightarrow> nat" where
  "leaked d = card ({..<length (rd_heap d)} - snd ` set (rd_dir d))"

definition registered :: "string \<Rightarrow> rootdir \<Rightarrow> bool" where
  "registered name d \<longleftrightarrow> list_ex (\<lambda>e. fst e = name) (rd_dir d)"

lemma leaked_wf:
  assumes "wf_dir d"
  shows "length (rd_dir d) \<le> length (rd_heap d) \<and> leaked d = length (rd_heap d) - length (rd_dir d)"
proof -
  have sub: "snd ` set (rd_dir d) \<subseteq> {..<length (rd_heap d)}"
    using assms by (auto simp: wf_dir_def list_all_iff)
  have "card (snd ` set (rd_dir d)) = length (rd_dir d)"
    using assms distinct_card [of "map snd (rd_dir d)"] by (simp add: wf_dir_def)
  then show ?thesis
    using sub card_mono [OF _ sub] card_Diff_subset [OF finite_subset [OF sub] sub]
    by (simp add: leaked_def)
qed

lemma filter_other_names:
  "distinct (map fst ds) \<Longrightarrow>
     length (filter (\<lambda>e. fst e \<noteq> name) ds) + (if list_ex (\<lambda>e. fst e = name) ds then 1 else 0) = length ds"
  by (induction ds) (auto simp: list_ex_iff image_iff split: if_splits)

lemma dir_append_wf:
  assumes "wf_dir d" "a = length (rd_heap d)"
  shows "wf_dir \<lparr>rd_heap = rd_heap d @ [h], rd_dir = dir_append name a (rd_dir d)\<rparr>"
proof -
  have "distinct (map fst (filter (\<lambda>e. fst e \<noteq> name) (rd_dir d)))"
       "distinct (map snd (filter (\<lambda>e. fst e \<noteq> name) (rd_dir d)))"
    using assms(1) by (simp_all add: wf_dir_def distinct_map_filter)
  moreover have "name \<notin> fst ` set (filter (\<lambda>e. fst e \<noteq> name) (rd_dir d))"
    by auto
  moreover have "a \<notin> snd ` set (rd_dir d)"
    using assms by (auto simp: wf_dir_def list_all_iff)
  ultimately show ?thesis
    using assms by (auto simp: wf_dir_def dir_append_def list_all_iff)
qed

lemma map_of_dir_append: "map_of (dir_append name a ds) name = Some a"
proof -
  have "map_of (filter (\<lambda>e. fst e \<noteq> name) ds) name = None"
    by (auto simp: map_of_eq_None_iff)
  then show ?thesis
    by (simp add: dir_append_def map_of_append map_add_def)
qed

lemma gr1_hist_step_Some:
  assumes "wf_dir d" "gr1_hist_step g c zs d i = Some d'"
  shows "wf_dir d' \<and> length (rd_heap d') = Suc (length (rd_heap d)) \<and>
         map_of (rd_dir d') ''h1'' = Some (length (rd_heap d)) \<and> registered ''h1'' d' \<and>
         length (rd_dir d') + (if registered ''h1'' d then 1 else 0) = Suc (length (rd_dir d)) \<and>
         (\<exists>t0. inv_time g (Tmin c + 5 * real i) = Some t0 \<and>
               last (rd_heap d') = th1_fill_all (th1_new (nbins c) 0 (2 * t0)) (t_err_draws g c (Tmin c + 5 * real (i)) zs ((i) * nerr c)))"
proof -
  obtain t0 where t0: "inv_time g (Tmin c + 5 * real i) = Some t0" and d': "d' = heap_fill_all (length (rd_heap d)) (t_err_draws g c (Tmin c + 5 * real i) zs (i * nerr c))
      \<lparr>rd_heap = rd_heap d @ [th1_new (nbins c) 0 (2 * t0)], rd_dir = dir_append ''h1'' (length (rd_heap d)) (rd_dir d)\<rparr>"
    using assms(2) by (auto simp: gr1_hist_step_def th1_new_dir_def Let_def split: option.splits)
  have "last (rd_heap d') = th1_fill_all (th1_new (nbins c) 0 (2 * t0)) (t_err_draws g c (Tmin c + 5 * real (i)) zs ((i) * nerr c))"
    using d' by (simp add: heap_fill_all_def list_update_length)
  have wf: "wf_dir \<lparr>rd_heap = rd_heap d @ [th1_new (nbins c) 0 (2 * t0)],
                    rd_dir = dir_append ''h1'' (length (rd_heap d)) (rd_dir d)\<rparr>"
    by (rule dir_append_wf [OF assms(1) refl])
  have len: "length (dir_append ''h1'' (length (rd_heap d)) (rd_dir d)) + (if registered ''h1'' d then 1 else 0) =
               Suc (length (rd_dir d))"
    using filter_other_names [of "rd_dir d" "''h1''"] assms(1)
    by (simp add: dir_append_def registered_def wf_dir_def)
  have "(''h1'', length (rd_heap d)) \<in> set (dir_append ''h1'' (length (rd_heap d)) (rd_dir d))"
    by (simp add: dir_append_def)
  then have "registered ''h1'' d'"
    using d' by (force simp: registered_def heap_fill_all_def list_ex_iff)
  then show ?thesis
    using wf len d' t0 by (auto simp: heap_fill_all_def wf_dir_def map_of_dir_append list_update_length)
qed

lemma gr1_hist_step_None:
  "gr1_hist_step g c zs d i = None \<longleftrightarrow> inv_time g (Tmin c + 5 * real i) = None"
  by (simp add: gr1_hist_step_def th1_new_dir_def Let_def split: option.splits)

lemma fold_bind_None: "fold (\<lambda>i od. Option.bind od (f i)) xs None = None"
  by (induction xs) simp_all

lemma hist_fold_Some:
  assumes "wf_dir d" "xs \<noteq> []"
    and "list_all (\<lambda>i. inv_time g (Tmin c + 5 * real i) \<noteq> None) xs"
  shows "\<exists>d'. fold (\<lambda>i od. Option.bind od (\<lambda>d. gr1_hist_step g c zs d i)) xs (Some d) = Some d' \<and>
           wf_dir d' \<and> length (rd_heap d') = length (rd_heap d) + length xs \<and>
           map_of (rd_dir d') ''h1'' = Some (length (rd_heap d') - 1) \<and> registered ''h1'' d' \<and>
           length (rd_dir d') + (if registered ''h1'' d then 1 else 0) = Suc (length (rd_dir d)) \<and>
           (\<exists>t0. inv_time g (Tmin c + 5 * real (last xs)) = Some t0 \<and>
                 last (rd_heap d') = th1_fill_all (th1_new (nbins c) 0 (2 * t0)) (t_err_draws g c (Tmin c + 5 * real (last xs)) zs ((last xs) * nerr c)))"
  using assms
proof (induction xs arbitrary: d)
  case Nil
  then show ?case by simp
next
  case (Cons i xs)
  obtain d1 where d1: "gr1_hist_step g c zs d i = Some d1"
    using Cons.prems(3) gr1_hist_step_None [of g c zs d i] by fastforce
  note s1 = gr1_hist_step_Some [OF Cons.prems(1) d1]
  show ?case
  proof (cases "xs = []")
    case True
    then show ?thesis using d1 s1 by simp
  next
    case False
    obtain d' where d': "fold (\<lambda>i od. Option.bind od (\<lambda>d. gr1_hist_step g c zs d i)) xs (Some d1) = Some d'"
      and p: "wf_dir d'" "length (rd_heap d') = length (rd_heap d1) + length xs"
        "map_of (rd_dir d') ''h1'' = Some (length (rd_heap d') - 1)" "registered ''h1'' d'"
        "length (rd_dir d') + (if registered ''h1'' d1 then 1 else 0) = Suc (length (rd_dir d1))"
        "\<exists>t0. inv_time g (Tmin c + 5 * real (last xs)) = Some t0 \<and>
              last (rd_heap d') = th1_fill_all (th1_new (nbins c) 0 (2 * t0)) (t_err_draws g c (Tmin c + 5 * real (last xs)) zs ((last xs) * nerr c))"
      using Cons.IH [OF conjunct1 [OF s1] False] Cons.prems(3) by auto
    then show ?thesis
      using d1 s1 False by simp
  qed
qed

lemma gr1_simulation_inv_time:
  assumes "gr1_simulation g c zs \<noteq> None"
  shows "list_all (\<lambda>i. inv_time g (Tmin c + 5 * real i) \<noteq> None) [0..<npts c]"
proof -
  obtain ps where "those (map (gr1_checkpoint g c zs) [0..<npts c]) = Some ps"
    using assms by (auto simp: gr1_simulation_def)
  then have eq: "map (gr1_checkpoint g c zs) [0..<npts c] = map Some ps"
    by (simp add: those_Some_iff)
  have "list_all (\<lambda>i. gr1_checkpoint g c zs i \<noteq> None) [0..<npts c]"
    unfolding list_all_iff
  proof
    fix i assume "i \<in> set [0..<npts c]"
    then have "gr1_checkpoint g c zs i \<in> set (map Some ps)"
      unfolding eq [symmetric] by simp
    then show "gr1_checkpoint g c zs i \<noteq> None" by auto
  qed
  then show ?thesis
    by (auto simp: list_all_iff gr1_checkpoint_def Let_def split: option.splits)
qed

text \<open>C8: Every pass of the Monte Carlo loop of gr1 allocates a histogram named h1 that is never deleted: from any well-formed directory, when the simulation completes, the loop keeps the directory well formed, allocates npts histograms, leaves only the last one registered under h1, and makes npts - 1 more histograms unreachable (npts if an h1 was already registered, as after a previous run of the macro).\<close>

theorem gr1_histograms_leak:
  assumes "wf_dir d" and "gr1_simulation g c zs \<noteq> None" and "0 < npts c"
  shows "\<exists>d'. gr1_hist_loop g c zs d = Some d' \<and> wf_dir d' \<and>
           length (rd_heap d') = length (rd_heap d) + npts c \<and>
           map_of (rd_dir d') ''h1'' = Some (length (rd_heap d') - 1) \<and>
           leaked d' = leaked d + (npts c - 1) + (if registered ''h1'' d then 1 else 0) \<and>
           (\<exists>t0. inv_time g (Tmin c + 5 * real (npts c - 1)) = Some t0 \<and>
                 last (rd_heap d') = th1_fill_all (th1_new (nbins c) 0 (2 * t0)) (t_err_draws g c (Tmin c + 5 * real (npts c - 1)) zs ((npts c - 1) * nerr c)))"
proof -
  have ne: "[0..<npts c] \<noteq> []" using assms(3) by simp
  have lst: "last [0..<npts c] = npts c - 1" using assms(3) by (cases "npts c") auto
  obtain d' where d': "gr1_hist_loop g c zs d = Some d'" and "wf_dir d'"
    and h: "length (rd_heap d') = length (rd_heap d) + npts c"
    and "map_of (rd_dir d') ''h1'' = Some (length (rd_heap d') - 1)"
    and r: "length (rd_dir d') + (if registered ''h1'' d then 1 else 0) = Suc (length (rd_dir d))"
    and "\<exists>t0. inv_time g (Tmin c + 5 * real (npts c - 1)) = Some t0 \<and>
              last (rd_heap d') = th1_fill_all (th1_new (nbins c) 0 (2 * t0)) (t_err_draws g c (Tmin c + 5 * real (npts c - 1)) zs ((npts c - 1) * nerr c))"
    using hist_fold_Some [OF assms(1) ne gr1_simulation_inv_time [OF assms(2)], of zs]
    unfolding lst by (auto simp: gr1_hist_loop_def)
  moreover have "leaked d' = leaked d + (npts c - 1) + (if registered ''h1'' d then 1 else 0)"
    using leaked_wf [OF assms(1)] leaked_wf [OF \<open>wf_dir d'\<close>] h r assms(3)
    by (auto split: if_splits)
  ultimately show ?thesis by blast
qed

theorem gr1_histograms_leak_witness:
  "wf_dir \<lparr>rd_heap = [], rd_dir = []\<rparr> \<and> gr1_simulation gr1_globals gr1_config (\<lambda>_. 0) \<noteq> None \<and>
   0 < npts gr1_config \<and>
   (\<exists>d'. gr1_hist_loop gr1_globals gr1_config (\<lambda>_. 0) \<lparr>rd_heap = [], rd_dir = []\<rparr> = Some d' \<and>
         wf_dir d' \<and> length (rd_heap d') = 10 \<and> map_of (rd_dir d') ''h1'' = Some 9 \<and> leaked d' = 9)"
proof -
  have h: "wf_dir \<lparr>rd_heap = [], rd_dir = []\<rparr>" "gr1_simulation gr1_globals gr1_config (\<lambda>_. 0) \<noteq> None"
    "0 < npts gr1_config"
    using gr1_simulation_defined [of "\<lambda>_. 0"] by (auto simp: wf_dir_def gr1_config_def)
  have e: "leaked \<lparr>rd_heap = [], rd_dir = []\<rparr> = 0" "\<not> registered ''h1'' \<lparr>rd_heap = [], rd_dir = []\<rparr>"
    "npts gr1_config = 10"
    by (simp_all add: leaked_def registered_def gr1_config_def)
  obtain d' where d': "gr1_hist_loop gr1_globals gr1_config (\<lambda>_. 0) \<lparr>rd_heap = [], rd_dir = []\<rparr> = Some d'"
    "wf_dir d'" "length (rd_heap d') = length (rd_heap \<lparr>rd_heap = [], rd_dir = []\<rparr>) + npts gr1_config"
    "map_of (rd_dir d') ''h1'' = Some (length (rd_heap d') - 1)"
    "leaked d' = leaked \<lparr>rd_heap = [], rd_dir = []\<rparr> + (npts gr1_config - 1) +
       (if registered ''h1'' \<lparr>rd_heap = [], rd_dir = []\<rparr> then 1 else 0)"
    using gr1_histograms_leak [OF h] by blast
  have l: "length (rd_heap d') = 10" using d'(3) e(3) by simp
  have "map_of (rd_dir d') ''h1'' = Some 9" "leaked d' = 9"
    using d'(4,5) l e by simp_all
  then show ?thesis using d'(1,2) l h by blast
qed

end
