(* ===== verification/Spec2Isabelle.thy ===== *)
theory Spec2Isabelle
  imports Experiment Canvas Scene Directory
begin

text \<open>
  \<^bold>\<open>Newton's law of cooling: a verification model of gr1.cpp and gr2.cpp.\<close>

  \<^medskip>\<^bold>\<open>The program.\<close>  Two ROOT macros, \<open>src/gr1.cpp\<close> and \<open>src/gr2.cpp\<close>,
  study the cooling law \<open>dT/dt = -k (T - Ta)\<close>.  Both keep \<open>Ta\<close>, \<open>To\<close>,
  \<open>k\<close> in global variables, integrate the law with a fixed-step fourth-order
  Runge-Kutta solver (\<open>len_dif\<close>, \<open>rk4_solver\<close>) and fit measured
  (time, temperature) series with the model \<open>fitFunc(t; To, k) = rk4_solver(0, To,
  0.1, t)\<close> through ROOT's \<open>TGraphErrors::Fit\<close>, one fit per container material
  sharing one \<open>TF1 f1\<close>.  \<open>gr1\<close> also synthesises time measurements: for
  temperatures \<open>30, 35, .., 75\<close> it draws \<open>nerr\<close> Gaussian temperatures, maps
  each through the closed-form inverse \<open>t = -ln((T - Ta)/(To - Ta))/k\<close>, histograms
  the times on \<open>[0, 2 t0)\<close> and takes the mean and RMS, with a clamp and a fallback
  error.  The rest of both macros draws canvases, pads, graphs and legends.

  \<^medskip>\<^bold>\<open>Theories and what they model.\<close>
  \<^item> \<open>Prelude\<close>: \<open>double\<close> (= \<open>real\<close>), the C conversion \<open>Int_t n =
    (x - xo)/h\<close> (\<open>double_to_Int_t\<close>: truncation, \<open>None\<close> outside Int_t), and
    shared lemmas on powers, weighted least squares and option lists.
  \<^item> \<open>Cooling\<close>: the globals (record \<open>globals\<close>, \<open>gr1_globals\<close> with
    \<open>Ta = 20\<close>, \<open>gr2_globals\<close> with \<open>Ta = -8\<close>), \<open>len_dif\<close> and the inverse
    \<open>inv_time\<close> (gr1.cpp 53/55), with \<open>None\<close> for every non-finite result.
  \<^item> \<open>Integrator\<close>: the integrator contract of the specification,
    \<open>integrate f x0 y0 h x_target\<close>, generic in the derivative \<open>f\<close>, with
    \<open>floor((x_target - x0)/h)\<close> applications of the four-stage update \<open>rk4_update\<close>.
  \<^item> \<open>RK4\<close>: \<open>rk4_step\<close> (loop body), \<open>rk4_loop\<close> (the counted loop),
    \<open>rk4_solver\<close> (gr1.cpp 278--290), and its refinement of \<open>integrate\<close>.
  \<^item> \<open>FitModel\<close>: \<open>point\<close>, \<open>fitFunc\<close> (gr1.cpp 292--300), the initial
    parameters \<open>f1_init\<close>, the chi-square objective \<open>chi2\<close> and its exact minimiser
    in \<open>To\<close>, \<open>fit_To\<close>.
  \<^item> \<open>Histogram\<close>: the fill-time statistics of ROOT's \<open>TH1D\<close> as a state record
    \<open>th1\<close> updated by \<open>th1_fill\<close>, read by \<open>th1_mean\<close>/\<open>th1_rms\<close>.
  \<^item> \<open>MonteCarlo\<close>: the constants \<open>gr1_config\<close>, the draw model \<open>gaus\<close>
    over an injected stream \<open>zs\<close> of standard normal variates (the seedable generator),
    \<open>t_err_draws\<close>, one checkpoint \<open>gr1_checkpoint\<close> and the loop
    \<open>gr1_simulation\<close> (gr1.cpp 47--64).
  \<^item> \<open>Directory\<close>: the histograms the Monte Carlo loop allocates with
    \<open>new TH1D("h1", ...)\<close> (gr1.cpp 51--56) on an explicit heap, and ROOT's current
    directory in which each constructor replaces the previous \<open>h1\<close>
    (\<open>dir_append\<close>); \<open>gr1_hist_loop\<close> is the loop as seen by that state.
  \<^item> \<open>Experiment\<close>: the literal datasets, \<open>tgraph_errors\<close>, \<open>tgraph_fit\<close>
    and the drivers \<open>gr1_run\<close>, \<open>gr2_run\<close> that thread \<open>f1\<close> through the fits.
  \<^item> \<open>Canvas\<close>: the pad layout \<open>CanvasPartition\<close> (gr1.cpp 304--380, the same code
    at gr2.cpp 262--338) as two folds over its loop-carried variables and the \<open>gROOT\<close>
    object store (a list of \<open>pad\<close> records: \<open>find_object\<close> is \<open>FindObject\<close>,
    \<open>delete_object\<close> the deletion of an older pad of the same name), the name buffer
    \<open>sprintf_pad_name\<close> and the drivers' lookup loop \<open>lookup_pads\<close>
    (gr1.cpp 91--104), with the closed-form layout \<open>canvas_layout\<close> they refine.
  \<^item> \<open>Session\<close>: the ROOT objects the drawing code manipulates and an
    interpreter for its statements.  The record \<open>session\<close> holds the pads, the
    current pad, the factors of gr1.cpp 113, the shared \<open>TF1 f1\<close>, the graphs,
    function pointers and legends by variable index, and the primitives drawn in each pad;
    the datatype \<open>op\<close> has one constructor per kind of statement of gr1.cpp 111--267
    and gr2.cpp 87--226 (\<open>cd\<close>, \<open>new TGraphErrors\<close>, marker settings,
    \<open>Draw\<close>, \<open>Fit\<close>, axis settings, \<open>GetFunction\<close>, legends, LaTeX,
    \<open>Update\<close>); \<open>scene_step\<close> executes one statement and returns \<open>None\<close> on a
    null or out-of-range pointer or a zero pad size, \<open>scene_run\<close> a list.  Aliasing
    is explicit: \<open>Fit\<close> stores a copy of \<open>f1\<close> in the graph, \<open>GetFunction\<close>
    returns a pointer to the graph's copy.  \<open>wf_picture\<close> is the well-formedness
    of the drawn pictures.
  \<^item> \<open>Scene\<close>: the statement lists of both macros, panel by panel
    (\<open>gr1_panel_plas\<close> \<dots> \<open>gr1_panel_fits\<close>, \<open>gr2_panel_plas\<close> \<dots>
    \<open>gr2_panel_fits\<close>), and the whole programs \<open>gr1_program\<close>,
    \<open>gr2_program\<close>: simulation, \<open>CanvasPartition\<close>, pad lookups, then the
    script run from \<open>scene_init\<close>.
  \<^item> this theory: properties that span the solver, the fit and the driver.
  Components interact by calls and by the shared globals, which every definition
  takes explicitly; the state shared across calls is the parameter vector of \<open>f1\<close>,
    threaded through the fits in code order, and the ROOT session of \<open>Session\<close>.

  \<^medskip>\<^bold>\<open>What is proved.\<close>  RK4 (C1--C7): closed form \<open>Ta + R(k h)\<^sup>n (yo - Ta)\<close>
  with the stability polynomial \<open>R\<close>, an order-four global error bound against the
  exact solution on grid points, a first-order bound off the grid together with a
  half-step target where the error really is of order \<open>h\<close> (the truncated step count
  drops the remainder interval); \<open>rk4_solver\<close> refines the specification's generic
  \<open>integrate\<close> at \<open>len_dif\<close>, failing exactly where the conversion is undefined
  (C5); monotone decay without overshoot; the undefined conversion of a quotient of at
  least \<open>2\<^sup>31\<close>.  Heap (C8): the Monte Carlo loop keeps the directory well formed
  and leaks every histogram but the last, \<open>npts - 1\<close> per run from a fresh session
  and \<open>npts\<close> per later run.  Inverse (C9--C11): round trips with the exact solution
  in both directions and the exact failure condition.  Fit (C12--C14): the model ignores
  its \<open>k\<close> parameter; \<open>fit_To\<close> is a global least-squares minimiser; noise-free
  data are fitted back exactly.  Monte Carlo (C15--C20): the noiseless estimate is exact;
  the time is clamped and lies below \<open>2 t0\<close>; a concrete stream gives a time error
  between \<open>sigma_temperatura\<close> and \<open>sigma_tiempo\<close> where the specification's
  estimator reports the floor; a checkpoint above \<open>To\<close> (gr1 generates 75 > 74) is
  reported at time 0; when every draw lies in the histogram range the checkpoint time
  is the specification's estimate \<open>mc_estimate\<close>.  Layout (C21--C28): the loops
  compute the closed-form layout when the names fit; the store keeps one pad per name, so
  that the drivers' lookups return the new pads even over stale ones;
  \<open>CanvasPartition\<close> fails exactly when a name overflows \<open>char name[16]\<close>; all
  frames are \<open>hStep \<times> vStep\<close>; for at least two columns and rows the pads tile the unit
  canvas from (0, 0) to (1, 1), while a single column loses its right margin; the names
  read back as their indices.  The whole of \<open>gr1\<close> (C29--C31): it runs to
  \<open>C->Update()\<close> for every stream, with no null pointer and no zero pad; the curves
  of its last panel carry the parameters \<open>gr1_run\<close> computes (the session model, with
  ROOT's copy of \<open>f1\<close> at each \<open>Fit\<close>, refines the data-flow model); its picture is
  well formed and goes to the four pads in order.  No property is stated of \<open>gr2\<close>,
  which does not compile.

  \<^medskip>\<^bold>\<open>Bounds and choices.\<close>  Doubles are reals: rounding is not modelled, and
  \<open>0.1\<close> is the exact \<open>1/10\<close>.  The error bounds of C2--C4 need \<open>k h \<le> 1\<close>, which
  the program satisfies by five orders of magnitude (\<open>k h = 7.64e-5\<close>).  The model
  domain \<open>0 \<le> t < 2\<^sup>31/10\<close> is where \<open>Int_t n = t/0.1\<close> is defined; all
  embedded times are below 2500.  The layout bound \<open>Nx, Ny \<le> 100000\<close> is where
  every name \<open>pad_i_j\<close> has at most ten digits and fits its buffer; the macros use
  \<open>Nx = Ny = 2\<close>.  No fuel is needed: every loop is counted.

  \<^medskip>\<^bold>\<open>Not modelled.\<close>  Rendering: the session records which object is drawn
  in which pad with which options and axis settings, not pixels, fonts, border and fill
  styles of the canvas, or the curve ROOT draws by itself after \<open>Fit\<close>; the
  factors \<open>xFactor\<close>, \<open>yFactor\<close> are computed but never read by the code;
  the bin contents of the histograms (display only), Minuit's iterations, covariance
  matrix and error estimates (the fitter is modelled by the optimum it converges to), and
  floating-point rounding.  The fitter model \<open>tgraph_fit\<close> follows the specification:
  it minimises the chi-square built from the temperature errors only and, since that
  objective does not depend on \<open>k\<close>, leaves \<open>k\<close> at its starting value; ROOT's
  \<open>TGraphErrors::Fit\<close> without the option \<open>EX0\<close> also folds the time errors in
  (effective variance), which is not modelled.  \<open>gr2.cpp\<close> does not compile as written (malformed literal
  at line 32, redeclared \<open>leg2\<close> at line 181); its data flow and script are modelled
  with the malformed value as a parameter and its second \<open>leg2\<close> as a separate legend,
  but no property is stated of a program that cannot run.
  The helper functions at the end of \<open>gr2.cpp\<close> (lines 229--338: \<open>len_dif\<close>,
  \<open>rk4_solver\<close>, \<open>fitFunc\<close>, \<open>CanvasPartition\<close>) are the text of
  gr1.cpp 273--381 up to white space; since every definition takes the globals as an
  argument, they are modelled by the same definitions applied to \<open>gr2_globals\<close>, and
  the map names the gr1.cpp lines.  The library code the macros call (ROOT's Minuit,
  \<open>TRandom3\<close>, \<open>TH1D\<close> binning, the graphics system) is not in the repository; it is
  modelled from its documented behaviour only where the macros read a result of it.
\<close>

text \<open>The three best-fit curves that gr1 draws in its last panel have the same shape: at every time t of the model domain each equals Ta + d(t) (To_i - Ta) with one decay factor d(t) common to the three materials, so they can differ only in their fitted initial temperature.\<close>

theorem gr1_best_fits_same_decay:
  assumes "gr1_run g c zs = Some out" and "0 \<le> t" and "t < 2 ^ 31 / 10"
  shows "fitFunc g t (f2_par out) = Some (Ta g + fit_decay g t * (fit_To g (plas_points out) - Ta g)) \<and>
         fitFunc g t (f3_par out) = Some (Ta g + fit_decay g t * (fit_To g (ceram_points out) - Ta g)) \<and>
         fitFunc g t (f4_par out) = Some (Ta g + fit_decay g t * (fit_To g (vidrio_points out) - Ta g))"
  using gr1_run_Some_parts(5-7) [OF assms(1)] fitFunc_eq [OF assms(2,3)] by simp

theorem gr1_best_fits_same_decay_witness:
  "\<exists>out. gr1_run gr1_globals gr1_config (\<lambda>_. 0) = Some out \<and> (0::real) \<le> 600 \<and> (600::real) < 2 ^ 31 / 10 \<and>
     fitFunc gr1_globals 600 (f2_par out) =
       Some (Ta gr1_globals + fit_decay gr1_globals 600 * (fit_To gr1_globals (plas_points out) - Ta gr1_globals)) \<and>
     fitFunc gr1_globals 600 (f3_par out) =
       Some (Ta gr1_globals + fit_decay gr1_globals 600 * (fit_To gr1_globals (ceram_points out) - Ta gr1_globals)) \<and>
     fitFunc gr1_globals 600 (f4_par out) =
       Some (Ta gr1_globals + fit_decay gr1_globals 600 * (fit_To gr1_globals (vidrio_points out) - Ta gr1_globals))"
proof -
  obtain ps where "gr1_simulation gr1_globals gr1_config (\<lambda>_. 0) = Some ps"
    using gr1_simulation_defined by blast
  then obtain out where out: "gr1_run gr1_globals gr1_config (\<lambda>_. 0) = Some out"
    using gr1_run_Some by blast
  have t: "(0::real) \<le> 600" "(600::real) < 2 ^ 31 / 10" by simp_all
  show ?thesis using gr1_best_fits_same_decay [OF out t] out t by blast
qed

end
